(* ===== verification/Prelude.thy ===== *)
theory Prelude
  imports Main "HOL-Library.Sublist"
begin

text \<open>
  Shared vocabulary of the development. The Python program raises exceptions; the model
  returns them as values of the sum type \<open>py_error + 'a\<close> (abbreviated \<open>'a result\<close>),
  \<open>Inl\<close> carrying the exception. The sequencing operator \<open>rbind\<close> is Python's
  "run this, and if it raised, propagate": it is how every component composes the calls
  it makes. \<open>map_r\<close> is a Python \<open>for\<close> loop whose body may raise: the first
  exception aborts the loop. Python strings are \<open>string\<close> (a \<open>char\<close> stands for one
  code point, so \<open>length\<close> is Python's \<open>len\<close>); dictionaries whose order is observable
  are association lists.
\<close>

named_theorems model_defs
  "definitions of the model's non-recursive operations, unfolded by the component proofs"

datatype py_error =
    IndexError
  | ValueError string
  | KeyError string
  | FileNotFoundError string
  | LoadError string
  | ProviderError string

type_synonym 'a result = "py_error + 'a"

definition rbind :: "'a result \<Rightarrow> ('a \<Rightarrow> 'b result) \<Rightarrow> 'b result" where
  "rbind r f = (case r of Inl e \<Rightarrow> Inl e | Inr a \<Rightarrow> f a)"

definition rmap :: "('a \<Rightarrow> 'b) \<Rightarrow> 'a result \<Rightarrow> 'b result" where
  "rmap f r = (case r of Inl e \<Rightarrow> Inl e | Inr a \<Rightarrow> Inr (f a))"

fun map_r :: "('a \<Rightarrow> 'b result) \<Rightarrow> 'a list \<Rightarrow> 'b list result" where
  "map_r f [] = Inr []"
| "map_r f (x # xs) = rbind (f x) (\<lambda>y. rmap (\<lambda>ys. y # ys) (map_r f xs))"

fun list_of_opt :: "'a option \<Rightarrow> 'a list" where
  "list_of_opt None = []"
| "list_of_opt (Some x) = [x]"

subsection \<open>Lemmas on results\<close>

lemma rbind_Inl [simp]: "rbind (Inl e) f = Inl e"
  by (simp add: rbind_def)

lemma rbind_Inr [simp]: "rbind (Inr a) f = f a"
  by (simp add: rbind_def)

lemma rmap_Inl [simp]: "rmap f (Inl e) = Inl e"
  by (simp add: rmap_def)

lemma rmap_Inr [simp]: "rmap f (Inr a) = Inr (f a)"
  by (simp add: rmap_def)

lemma rbind_eq_Inr_iff [simp]:
  "rbind r f = Inr b \<longleftrightarrow> (\<exists>a. r = Inr a \<and> f a = Inr b)"
  by (cases r) auto

lemma rmap_eq_Inr_iff [simp]:
  "rmap f r = Inr b \<longleftrightarrow> (\<exists>a. r = Inr a \<and> b = f a)"
  by (cases r) auto

lemma rbind_eq_Inl_iff:
  "rbind r f = Inl e \<longleftrightarrow> r = Inl e \<or> (\<exists>a. r = Inr a \<and> f a = Inl e)"
  by (cases r) auto

lemma rmap_eq_Inl_iff [simp]:
  "rmap f r = Inl e \<longleftrightarrow> r = Inl e"
  by (cases r) auto

lemma map_r_all_Inr:
  "(\<forall>x\<in>set xs. f x = Inr (g x)) \<Longrightarrow> map_r f xs = Inr (map g xs)"
  by (induction xs) auto

lemma map_r_Inr_length:
  "map_r f xs = Inr ys \<Longrightarrow> length ys = length xs"
  by (induction xs arbitrary: ys) auto

lemma map_r_Inr_nth:
  "map_r f xs = Inr ys \<Longrightarrow> i < length xs \<Longrightarrow> f (xs ! i) = Inr (ys ! i)"
proof (induction xs arbitrary: ys i)
  case Nil
  then show ?case by simp
next
  case (Cons x xs)
  then obtain y ys' where "f x = Inr y" "map_r f xs = Inr ys'" "ys = y # ys'"
    by auto
  with Cons show ?case by (cases i) auto
qed

lemma map_r_Inr_elem:
  assumes "map_r f xs = Inr ys" and "y \<in> set ys"
  shows "\<exists>x\<in>set xs. f x = Inr y"
proof -
  from assms(2) obtain i where i: "i < length ys" "ys ! i = y"
    by (auto simp: in_set_conv_nth)
  with map_r_Inr_length [OF assms(1)] have "i < length xs" by simp
  with map_r_Inr_nth [OF assms(1)] i show ?thesis
    by (metis nth_mem)
qed

lemma map_r_Inl_exists:
  "map_r f xs = Inl e \<Longrightarrow> \<exists>x\<in>set xs. f x = Inl e"
  by (induction xs) (auto simp: rbind_eq_Inl_iff split: sum.splits)

lemma map_r_Inl_first:
  "x \<in> set xs \<Longrightarrow> f x = Inl e \<Longrightarrow> \<exists>e'. map_r f xs = Inl e'"
  by (induction xs) (auto simp: rbind_def rmap_def split: sum.splits)

subsection \<open>Lemmas on lists and substrings\<close>

lemma set_list_of_opt [simp]: "set (list_of_opt x) = set_option x"
  by (cases x) auto

lemma concat_filter_nonempty [simp]: "concat (filter (\<lambda>s. s \<noteq> []) xs) = concat xs"
  by (induction xs) auto

lemma sublist_set: "sublist xs ys \<Longrightarrow> set xs \<subseteq> set ys"
  by (auto simp: sublist_def)

lemma sublist_trans [trans]: "sublist xs ys \<Longrightarrow> sublist ys zs \<Longrightarrow> sublist xs zs"
  by (rule sublist_order.order_trans)

lemma sublist_concat_infix:
  "sublist (concat ws) (concat (ps @ ws @ ss))"
  by simp

lemma suffix_concat: "suffix xs ys \<Longrightarrow> suffix (concat xs) (concat ys)"
  by (auto simp: suffix_def)

lemma sublist_concat_suffix_prefix:
  "suffix ws done \<Longrightarrow> sublist (concat ws) (concat (done @ rest))"
  by (auto simp: suffix_def)

lemma ball_set_map: "(\<forall>y\<in>set (map f xs). P y) \<longleftrightarrow> (\<forall>x\<in>set xs. P (f x))"
  by simp

lemma image_set_map_eq: "map f xs = map g ys \<Longrightarrow> f ` set xs = g ` set ys"
  by (metis list.set_map)

lemma disjoint_Un_right: "A \<inter> C = {} \<Longrightarrow> B \<inter> A = {} \<Longrightarrow> A \<inter> (C \<union> B) = {}"
  by blast

lemma sorted_take_drop_le:
  assumes "sorted (map f ys)" "x \<in> set (take k ys)" "y \<in> set (drop k ys)"
  shows "f x \<le> f y"
proof -
  have "sorted (map f (take k ys) @ map f (drop k ys))"
    using assms(1) by (metis append_take_drop_id map_append)
  then show ?thesis using assms(2,3) by (auto simp: sorted_append)
qed

lemma take_sort_key_top:
  fixes f :: "'a \<Rightarrow> 'b::linorder"
  assumes "x \<in> set xs" "length (filter (\<lambda>y. f y \<le> f x) xs) \<le> k"
  shows "x \<in> set (take k (sort_key f xs))"
proof (rule ccontr)
  let ?ys = "sort_key f xs"
  let ?P = "\<lambda>y. f y \<le> f x"
  assume out: "x \<notin> set (take k ?ys)"
  have "x \<in> set ?ys" using assms(1) by simp
  then have inr: "x \<in> set (drop k ?ys)" using out
    by (metis append_take_drop_id Un_iff set_append)
  then have "k < length ?ys" by (auto dest: set_drop_subset_set_drop simp: in_set_conv_nth)
  have sorted: "sorted (map f (take k ?ys) @ map f (drop k ?ys))"
    using sorted_sort_key [of f xs] by (metis append_take_drop_id map_append)
  have "\<forall>y\<in>set (take k ?ys). ?P y"
    using sorted inr by (auto simp: sorted_append)
  then have "filter ?P (take k ?ys) = take k ?ys" by simp
  then have "length (filter ?P (take k ?ys)) = k" using \<open>k < length ?ys\<close> by simp
  moreover have "x \<in> set (filter ?P (drop k ?ys))" using inr by simp
  then have "0 < length (filter ?P (drop k ?ys))" by (rule length_pos_if_in_set)
  moreover have "length (filter ?P ?ys) = length (filter ?P (take k ?ys)) + length (filter ?P (drop k ?ys))"
    by (metis append_take_drop_id filter_append length_append)
  moreover have "length (filter ?P ?ys) = length (filter ?P xs)"
    by (simp add: filter_sort)
  ultimately show False using assms(2) by linarith
qed

lemma ran_upd_cases: "c \<in> ran (m(a \<mapsto> b)) \<Longrightarrow> c = b \<or> c \<in> ran m"
  by (auto simp: ran_def split: if_splits)

end
