(* ===== verification/PyStr.thy ===== *)
theory PyStr
  imports Prelude
begin

text \<open>
  The Python string built-ins the program relies on, as the CPython runtime defines them:
  \<open>str.isspace\<close> and \<open>str.strip()\<close> (used by the text splitter and the line parser of
  the multi-query retriever), \<open>str.split(sep)\<close> and \<open>re.split\<close> on an escaped literal
  (the two agree for a non-empty separator), \<open>sep.join(xs)\<close>, and \<open>repr\<close> of strings and
  integers (used when a list of documents is formatted into a prompt). A \<open>char\<close> stands
  for a code point below 256; \<open>py_isspace\<close> lists exactly the code points in that range
  that CPython's \<open>str.isspace\<close> accepts.
\<close>

definition py_isspace :: "char \<Rightarrow> bool" where
  "py_isspace c \<longleftrightarrow>
     of_char c \<in> {9, 10, 11, 12, 13, 28, 29, 30, 31, 32, 133, 160 :: nat}"

definition py_strip :: "string \<Rightarrow> string" where
  "py_strip s = rev (dropWhile py_isspace (rev (dropWhile py_isspace s)))"

fun py_join :: "string \<Rightarrow> string list \<Rightarrow> string" where
  "py_join sep [] = []"
| "py_join sep [x] = x"
| "py_join sep (x # y # zs) = x @ sep @ py_join sep (y # zs)"

text \<open>
  \<open>split_on sep s\<close> is \<open>s.split(sep)\<close> (and \<open>re.split(re.escape(sep), s)\<close>): the pieces
  between the non-overlapping occurrences of \<open>sep\<close>, scanned from the left. It is only
  applied to a non-empty separator (Python's \<open>str.split\<close> raises on an empty one); the
  guard \<open>sep \<noteq> []\<close> in the scan makes the function total.
\<close>

function split_on_aux :: "string \<Rightarrow> string \<Rightarrow> string \<Rightarrow> string list" where
  "split_on_aux sep acc [] = [rev acc]"
| "split_on_aux sep acc (c # cs) =
     (if sep \<noteq> [] \<and> prefix sep (c # cs)
      then rev acc # split_on_aux sep [] (drop (length sep) (c # cs))
      else split_on_aux sep (c # acc) cs)"
  by pat_completeness auto
termination
  by (relation "measure (\<lambda>(sep, acc, s). length s)") auto

definition split_on :: "string \<Rightarrow> string \<Rightarrow> string list" where
  "split_on sep s = split_on_aux sep [] s"

definition hex_digit :: "nat \<Rightarrow> char" where
  "hex_digit n = (if n < 10 then char_of (48 + n) else char_of (87 + n))"

definition repr_char :: "char \<Rightarrow> char \<Rightarrow> string" where
  "repr_char q c =
     (if c = q \<or> c = CHR 0x5C then [CHR 0x5C, c]
      else if c = CHR 0x09 then [CHR 0x5C, CHR ''t'']
      else if c = CHR 0x0A then [CHR 0x5C, CHR ''n'']
      else if c = CHR 0x0D then [CHR 0x5C, CHR ''r'']
      else if (of_char c :: nat) < 32 \<or> 127 \<le> (of_char c :: nat) \<and> (of_char c :: nat) \<le> 160
              \<or> (of_char c :: nat) = 173
      then [CHR 0x5C, CHR ''x'', hex_digit (of_char c div 16), hex_digit (of_char c mod 16)]
      else [c])"

text \<open>
  \<open>repr\<close> of a string (CPython's \<open>unicode_repr\<close>): single quotes unless the string
  contains a single quote and no double quote; the quote, the backslash and the
  non-printable code points are escaped.
\<close>

definition str_repr :: "string \<Rightarrow> string" where
  "str_repr s =
     (let q = (if CHR 0x27 \<in> set s \<and> CHR 0x22 \<notin> set s then CHR 0x22 else CHR 0x27)
      in q # concat (map (repr_char q) s) @ [q])"

fun nat_digits :: "nat \<Rightarrow> string" where
  "nat_digits n = (if n < 10 then [char_of (48 + n)] else nat_digits (n div 10) @ [char_of (48 + n mod 10)])"

declare nat_digits.simps [simp del]

definition int_repr :: "int \<Rightarrow> string" where
  "int_repr i = (if i < 0 then CHR ''-'' # nat_digits (nat (- i)) else nat_digits (nat i))"

subsection \<open>Lemmas\<close>

lemma py_strip_suffix_prefix:
  "\<exists>a b. s = a @ py_strip s @ b"
proof -
  let ?s1 = "dropWhile py_isspace s"
  have s1: "s = takeWhile py_isspace s @ ?s1" by simp
  have "?s1 = rev (takeWhile py_isspace (rev ?s1) @ dropWhile py_isspace (rev ?s1))"
    by (simp only: takeWhile_dropWhile_id rev_rev_ident)
  also have "\<dots> = py_strip s @ rev (takeWhile py_isspace (rev ?s1))"
    by (simp only: rev_append py_strip_def)
  finally have "s = takeWhile py_isspace s @ py_strip s @ rev (takeWhile py_isspace (rev ?s1))"
    using s1 by (metis append_assoc)
  then show ?thesis by blast
qed

lemma sublist_py_strip [simp, intro]: "sublist (py_strip s) s"
  using py_strip_suffix_prefix [of s] by (auto simp: sublist_def)

lemma length_py_strip_le [simp]: "length (py_strip s) \<le> length s"
proof -
  obtain a b where "s = a @ py_strip s @ b" using py_strip_suffix_prefix by blast
  then have "length s = length a + length (py_strip s) + length b"
    by (metis length_append add.assoc)
  then show ?thesis by linarith
qed

lemma length_py_join:
  "length (py_join sep xs) = sum_list (map length xs) + length sep * (length xs - 1)"
  by (induction sep xs rule: py_join.induct) auto

lemma py_join_Nil_sep [simp]: "py_join [] xs = concat xs"
  by (induction "[] :: string" xs rule: py_join.induct) auto

lemma py_join_snoc:
  "xs \<noteq> [] \<Longrightarrow> py_join sep (xs @ [x]) = py_join sep xs @ sep @ x"
  by (induction sep xs rule: py_join.induct) auto

lemma split_on_aux_nonempty [simp]: "split_on_aux sep acc s \<noteq> []"
  by (induction sep acc s rule: split_on_aux.induct) auto
lemma prefix_append_drop: "prefix xs ys \<Longrightarrow> ys = xs @ drop (length xs) ys"
  by (auto simp: prefix_def)

lemma py_join_Cons_nonempty:
  "ys \<noteq> [] \<Longrightarrow> py_join sep (x # ys) = x @ sep @ py_join sep ys"
  by (cases ys) auto

text \<open>Splitting and joining with the same separator is the identity (a round trip).\<close>

lemma py_join_split_on_aux:
  "py_join sep (split_on_aux sep acc s) = rev acc @ s"
proof (induction sep acc s rule: split_on_aux.induct)
  case (1 sep acc)
  then show ?case by simp
next
  case (2 sep acc c cs)
  show ?case
  proof (cases "sep \<noteq> [] \<and> prefix sep (c # cs)")
    case True
    let ?rest = "drop (length sep) (c # cs)"
    have "py_join sep (split_on_aux sep acc (c # cs)) =
          rev acc @ sep @ py_join sep (split_on_aux sep [] ?rest)"
      using True by (subst split_on_aux.simps) (simp add: py_join_Cons_nonempty)
    also have "\<dots> = rev acc @ sep @ ?rest"
      using True "2.IH"(1) by simp
    also have "\<dots> = rev acc @ c # cs"
      using True prefix_append_drop by fastforce
    finally show ?thesis .
  next
    case False
    then have "split_on_aux sep acc (c # cs) = split_on_aux sep (c # acc) cs"
      by (simp only: split_on_aux.simps if_False)
    with False "2.IH"(2) show ?thesis by simp
  qed
qed

lemma py_join_split_on: "py_join sep (split_on sep s) = s"
  by (simp add: split_on_def py_join_split_on_aux)

lemma length_py_join_Cons:
  "length (py_join sep (c # cs)) = length c + (if cs \<noteq> [] then length sep else 0) + length (py_join sep cs)"
  by (cases cs) auto

lemma py_join_append:
  "py_join sep (xs @ ys) =
     py_join sep xs @ (if xs \<noteq> [] \<and> ys \<noteq> [] then sep else []) @ py_join sep ys"
proof (induction sep xs rule: py_join.induct)
  case (2 sep x)
  then show ?case by (cases ys) auto
qed auto

lemma sublist_py_join_infix:
  "sublist (py_join sep w) (py_join sep (a @ w @ b))"
proof -
  have "py_join sep (a @ w @ b) =
      (py_join sep a @ (if a \<noteq> [] \<and> w @ b \<noteq> [] then sep else [])) @ py_join sep w @
      ((if w \<noteq> [] \<and> b \<noteq> [] then sep else []) @ py_join sep b)"
    by (simp only: py_join_append append_assoc)
  then show ?thesis by (simp only:) (rule sublist_appendI)
qed

lemma py_join_pos:
  "cs \<noteq> [] \<Longrightarrow> \<forall>c\<in>set cs. c \<noteq> [] \<Longrightarrow> 0 < length (py_join sep cs)"
  by (cases cs) (auto simp: length_py_join_Cons)

lemma py_join_Cons_concat:
  "py_join sep (p # ps) = p @ concat (map (\<lambda>q. sep @ q) ps)"
  by (induction ps arbitrary: p) (auto simp: py_join_Cons_nonempty)

text \<open>\<open>repr\<close> never produces a raw line break: it is escaped as a backslash and \<open>n\<close>.\<close>

lemma set_py_join: "set (py_join sep xs) \<subseteq> set sep \<union> \<Union> (set ` set xs)"
  by (induction sep xs rule: py_join.induct) auto

lemma char_of_neq_nl: "(n :: nat) < 246 \<Longrightarrow> n \<noteq> 10 \<Longrightarrow> char_of n \<noteq> CHR ''\<newline>''"
proof
  assume n: "n < 246" "n \<noteq> 10" and "char_of n = CHR ''\<newline>''"
  then have "of_char (char_of n :: char) = (of_char CHR ''\<newline>'' :: nat)" by simp
  with n show False by (simp add: of_char_of)
qed

lemma hex_digit_not_nl: "n < 16 \<Longrightarrow> CHR ''\<newline>'' \<noteq> hex_digit n"
  using char_of_neq_nl [of "48 + n"] char_of_neq_nl [of "87 + n"] by (auto simp: hex_digit_def)

lemma repr_char_not_nl:
  "q \<noteq> CHR ''\<newline>'' \<Longrightarrow> CHR ''\<newline>'' \<notin> set (repr_char q c)"
proof -
  assume q: "q \<noteq> CHR ''\<newline>''"
  have "of_char c < (256 :: nat)" by (rule nat_of_char_less_256)
  then have "(of_char c :: nat) div 16 < 16" "(of_char c :: nat) mod 16 < 16"
    by (simp_all add: div_less_iff_less_mult)
  with q show ?thesis by (auto simp: repr_char_def hex_digit_not_nl)
qed

lemma str_repr_not_nl: "CHR ''\<newline>'' \<notin> set (str_repr s)"
  using repr_char_not_nl [of "CHR 0x22"] repr_char_not_nl [of "CHR 0x27"]
  by (auto simp: str_repr_def Let_def)

lemma digit_not_nl: "(d :: nat) < 10 \<Longrightarrow> CHR ''\<newline>'' \<noteq> char_of (48 + d)"
  using char_of_neq_nl [of "48 + d"] by auto

lemma nat_digits_not_nl: "CHR ''\<newline>'' \<notin> set (nat_digits n)"
proof (induction n rule: nat_digits.induct)
  case (1 n)
  have "n mod 10 < 10" by simp
  then show ?case using 1 by (subst nat_digits.simps) (auto simp: digit_not_nl)
qed

lemma int_repr_not_nl: "CHR ''\<newline>'' \<notin> set (int_repr i)"
  by (simp add: int_repr_def nat_digits_not_nl)

end
