(* ===== verification/Documents.thy ===== *)
theory Documents
  imports PyStr
begin

text \<open>
  The data model shared by every stage of the pipeline: LangChain's \<open>Document\<close>
  (\<open>langchain_core.documents.Document\<close>), which the loaders produce, the splitter copies,
  the vector store persists and returns, and the answer chain formats into its prompt.
  A document has its text (\<open>page_content\<close>), a metadata dictionary and an optional
  identifier (\<open>id\<close>, set by the vector store on the documents it returns). Metadata
  values in this program are strings (\<open>"source"\<close>) and integers (\<open>"page"\<close>); the
  dictionary keeps its insertion order, which its \<open>repr\<close> shows, so it is an
  association list.
\<close>

datatype mval = MStr string | MInt int

type_synonym metadata = "(string \<times> mval) list"

record document =
  page_content :: string
  metadata :: metadata
  doc_id :: "string option"

definition mk_document :: "string \<Rightarrow> metadata \<Rightarrow> document" where
  "mk_document t m = \<lparr>page_content = t, metadata = m, doc_id = None\<rparr>"

lemma mk_document_sel [simp]:
  "page_content (mk_document t m) = t"
  "metadata (mk_document t m) = m"
  "doc_id (mk_document t m) = None"
  by (simp_all add: mk_document_def)

end
