(* ===== verification/VectorStore.thy ===== *)
theory VectorStore
  imports Complex_Main "HOL-Library.Multiset" Documents
begin

text \<open>
  The indexer and the persisted index (spec 4.3 and 6): \<open>create_vector_store(chunks)\<close> of
  \<open>src/Rag/Rag_project.py\<close> calls \<open>Chroma.from_documents(documents=chunks,
  embedding=OpenAIEmbeddings(model="text-embedding-3-small"), persist_directory=CHROMA_PATH)\<close>;
  the retriever reads the same directory through \<open>vector_store.as_retriever(
  search_type="similarity", search_kwargs={"k": 5})\<close>.

  The store is the file system seen by Chroma: a map from directory paths to the persisted
  collection (a list of records: id, vector, text, metadata), the supply of fresh ids that
  \<open>uuid.uuid4()\<close> stands for, and the client's maximal batch size. The embedding provider
  is a parameter: \<open>embed_documents\<close> and \<open>embed_query\<close> return vectors or raise.
  What \<open>langchain_chroma\<close> does is modelled from its code: opening a persistent client
  creates the directory (with an empty collection) before anything is embedded;
  \<open>from_texts\<close> assigns an id to every document, cuts the texts into batches and calls
  \<open>add_texts\<close> per batch, which embeds the batch and then upserts it (documents with
  metadata first, then those without); an exception in one batch leaves the batches
  before it committed. The nearest-neighbour search is exact here (Chroma's HNSW index is
  approximate): the \<open>k\<close> records nearest to the query vector in squared Euclidean distance
  (Chroma's default \<open>l2\<close> space), ties kept in insertion order.
\<close>

type_synonym vector = "real list"

record entry =
  ent_id :: string
  ent_vec :: vector
  ent_text :: string
  ent_meta :: metadata

type_synonym collection = "entry list"

record embeddings =
  embed_documents :: "string list \<Rightarrow> vector list result"
  embed_query :: "string \<Rightarrow> vector result"

record store =
  disk :: "string \<Rightarrow> collection option"
  next_uid :: nat
  max_batch :: nat

definition CHROMA_PATH :: string where
  "CHROMA_PATH = ''chroma_db''"

definition uuid_str :: "nat \<Rightarrow> string" where
  "uuid_str n = ''uuid-'' @ nat_digits n"

text \<open>A collection's upsert: a record with a known id replaces it, a new id is appended.\<close>

fun upsert :: "collection \<Rightarrow> entry \<Rightarrow> collection" where
  "upsert [] e = [e]"
| "upsert (x # xs) e = (if ent_id x = ent_id e then e # xs else x # upsert xs e)"

text \<open>\<open>create_batches\<close>: consecutive slices of at most \<open>n\<close> items.\<close>

function batches :: "nat \<Rightarrow> 'a list \<Rightarrow> 'a list list" where
  "batches n xs = (if xs = [] then [] else if n = 0 then [xs] else take n xs # batches n (drop n xs))"
  by pat_completeness auto
termination
  by (relation "measure (\<lambda>(n, xs). length xs)") auto

text \<open>
  \<open>Chroma.add_texts\<close> for one batch of \<open>(id, text, metadata)\<close>: embed the texts (an
  exception of the provider propagates), check that one vector came back per text (Chroma's
  upsert raises otherwise), then upsert the records with non-empty metadata and after them
  those with empty metadata.
\<close>

definition add_texts ::
    "embeddings \<Rightarrow> (string \<times> string \<times> metadata) list \<Rightarrow> collection \<Rightarrow> collection result" where
  "add_texts emb items c =
     rbind (embed_documents emb (map (\<lambda>(i, t, m). t) items)) (\<lambda>vecs.
       if length vecs \<noteq> length items
       then Inl (ValueError ''Number of embeddings does not match number of ids'')
       else
         (let recs = map (\<lambda>((i, t, m), v). \<lparr>ent_id = i, ent_vec = v, ent_text = t, ent_meta = m\<rparr>)
                       (zip items vecs)
          in Inr (foldl upsert c (filter (\<lambda>r. ent_meta r \<noteq> []) recs @
                                   filter (\<lambda>r. ent_meta r = []) recs))))"

text \<open>
  The batch loop of \<open>from_texts\<close>: each batch is committed before the next one is embedded;
  the first exception stops the loop and is returned with the collection as far as it got.
\<close>

fun add_batches ::
    "embeddings \<Rightarrow> (string \<times> string \<times> metadata) list list \<Rightarrow> collection \<Rightarrow> collection \<times> py_error option" where
  "add_batches emb [] c = (c, None)"
| "add_batches emb (b # bs) c =
     (case add_texts emb b c of Inl e \<Rightarrow> (c, Some e) | Inr c' \<Rightarrow> add_batches emb bs c')"

text \<open>\<open>Chroma(persist_directory=p)\<close>: the persistent client creates the directory.\<close>

definition chroma_open :: "store \<Rightarrow> string \<Rightarrow> store" where
  "chroma_open st p =
     st\<lparr>disk := (disk st)(p \<mapsto> (case disk st p of None \<Rightarrow> [] | Some c \<Rightarrow> c))\<rparr>"

text \<open>The ids \<open>from_documents\<close> gives: the document's own id, else a fresh \<open>uuid4\<close>.\<close>

fun assign_ids :: "nat \<Rightarrow> document list \<Rightarrow> (string \<times> string \<times> metadata) list \<times> nat" where
  "assign_ids n [] = ([], n)"
| "assign_ids n (d # ds) =
     (case doc_id d of
        Some i \<Rightarrow> (let (rest, n') = assign_ids n ds in ((i, page_content d, metadata d) # rest, n'))
      | None \<Rightarrow> (let (rest, n') = assign_ids (Suc n) ds
                 in ((uuid_str n, page_content d, metadata d) # rest, n')))"

text \<open>
  \<open>Chroma.from_documents(documents, embedding, persist_directory=p)\<close>: open (and create)
  the directory, give the documents ids, add them batch by batch, and write back what was
  committed. The result is the handle of the store (its directory) or the exception.
\<close>

definition chroma_from_documents ::
    "embeddings \<Rightarrow> string \<Rightarrow> document list \<Rightarrow> store \<Rightarrow> string result \<times> store" where
  "chroma_from_documents emb p docs st =
     (let st1 = chroma_open st p;
          (items, n') = assign_ids (next_uid st1) docs;
          (c', err) = add_batches emb (batches (max_batch st1) items) (the (disk st1 p));
          st2 = st1\<lparr>disk := (disk st1)(p \<mapsto> c'), next_uid := n'\<rparr>
      in (case err of None \<Rightarrow> Inr p | Some e \<Rightarrow> Inl e, st2))"

text \<open>\<open>create_vector_store(chunks)\<close> (lines 147--163).\<close>

definition create_vector_store :: "embeddings \<Rightarrow> document list \<Rightarrow> store \<Rightarrow> string result \<times> store" where
  "create_vector_store emb chunks st = chroma_from_documents emb CHROMA_PATH chunks st"

text \<open>
  \<open>Chroma(persist_directory=CHROMA_PATH, embedding_function=embeddings)\<close> when the
  directory exists (the \<open>else\<close> branch of \<open>__main__\<close> and \<open>init_rag\<close>): open it.
\<close>

definition load_vector_store :: "store \<Rightarrow> string \<times> store" where
  "load_vector_store st = (CHROMA_PATH, chroma_open st CHROMA_PATH)"

subsection \<open>Similarity search\<close>

definition l2_distance :: "vector \<Rightarrow> vector \<Rightarrow> real" where
  "l2_distance u v = sum_list (map (\<lambda>(a, b). (a - b) ^ 2) (zip u v))"

definition entry_document :: "entry \<Rightarrow> document" where
  "entry_document e = \<lparr>page_content = ent_text e, metadata = ent_meta e, doc_id = Some (ent_id e)\<rparr>"

text \<open>
  \<open>similarity_search(query, k)\<close>: embed the query, return the documents of the \<open>k\<close>
  nearest records. A directory that is not there (deleted under a live handle) is an error.
\<close>

definition similarity_search ::
    "embeddings \<Rightarrow> store \<Rightarrow> string \<Rightarrow> nat \<Rightarrow> string \<Rightarrow> document list result" where
  "similarity_search emb st p k q =
     (case disk st p of
        None \<Rightarrow> Inl (ValueError ''Collection does not exist'')
      | Some c \<Rightarrow>
          rbind (embed_query emb q) (\<lambda>v.
            Inr (map entry_document (take k (sort_key (\<lambda>e. l2_distance v (ent_vec e)) c)))))"

text \<open>The base retriever of \<open>get_retriever\<close> (lines 202--205): similarity search, \<open>k = 5\<close>.\<close>

definition base_retriever :: "embeddings \<Rightarrow> store \<Rightarrow> string \<Rightarrow> string \<Rightarrow> document list result" where
  "base_retriever emb st p q = similarity_search emb st p 5 q"

text \<open>
  Well-formedness of the persisted collections: in every directory the record ids are
  pairwise distinct and each is a \<open>uuid4\<close> already handed out (\<open>uuid_str k\<close>,
  \<open>k < next_uid\<close>), so a later build can never collide with a stored id.
\<close>

definition store_wf :: "store \<Rightarrow> bool" where
  "store_wf st =
     (\<forall>c\<in>ran (disk st). distinct (map ent_id c) \<and> ent_id ` set c \<subseteq> uuid_str ` {..<next_uid st})"

text \<open>
  Reading back a decimal numeral (the inverse of \<open>nat_digits\<close>, used to show that the
  generated ids are pairwise distinct) and the part of a record the caller supplied.
\<close>

definition parse_digits :: "string \<Rightarrow> nat" where
  "parse_digits s = foldl (\<lambda>a c. 10 * a + (of_char c - 48)) 0 s"

definition entry_key :: "entry \<Rightarrow> string \<times> string \<times> metadata" where
  "entry_key e = (ent_id e, ent_text e, ent_meta e)"

subsection \<open>Lemmas: ids, upserts and batches\<close>

lemma of_char_char_of_small: "n < 256 \<Longrightarrow> of_char (char_of n :: char) = (n :: nat)"
  by (simp add: of_char_of)

lemma parse_digits_nat_digits: "parse_digits (nat_digits n) = n"
proof (induction n rule: nat_digits.induct)
  case (1 n)
  show ?case
  proof (cases "n < 10")
    case True
    then show ?thesis
      by (subst nat_digits.simps) (simp add: parse_digits_def of_char_char_of_small)
  next
    case False
    then have "parse_digits (nat_digits n) =
        10 * parse_digits (nat_digits (n div 10)) + (n mod 10)"
      by (subst nat_digits.simps) (simp add: parse_digits_def of_char_char_of_small)
    with "1.IH" False show ?thesis by simp
  qed
qed

lemma nat_digits_inj: "nat_digits m = nat_digits n \<Longrightarrow> m = n"
  by (metis parse_digits_nat_digits)

lemma uuid_str_inj [simp]: "uuid_str m = uuid_str n \<longleftrightarrow> m = n"
  by (auto simp: uuid_str_def dest: nat_digits_inj)

lemma upsert_fresh:
  "ent_id e \<notin> ent_id ` set c \<Longrightarrow> upsert c e = c @ [e]"
  by (induction c) auto

lemma foldl_upsert_fresh:
  "distinct (map ent_id es) \<Longrightarrow> ent_id ` set es \<inter> ent_id ` set c = {} \<Longrightarrow>
   foldl upsert c es = c @ es"
proof (induction es arbitrary: c)
  case Nil
  then show ?case by simp
next
  case (Cons e es)
  then have "upsert c e = c @ [e]" by (intro upsert_fresh) auto
  with Cons show ?case by auto
qed

lemma batches_concat: "concat (batches n xs) = xs"
  by (induction n xs rule: batches.induct) (subst batches.simps, auto)

lemma map_entry_key_recs:
  "length vecs = length items \<Longrightarrow>
   map entry_key (map (\<lambda>((i, t, m), v). \<lparr>ent_id = i, ent_vec = v, ent_text = t, ent_meta = m\<rparr>)
     (zip items vecs)) = items"
proof (induction items arbitrary: vecs)
  case Nil
  then show ?case by simp
next
  case (Cons x xs)
  then obtain v vs where "vecs = v # vs" "length vs = length xs" by (cases vecs) auto
  with Cons show ?case by (cases x) (auto simp: entry_key_def)
qed

lemma add_texts_ok:
  assumes emb: "embed_documents emb (map (\<lambda>(i, t, m). t) items) = Inr vecs" "length vecs = length items"
    and ids: "distinct (map fst items)" "fst ` set items \<inter> ent_id ` set c = {}"
    and meta: "\<forall>x\<in>set items. snd (snd x) \<noteq> []"
  shows "\<exists>rs. add_texts emb items c = Inr (c @ rs) \<and> map entry_key rs = items"
proof -
  let ?recs = "map (\<lambda>((i, t, m), v). \<lparr>ent_id = i, ent_vec = v, ent_text = t, ent_meta = m\<rparr>)
                 (zip items vecs)"
  have keys: "map entry_key ?recs = items" using emb(2) by (rule map_entry_key_recs)
  have idr: "map ent_id ?recs = map fst items"
    using arg_cong [OF keys, of "map fst"] by (simp add: entry_key_def comp_def)
  have mr: "map ent_meta ?recs = map (\<lambda>x. snd (snd x)) items"
    using arg_cong [OF keys, of "map (\<lambda>x. snd (snd x))"] by (simp add: entry_key_def comp_def)
  have "list_all (\<lambda>m. m \<noteq> []) (map ent_meta ?recs)"
    unfolding mr using meta by (simp add: list_all_iff)
  then have all: "\<forall>r\<in>set ?recs. ent_meta r \<noteq> []"
    unfolding list_all_iff by (rule ball_set_map [THEN iffD1])
  have f1: "filter (\<lambda>r. ent_meta r \<noteq> []) ?recs = ?recs" using all by (rule filter_True)
  have f2: "filter (\<lambda>r. ent_meta r = []) ?recs = []" using all by (rule filter_False)
  have "ent_id ` set ?recs = fst ` set items" using idr by (rule image_set_map_eq)
  then have "foldl upsert c ?recs = c @ ?recs"
    using ids by (intro foldl_upsert_fresh) (simp_all only: idr)
  moreover have "add_texts emb items c =
      Inr (foldl upsert c (filter (\<lambda>r. ent_meta r \<noteq> []) ?recs @ filter (\<lambda>r. ent_meta r = []) ?recs))"
    unfolding add_texts_def using emb by (simp add: Let_def)
  ultimately show ?thesis
    using keys by (simp only: f1 f2 append_Nil2) blast
qed

lemma add_batches_ok:
  assumes emb: "\<forall>ts. \<exists>vs. embed_documents emb ts = Inr vs \<and> length vs = length ts"
    and ids: "distinct (map fst (concat bs))" "fst ` set (concat bs) \<inter> ent_id ` set c = {}"
    and meta: "\<forall>x\<in>set (concat bs). snd (snd x) \<noteq> []"
  shows "\<exists>c'. add_batches emb bs c = (c @ c', None) \<and> map entry_key c' = concat bs"
  using ids meta
proof (induction bs arbitrary: c)
  case Nil
  then show ?case by simp
next
  case (Cons b bs)
  obtain vecs where v: "embed_documents emb (map (\<lambda>(i, t, m). t) b) = Inr vecs"
      "length vecs = length b"
    using emb by fastforce
  from Cons.prems have "distinct (map fst b)" "fst ` set b \<inter> ent_id ` set c = {}"
      "\<forall>x\<in>set b. snd (snd x) \<noteq> []"
    by auto
  from add_texts_ok [OF v this] obtain rs where
    rs: "add_texts emb b c = Inr (c @ rs)" "map entry_key rs = b" by blast
  have "ent_id ` set rs = fst ` set b"
    using arg_cong [OF rs(2), of "\<lambda>xs. set (map fst xs)"] by (simp add: entry_key_def image_image)
  then have u: "ent_id ` set (c @ rs) = ent_id ` set c \<union> fst ` set b" by auto
  have d1: "fst ` set b \<inter> fst ` set (concat bs) = {}"
    using Cons.prems(1) by simp
  have d2: "fst ` set (concat bs) \<inter> ent_id ` set c = {}"
    using Cons.prems(2) by (simp only: concat.simps set_append image_Un Int_Un_distrib2 Un_empty)
  have "fst ` set (concat bs) \<inter> ent_id ` set (c @ rs) = {}"
    unfolding u using d2 d1 by (rule disjoint_Un_right)
  moreover have "distinct (map fst (concat bs))" "\<forall>x\<in>set (concat bs). snd (snd x) \<noteq> []"
    using Cons.prems by auto
  ultimately have "distinct (map fst (concat bs))"
      "fst ` set (concat bs) \<inter> ent_id ` set (c @ rs) = {}"
      "\<forall>x\<in>set (concat bs). snd (snd x) \<noteq> []"
    by simp_all
  from Cons.IH [OF this] obtain c'' where
    "add_batches emb bs (c @ rs) = ((c @ rs) @ c'', None)" "map entry_key c'' = concat bs"
    by blast
  with rs show ?case by auto
qed

lemma assign_ids_fresh:
  "\<forall>d\<in>set ds. doc_id d = None \<Longrightarrow>
   assign_ids n ds =
     (map (\<lambda>(i, d). (uuid_str i, page_content d, metadata d)) (zip [n..<n + length ds] ds), n + length ds)"
proof (induction ds arbitrary: n)
  case Nil
  then show ?case by simp
next
  case (Cons d ds)
  have "[n..<n + length (d # ds)] = n # [Suc n..<Suc n + length ds]"
    by (subst upt_conv_Cons) auto
  with Cons show ?case by simp
qed

lemma map_fst_assigned:
  "length xs = length ds \<Longrightarrow>
   map fst (map (\<lambda>(i, d). (uuid_str i, page_content d, metadata d)) (zip xs ds)) = map uuid_str xs"
  by (induction xs ds rule: list_induct2) auto

lemma map_snd_assigned:
  "length xs = length ds \<Longrightarrow>
   map snd (map (\<lambda>(i, d). (uuid_str i, page_content d, metadata d)) (zip xs ds)) =
   map (\<lambda>d. (page_content d, metadata d)) ds"
  by (induction xs ds rule: list_induct2) auto

lemma distinct_uuids: "distinct (map uuid_str [m..<n])"
  by (simp add: distinct_map inj_on_def)

lemma chroma_from_documents_ok:
  assumes emb: "\<forall>ts. \<exists>vs. embed_documents emb ts = Inr vs \<and> length vs = length ts"
    and docs: "\<forall>d\<in>set docs. doc_id d = None \<and> metadata d \<noteq> []"
    and fresh: "ent_id ` set (case disk st p of None \<Rightarrow> [] | Some c \<Rightarrow> c) \<inter> uuid_str ` {next_uid st..} = {}"
  shows "\<exists>c. chroma_from_documents emb p docs st =
            (Inr p, st\<lparr>disk := (disk st)(p \<mapsto> (case disk st p of None \<Rightarrow> [] | Some c \<Rightarrow> c) @ c),
                       next_uid := next_uid st + length docs\<rparr>)
          \<and> map (\<lambda>e. (ent_text e, ent_meta e)) c = map (\<lambda>d. (page_content d, metadata d)) docs
          \<and> map ent_id c = map uuid_str [next_uid st..<next_uid st + length docs]"
proof -
  define n where "n = next_uid st"
  define c0 where "c0 = (case disk st p of None \<Rightarrow> [] | Some c \<Rightarrow> c)"
  define items where "items = map (\<lambda>(i, d). (uuid_str i, page_content d, metadata d))
                                 (zip [n..<n + length docs] docs)"
  have ai: "assign_ids n docs = (items, n + length docs)"
    unfolding items_def using docs by (simp add: assign_ids_fresh)
  have fi: "map fst items = map uuid_str [n..<n + length docs]"
    unfolding items_def by (rule map_fst_assigned) simp
  have si: "map snd items = map (\<lambda>d. (page_content d, metadata d)) docs"
    unfolding items_def by (rule map_snd_assigned) simp
  have "distinct (map fst (concat (batches (max_batch st) items)))"
    unfolding batches_concat fi by (rule distinct_uuids)
  moreover have "fst ` set (concat (batches (max_batch st) items)) \<inter> ent_id ` set c0 = {}"
  proof -
    have "fst ` set items \<subseteq> uuid_str ` {n..}"
      using arg_cong [OF fi, of set] by auto
    then show ?thesis using fresh unfolding batches_concat c0_def n_def by blast
  qed
  moreover have "\<forall>x\<in>set (concat (batches (max_batch st) items)). snd (snd x) \<noteq> []"
    unfolding batches_concat items_def using docs by (auto simp: set_zip)
  ultimately obtain c' where
    ab: "add_batches emb (batches (max_batch st) items) c0 = (c0 @ c', None)"
    and k: "map entry_key c' = concat (batches (max_batch st) items)"
    using add_batches_ok [OF emb] by blast
  have k': "map entry_key c' = items" using k by (simp only: batches_concat)
  have "map (\<lambda>e. (ent_text e, ent_meta e)) c' = map snd (map entry_key c')"
    by (simp add: entry_key_def)
  then have t: "map (\<lambda>e. (ent_text e, ent_meta e)) c' = map (\<lambda>d. (page_content d, metadata d)) docs"
    by (simp only: k' si)
  have "map ent_id c' = map fst (map entry_key c')"
    by (simp add: entry_key_def)
  then have i: "map ent_id c' = map uuid_str [n..<n + length docs]"
    by (simp only: k' fi)
  have "chroma_from_documents emb p docs st =
          (Inr p, st\<lparr>disk := (disk st)(p \<mapsto> c0 @ c'), next_uid := n + length docs\<rparr>)"
    using ai ab unfolding chroma_from_documents_def chroma_open_def c0_def n_def
    by (simp del: batches.simps)
  with t i show ?thesis unfolding c0_def n_def by blast
qed

lemma length_assign_ids: "length (fst (assign_ids n ds)) = length ds"
  by (induction n ds rule: assign_ids.induct) (auto split: option.splits prod.splits)

lemma batches_Cons: "xs \<noteq> [] \<Longrightarrow> \<exists>b bs. batches n xs = b # bs \<and> b \<noteq> []"
  by (subst batches.simps) (auto simp: take_eq_Nil)

lemma add_texts_provider_down:
  "embed_documents emb (map (\<lambda>(i, t, m). t) b) = Inl e \<Longrightarrow> add_texts emb b c = Inl e"
  by (simp add: add_texts_def)

lemma l2_distance_nonneg: "0 \<le> l2_distance u v"
  unfolding l2_distance_def by (rule sum_list_nonneg) auto

lemma l2_distance_self: "l2_distance v v = 0"
  unfolding l2_distance_def by (induction v) auto

subsection \<open>Building the index\<close>

text \<open>
  C6. A build into a directory that does not exist yet, with a provider that returns one
  vector per text, succeeds: \<open>create_vector_store\<close> returns the handle of
  \<open>CHROMA_PATH\<close>, the directory then holds exactly one record per chunk, in the order
  of the chunks, with the chunk's text and metadata, and the records' ids are pairwise
  distinct (fresh \<open>uuid4\<close>s, since the chunks carry no id). Chunks from the loader always
  have a \<open>source\<close> entry; with empty metadata the upsert order would differ.
\<close>

theorem create_vector_store_fresh:
  assumes "disk st CHROMA_PATH = None"
    and "\<forall>ts. \<exists>vs. embed_documents emb ts = Inr vs \<and> length vs = length ts"
    and "\<forall>d\<in>set chunks. doc_id d = None \<and> metadata d \<noteq> []"
  shows "\<exists>c. create_vector_store emb chunks st =
            (Inr CHROMA_PATH, st\<lparr>disk := (disk st)(CHROMA_PATH \<mapsto> c),
                                 next_uid := next_uid st + length chunks\<rparr>)
          \<and> map (\<lambda>e. (ent_text e, ent_meta e)) c = map (\<lambda>d. (page_content d, metadata d)) chunks
          \<and> distinct (map ent_id c)"
proof -
  have "ent_id ` set (case disk st CHROMA_PATH of None \<Rightarrow> [] | Some c \<Rightarrow> c) \<inter>
        uuid_str ` {next_uid st..} = {}"
    using assms(1) by simp
  from chroma_from_documents_ok [OF assms(2,3) this] obtain c where
    r: "chroma_from_documents emb CHROMA_PATH chunks st =
       (Inr CHROMA_PATH, st\<lparr>disk := (disk st)(CHROMA_PATH \<mapsto>
                             (case disk st CHROMA_PATH of None \<Rightarrow> [] | Some c \<Rightarrow> c) @ c),
                            next_uid := next_uid st + length chunks\<rparr>)"
    and t: "map (\<lambda>e. (ent_text e, ent_meta e)) c = map (\<lambda>d. (page_content d, metadata d)) chunks"
    and i: "map ent_id c = map uuid_str [next_uid st..<next_uid st + length chunks]"
    by blast
  have c0: "(case disk st CHROMA_PATH of None \<Rightarrow> [] | Some c \<Rightarrow> c) = []"
    using assms(1) by simp
  have "distinct (map ent_id c)" unfolding i by (rule distinct_uuids)
  with r t show ?thesis
    unfolding create_vector_store_def c0 append_Nil by blast
qed

theorem create_vector_store_fresh_witness:
  "\<exists>c. create_vector_store
         \<lparr>embed_documents = \<lambda>ts. Inr (map (\<lambda>t. [real (length t)]) ts),
          embed_query = \<lambda>q. Inr [real (length q)]\<rparr>
         [mk_document ''alpha'' [(''source'', MStr ''a.txt'')],
          mk_document ''beta'' [(''source'', MStr ''b.md'')]]
         \<lparr>disk = \<lambda>_. None, next_uid = 0, max_batch = 1\<rparr> =
       (Inr CHROMA_PATH, \<lparr>disk = (\<lambda>_. None)(CHROMA_PATH \<mapsto> c), next_uid = 2, max_batch = 1\<rparr>)
     \<and> map (\<lambda>e. (ent_text e, ent_meta e)) c =
         [(''alpha'', [(''source'', MStr ''a.txt'')]), (''beta'', [(''source'', MStr ''b.md'')])]
     \<and> distinct (map ent_id c)"
  using create_vector_store_fresh
    [of "\<lparr>disk = \<lambda>_. None, next_uid = 0, max_batch = 1\<rparr>"
        "\<lparr>embed_documents = \<lambda>ts. Inr (map (\<lambda>t. [real (length t)]) ts),
          embed_query = \<lambda>q. Inr [real (length q)]\<rparr>"
        "[mk_document ''alpha'' [(''source'', MStr ''a.txt'')],
          mk_document ''beta'' [(''source'', MStr ''b.md'')]]"]
  by (simp add: numeral_2_eq_2)

lemma chroma_from_documents_provider_down:
  assumes "disk st p = None" "chunks \<noteq> []"
    and "\<forall>ts. embed_documents emb ts = Inl e"
  shows "\<exists>st'. chroma_from_documents emb p chunks st = (Inl e, st') \<and> disk st' p = Some []"
proof -
  obtain items n' where ai: "assign_ids (next_uid st) chunks = (items, n')"
    by (cases "assign_ids (next_uid st) chunks")
  then have "items \<noteq> []" using assms(2) length_assign_ids [of "next_uid st" chunks] by auto
  then obtain b bs where bb: "batches (max_batch st) items = b # bs" by (metis batches_Cons)
  have "add_batches emb (b # bs) [] = ([], Some e)"
    using assms(3) by (simp add: add_texts_provider_down)
  then show ?thesis
    using ai bb assms(1)
    by (simp add: chroma_from_documents_def chroma_open_def del: batches.simps)
qed

text \<open>
  C7. When the embedding provider fails, the build returns the provider's error, but the
  persistent client has already created \<open>CHROMA_PATH\<close>: the directory exists afterwards,
  holding an empty collection. A later \<open>os.path.exists(CHROMA_PATH)\<close> takes it for a
  built index.
\<close>

theorem create_vector_store_provider_down:
  assumes "disk st CHROMA_PATH = None" "chunks \<noteq> []"
    and "\<forall>ts. embed_documents emb ts = Inl e"
  shows "\<exists>st'. create_vector_store emb chunks st = (Inl e, st') \<and> disk st' CHROMA_PATH = Some []"
  unfolding create_vector_store_def using assms by (rule chroma_from_documents_provider_down)

theorem create_vector_store_provider_down_witness:
  "\<exists>st'. create_vector_store
           \<lparr>embed_documents = \<lambda>ts. Inl (ProviderError ''rate limit''),
            embed_query = \<lambda>q. Inl (ProviderError ''rate limit'')\<rparr>
           [mk_document ''alpha'' [(''source'', MStr ''a.txt'')]]
           \<lparr>disk = \<lambda>_. None, next_uid = 0, max_batch = 1\<rparr> =
         (Inl (ProviderError ''rate limit''), st') \<and> disk st' CHROMA_PATH = Some []"
  by (rule create_vector_store_provider_down) simp_all

subsection \<open>Searching the index\<close>

lemma similarity_search_topk:
  assumes "disk st p = Some c" "embed_query emb q = Inr v"
  shows "\<exists>es. similarity_search emb st p k q = Inr (map entry_document es)
            \<and> length es = min k (length c) \<and> mset es \<subseteq># mset c
            \<and> sorted (map (\<lambda>e. l2_distance v (ent_vec e)) es)
            \<and> (\<forall>e\<in>set es. \<forall>e'\<in>#mset c - mset es. l2_distance v (ent_vec e) \<le> l2_distance v (ent_vec e'))"
proof -
  let ?f = "\<lambda>e. l2_distance v (ent_vec e)"
  let ?ys = "sort_key ?f c"
  have ms: "mset ?ys = mset c" by simp
  have srt: "sorted (map ?f ?ys)" by (rule sorted_sort_key)
  have split: "mset c = mset (take k ?ys) + mset (drop k ?ys)"
    by (metis append_take_drop_id mset_append ms)
  have "mset c - mset (take k ?ys) = mset (drop k ?ys)" using split by simp
  moreover have "mset (take k ?ys) \<subseteq># mset c" using split by simp
  moreover have "sorted (map ?f (take k ?ys))" using srt by (simp add: take_map [symmetric] sorted_wrt_take)
  moreover have "length (take k ?ys) = min k (length c)" by simp
  moreover have "\<forall>e\<in>set (take k ?ys). \<forall>e'\<in>set (drop k ?ys). ?f e \<le> ?f e'"
    by (intro ballI) (rule sorted_take_drop_le [OF srt])
  moreover have "similarity_search emb st p k q = Inr (map entry_document (take k ?ys))"
    using assms by (simp add: similarity_search_def)
  ultimately show ?thesis by (metis set_mset_mset)
qed

text \<open>
  C8. Self-retrieval (spec 8): when the provider embeds a chunk's text as a query to the
  vector stored for it, the base retriever's top 5 for that text contains the chunk, provided
  at most five records of the collection lie at distance zero from it (ties are kept in
  insertion order, so more exact duplicates can push it out).
\<close>

theorem base_retriever_self_retrieval:
  assumes "disk st p = Some c" "e \<in> set c"
    and "embed_query emb (ent_text e) = Inr (ent_vec e)"
    and "length (filter (\<lambda>e'. l2_distance (ent_vec e) (ent_vec e') = 0) c) \<le> 5"
  shows "\<exists>ds. base_retriever emb st p (ent_text e) = Inr ds \<and> entry_document e \<in> set ds"
proof -
  let ?f = "\<lambda>e'. l2_distance (ent_vec e) (ent_vec e')"
  have "filter (\<lambda>e'. ?f e' \<le> ?f e) c = filter (\<lambda>e'. ?f e' = 0) c"
    by (rule filter_cong) (simp_all add: l2_distance_self eq_iff l2_distance_nonneg)
  then have "e \<in> set (take 5 (sort_key ?f c))"
    using assms(2,4) by (intro take_sort_key_top) simp_all
  then show ?thesis
    using assms(1,3) by (simp add: base_retriever_def similarity_search_def)
qed

theorem base_retriever_self_retrieval_witness:
  "\<exists>ds. base_retriever
          \<lparr>embed_documents = \<lambda>ts. Inr (map (\<lambda>t. [real (length t)]) ts),
           embed_query = \<lambda>q. Inr [real (length q)]\<rparr>
          \<lparr>disk = (\<lambda>_. None)(CHROMA_PATH \<mapsto>
             [\<lparr>ent_id = ''uuid-0'', ent_vec = [5], ent_text = ''alpha'', ent_meta = []\<rparr>,
              \<lparr>ent_id = ''uuid-1'', ent_vec = [2], ent_text = ''be'', ent_meta = []\<rparr>]),
           next_uid = 2, max_batch = 1\<rparr> CHROMA_PATH ''alpha'' = Inr ds
        \<and> entry_document \<lparr>ent_id = ''uuid-0'', ent_vec = [5], ent_text = ''alpha'', ent_meta = []\<rparr> \<in> set ds"
  using base_retriever_self_retrieval
    [of "\<lparr>disk = (\<lambda>_. None)(CHROMA_PATH \<mapsto>
             [\<lparr>ent_id = ''uuid-0'', ent_vec = [5], ent_text = ''alpha'', ent_meta = []\<rparr>,
              \<lparr>ent_id = ''uuid-1'', ent_vec = [2], ent_text = ''be'', ent_meta = []\<rparr>]),
           next_uid = 2, max_batch = 1\<rparr>" CHROMA_PATH
        "[\<lparr>ent_id = ''uuid-0'', ent_vec = [5], ent_text = ''alpha'', ent_meta = []\<rparr>,
          \<lparr>ent_id = ''uuid-1'', ent_vec = [2], ent_text = ''be'', ent_meta = []\<rparr>]"
        "\<lparr>ent_id = ''uuid-0'', ent_vec = [5], ent_text = ''alpha'', ent_meta = []\<rparr>"
        "\<lparr>embed_documents = \<lambda>ts. Inr (map (\<lambda>t. [real (length t)]) ts),
          embed_query = \<lambda>q. Inr [real (length q)]\<rparr>"]
  by (simp add: l2_distance_def)

subsection \<open>Well-formedness of the store\<close>

lemma add_texts_ids:
  assumes "add_texts emb b c = Inr c'"
  shows "\<exists>rs. c' = foldl upsert c rs \<and> mset (map ent_id rs) = mset (map fst b)"
proof -
  define recs0 where "recs0 = (\<lambda>vecs. map (\<lambda>((i, t, m), v). \<lparr>ent_id = i, ent_vec = v, ent_text = t, ent_meta = m\<rparr>)
                                 (zip b vecs))"
  obtain vecs where v: "embed_documents emb (map (\<lambda>(i, t, m). t) b) = Inr vecs"
    using assms by (cases "embed_documents emb (map (\<lambda>(i, t, m). t) b)") (auto simp: add_texts_def)
  have l: "length vecs = length b"
    using assms v by (auto simp: add_texts_def split: if_splits)
  have c': "c' = foldl upsert c (filter (\<lambda>r. ent_meta r \<noteq> []) (recs0 vecs) @ filter (\<lambda>r. ent_meta r = []) (recs0 vecs))"
    using assms v l by (simp add: add_texts_def Let_def recs0_def del: foldl_append)
  define recs where "recs = map (\<lambda>((i, t, m), v). \<lparr>ent_id = i, ent_vec = v, ent_text = t, ent_meta = m\<rparr>)
                                 (zip b vecs)"
  have "map ent_id recs = map fst b"
    using arg_cong [OF map_entry_key_recs [OF l], of "map fst"] by (simp add: recs_def entry_key_def comp_def)
  moreover have "mset (filter (\<lambda>r. ent_meta r \<noteq> []) recs @ filter (\<lambda>r. ent_meta r = []) recs) = mset recs"
    by (simp add: multiset_partition [symmetric] mset_filter)
  ultimately have "mset (map ent_id (filter (\<lambda>r. ent_meta r \<noteq> []) recs @ filter (\<lambda>r. ent_meta r = []) recs)) =
                   mset (map fst b)"
    by (metis mset_map)
  then show ?thesis using c' unfolding recs_def recs0_def by blast
qed

lemma add_batches_ids:
  assumes "add_batches emb bs c = (c', err)"
    and "distinct (map fst (concat bs))" "fst ` set (concat bs) \<inter> ent_id ` set c = {}"
    and "distinct (map ent_id c)"
  shows "distinct (map ent_id c') \<and> ent_id ` set c' \<subseteq> ent_id ` set c \<union> fst ` set (concat bs)"
  using assms
proof (induction bs arbitrary: c)
  case Nil
  then show ?case by simp
next
  case (Cons b bs)
  show ?case
  proof (cases "add_texts emb b c")
    case (Inl e)
    then show ?thesis using Cons.prems by simp
  next
    case (Inr c1)
    from add_texts_ids [OF Inr] obtain rs where
      c1: "c1 = foldl upsert c rs" and ms: "mset (map ent_id rs) = mset (map fst b)" by blast
    have sr: "ent_id ` set rs = fst ` set b"
      using arg_cong [OF ms, of set_mset] by simp
    have dr: "distinct (map ent_id rs)"
      using ms Cons.prems(2) by (metis concat.simps(2) distinct_append map_append mset_eq_imp_distinct_iff)
    have "ent_id ` set rs \<inter> ent_id ` set c = {}" using sr Cons.prems(3) by auto
    then have c1': "c1 = c @ rs" using c1 dr by (simp add: foldl_upsert_fresh)
    have "distinct (map ent_id c1)"
      using c1' dr Cons.prems(4) \<open>ent_id ` set rs \<inter> ent_id ` set c = {}\<close> by auto
    moreover have "fst ` set (concat bs) \<inter> ent_id ` set c1 = {}"
    proof -
      have u: "ent_id ` set c1 = ent_id ` set c \<union> fst ` set b" using c1' sr by auto
      have d1: "fst ` set b \<inter> fst ` set (concat bs) = {}" using Cons.prems(2) by simp
      have d2: "fst ` set (concat bs) \<inter> ent_id ` set c = {}"
        using Cons.prems(3) by (simp only: concat.simps set_append image_Un Int_Un_distrib2 Un_empty)
      show ?thesis unfolding u using d2 d1 by (rule disjoint_Un_right)
    qed
    moreover have "distinct (map fst (concat bs))" using Cons.prems(2) by simp
    moreover have "add_batches emb bs c1 = (c', err)" using Cons.prems(1) Inr by simp
    ultimately have "distinct (map ent_id c') \<and> ent_id ` set c' \<subseteq> ent_id ` set c1 \<union> fst ` set (concat bs)"
      using Cons.IH by blast
    moreover have "ent_id ` set c1 \<union> fst ` set (concat bs) = ent_id ` set c \<union> fst ` set (concat (b # bs))"
      using c1' sr by (simp add: image_Un Un_assoc)
    ultimately show ?thesis by simp
  qed
qed

lemma store_wf_upd:
  assumes "store_wf st" "next_uid st \<le> n" "distinct (map ent_id c)" "ent_id ` set c \<subseteq> uuid_str ` {..<n}"
  shows "store_wf (st\<lparr>disk := (disk st)(p \<mapsto> c), next_uid := n\<rparr>)"
  unfolding store_wf_def
proof
  fix c' assume "c' \<in> ran (disk (st\<lparr>disk := (disk st)(p \<mapsto> c), next_uid := n\<rparr>))"
  then have "c' = c \<or> c' \<in> ran (disk st)" by (simp add: ran_upd_cases)
  then show "distinct (map ent_id c') \<and>
             ent_id ` set c' \<subseteq> uuid_str ` {..<next_uid (st\<lparr>disk := (disk st)(p \<mapsto> c), next_uid := n\<rparr>)}"
  proof
    assume "c' \<in> ran (disk st)"
    then have "distinct (map ent_id c')" "ent_id ` set c' \<subseteq> uuid_str ` {..<next_uid st}"
      using assms(1) by (auto simp: store_wf_def)
    moreover have "uuid_str ` {..<next_uid st} \<subseteq> uuid_str ` {..<n}" using assms(2) by auto
    ultimately show ?thesis by auto
  qed (use assms(3,4) in simp)
qed

lemma store_wf_del: "store_wf st \<Longrightarrow> store_wf (st\<lparr>disk := (disk st)(p := None)\<rparr>)"
  by (auto simp: store_wf_def ran_def split: if_splits)

lemma store_wf_chroma_open: "store_wf st \<Longrightarrow> store_wf (chroma_open st p)"
proof -
  assume wf: "store_wf st"
  let ?c0 = "case disk st p of None \<Rightarrow> [] | Some c \<Rightarrow> c"
  have c0: "distinct (map ent_id ?c0) \<and> ent_id ` set ?c0 \<subseteq> uuid_str ` {..<next_uid st}"
  proof (cases "disk st p")
    case (Some c)
    then have "c \<in> ran (disk st)" by (rule ranI)
    then show ?thesis using wf Some by (simp add: store_wf_def)
  qed simp
  have "store_wf (st\<lparr>disk := (disk st)(p \<mapsto> ?c0), next_uid := next_uid st\<rparr>)"
    using c0 by (intro store_wf_upd [OF wf]) simp_all
  then show ?thesis by (simp add: chroma_open_def)
qed

lemma stored_collection_wf:
  assumes "store_wf st"
  shows "distinct (map ent_id (case disk st p of None \<Rightarrow> [] | Some c \<Rightarrow> c)) \<and>
         ent_id ` set (case disk st p of None \<Rightarrow> [] | Some c \<Rightarrow> c) \<subseteq> uuid_str ` {..<next_uid st}"
proof (cases "disk st p")
  case (Some c)
  then have "c \<in> ran (disk st)" by (rule ranI)
  then show ?thesis using assms Some by (simp add: store_wf_def)
qed simp

lemma chroma_from_documents_wf:
  assumes wf: "store_wf st" and ids: "\<forall>d\<in>set docs. doc_id d = None"
  shows "store_wf (snd (chroma_from_documents emb p docs st))"
proof -
  define n where "n = next_uid st"
  define c0 where "c0 = (case disk st p of None \<Rightarrow> [] | Some c \<Rightarrow> c)"
  define items where "items = map (\<lambda>(i, d). (uuid_str i, page_content d, metadata d))
                                 (zip [n..<n + length docs] docs)"
  have ai: "assign_ids n docs = (items, n + length docs)"
    unfolding items_def using ids by (simp add: assign_ids_fresh)
  have fi: "map fst items = map uuid_str [n..<n + length docs]"
    unfolding items_def by (rule map_fst_assigned) simp
  have fset: "fst ` set items = uuid_str ` {n..<n + length docs}"
    using arg_cong [OF fi, of set] by simp
  have c0in: "distinct (map ent_id c0) \<and> ent_id ` set c0 \<subseteq> uuid_str ` {..<n}"
    unfolding c0_def n_def using wf by (rule stored_collection_wf)
  obtain c' err where ab: "add_batches emb (batches (max_batch st) items) c0 = (c', err)"
    by fastforce
  have dist: "distinct (map fst (concat (batches (max_batch st) items)))"
    unfolding batches_concat fi by (rule distinct_uuids)
  have disj: "fst ` set (concat (batches (max_batch st) items)) \<inter> ent_id ` set c0 = {}"
    unfolding batches_concat fset using c0in by auto
  from add_batches_ids [OF ab dist disj] c0in
  have dc: "distinct (map ent_id c')" and "ent_id ` set c' \<subseteq> ent_id ` set c0 \<union> fst ` set items"
    by (simp_all add: batches_concat del: batches.simps)
  moreover have "ent_id ` set c0 \<union> fst ` set items \<subseteq> uuid_str ` {..<n} \<union> uuid_str ` {n..<n + length docs}"
    using c0in fset by (intro Un_mono) simp_all
  moreover have "uuid_str ` {..<n} \<union> uuid_str ` {n..<n + length docs} \<subseteq> uuid_str ` {..<n + length docs}"
    unfolding image_Un [symmetric] by (rule image_mono) auto
  ultimately have sub: "ent_id ` set c' \<subseteq> uuid_str ` {..<n + length docs}"
    by (meson subset_trans)
  have res: "snd (chroma_from_documents emb p docs st) =
               st\<lparr>disk := (disk st)(p \<mapsto> c'), next_uid := n + length docs\<rparr>"
    using ai ab by (simp add: chroma_from_documents_def chroma_open_def c0_def n_def del: batches.simps)
  show ?thesis
    unfolding res using dc sub by (intro store_wf_upd [OF wf]) (simp_all add: n_def)
qed

subsection \<open>A build that fails part-way\<close>

lemma map_text_items: "map (\<lambda>(i, t, m). t) xs = map fst (map snd xs)"
  by (induction xs) auto

lemma batches_two:
  "0 < n \<Longrightarrow> n < length xs \<Longrightarrow>
   \<exists>rest. batches n xs = take n xs # take n (drop n xs) # rest"
proof -
  assume a: "0 < n" "n < length xs"
  then have "xs \<noteq> []" "drop n xs \<noteq> []" by auto
  with a show ?thesis
    by (subst batches.simps, simp del: batches.simps, subst batches.simps, simp del: batches.simps)
qed

text \<open>
  C29. The build is not all-or-nothing: when the provider embeds the first batch and fails
  on the second, \<open>create_vector_store\<close> raises the provider's error but the directory
  keeps the first batch's records, exactly the first \<open>max_batch\<close> chunks in order; the ids
  of all chunks are used up. A later \<open>os.path.exists(CHROMA_PATH)\<close> opens this partial
  index as if it were complete (spec 7(d): partial writes during a build are unacceptable).
\<close>

theorem create_vector_store_partial:
  assumes "disk st CHROMA_PATH = None" "0 < max_batch st" "max_batch st < length chunks"
    and "\<forall>d\<in>set chunks. doc_id d = None \<and> metadata d \<noteq> []"
    and "embed_documents emb (map page_content (take (max_batch st) chunks)) = Inr vs"
    and "length vs = max_batch st"
    and "embed_documents emb (map page_content (take (max_batch st) (drop (max_batch st) chunks))) = Inl e"
  shows "\<exists>c. create_vector_store emb chunks st =
            (Inl e, st\<lparr>disk := (disk st)(CHROMA_PATH \<mapsto> c), next_uid := next_uid st + length chunks\<rparr>)
          \<and> map (\<lambda>e. (ent_text e, ent_meta e)) c
            = map (\<lambda>d. (page_content d, metadata d)) (take (max_batch st) chunks)"
proof -
  define n where "n = next_uid st"
  define b where "b = max_batch st"
  define items where "items = map (\<lambda>(i, d). (uuid_str i, page_content d, metadata d))
                                 (zip [n..<n + length chunks] chunks)"
  have ai: "assign_ids n chunks = (items, n + length chunks)"
    unfolding items_def using assms(4) by (simp add: assign_ids_fresh)
  have fi: "map fst items = map uuid_str [n..<n + length chunks]"
    unfolding items_def by (rule map_fst_assigned) simp
  have si: "map snd items = map (\<lambda>d. (page_content d, metadata d)) chunks"
    unfolding items_def by (rule map_snd_assigned) simp
  have li: "length items = length chunks" unfolding items_def by simp
  obtain rest where bs: "batches b items = take b items # take b (drop b items) # rest"
    using batches_two [of b items] assms(2,3) li by (auto simp: b_def simp del: batches.simps)
  have t1: "map (\<lambda>(i, t, m). t) (take b items) = map page_content (take b chunks)"
    unfolding map_text_items take_map [symmetric] si by (simp add: take_map)
  have t2: "map (\<lambda>(i, t, m). t) (take b (drop b items)) = map page_content (take b (drop b chunks))"
    unfolding map_text_items take_map [symmetric] drop_map [symmetric] si by (simp add: take_map drop_map)
  have "distinct (map fst (take b items))"
    unfolding take_map [symmetric] fi by (simp add: distinct_uuids distinct_take)
  moreover have "\<forall>x\<in>set (take b items). snd (snd x) \<noteq> []"
    using assms(4) nth_mem by (fastforce simp: items_def set_zip dest!: in_set_takeD)
  ultimately obtain rs where rs: "add_texts emb (take b items) [] = Inr ([] @ rs)"
      "map entry_key rs = take b items"
    using add_texts_ok [of emb "take b items" vs "[]"] assms(5,6) t1 li assms(3) by (auto simp: b_def)
  have "add_texts emb (take b (drop b items)) rs = Inl e"
    using assms(7) t2 by (intro add_texts_provider_down) (simp add: b_def)
  then have ab: "add_batches emb (batches b items) [] = (rs, Some e)"
    using rs(1) bs by (simp del: batches.simps)
  have "map (\<lambda>e. (ent_text e, ent_meta e)) rs = map snd (map entry_key rs)"
    by (simp add: entry_key_def)
  then have t: "map (\<lambda>e. (ent_text e, ent_meta e)) rs = map (\<lambda>d. (page_content d, metadata d)) (take b chunks)"
    by (simp only: rs(2) take_map [symmetric] si)
  have "create_vector_store emb chunks st =
        (Inl e, st\<lparr>disk := (disk st)(CHROMA_PATH \<mapsto> rs), next_uid := n + length chunks\<rparr>)"
    using ai ab assms(1) unfolding create_vector_store_def chroma_from_documents_def chroma_open_def n_def b_def
    by (simp del: batches.simps)
  with t show ?thesis unfolding n_def b_def by blast
qed

theorem create_vector_store_partial_witness:
  "\<exists>c. create_vector_store
        \<lparr>embed_documents = \<lambda>ts. if ts = [''alpha''] then Inr [[1]] else Inl (ProviderError ''rate limit''),
         embed_query = \<lambda>q. Inr [real (length q)]\<rparr>
        [mk_document ''alpha'' [(''source'', MStr ''a.txt'')], mk_document ''beta'' [(''source'', MStr ''b.txt'')]]
        \<lparr>disk = \<lambda>_. None, next_uid = 0, max_batch = 1\<rparr> =
      (Inl (ProviderError ''rate limit''), \<lparr>disk = (\<lambda>_. None)(CHROMA_PATH \<mapsto> c), next_uid = 2, max_batch = 1\<rparr>)
    \<and> map (\<lambda>e. (ent_text e, ent_meta e)) c = [(''alpha'', [(''source'', MStr ''a.txt'')])]"
  using create_vector_store_partial [where st = "\<lparr>disk = \<lambda>_. None, next_uid = 0, max_batch = 1\<rparr>"
      and chunks = "[mk_document ''alpha'' [(''source'', MStr ''a.txt'')], mk_document ''beta'' [(''source'', MStr ''b.txt'')]]"
      and emb = "\<lparr>embed_documents = \<lambda>ts. if ts = [''alpha''] then Inr [[1]] else Inl (ProviderError ''rate limit''),
         embed_query = \<lambda>q. Inr [real (length q)]\<rparr>"
      and vs = "[[1]]" and e = "ProviderError ''rate limit''"]
  by (simp add: numeral_2_eq_2)

end
