(* ===== verification/Prompt.thy ===== *)
theory Prompt
  imports Documents
begin

text \<open>
  Prompt construction. \<open>ChatPromptTemplate.from_template(t)\<close> of LangChain makes a
  one-message prompt whose text is \<open>t\<close> formatted as a Python f-string template
  (\<open>str.format\<close> semantics): \<open>{name}\<close> is replaced by the value of the variable
  \<open>name\<close>, \<open>{{\<close> and \<open>}}\<close> stand for single braces, an unmatched brace raises
  \<open>ValueError\<close> and an unknown name \<open>KeyError\<close>. A value is inserted as
  \<open>str(value)\<close> and never re-scanned. The answer chain's context value is a Python
  list of LangChain \<open>Document\<close>s, so it enters the prompt as \<open>str(list)\<close>: the
  \<open>repr\<close> of each document (pydantic's \<open>Document(id=..., metadata={...},
  page_content=...)\<close>, fields at their default left out) joined by \<open>", "\<close> in
  brackets.
\<close>

function fmt :: "(string \<times> string) list \<Rightarrow> string \<Rightarrow> string result" where
  "fmt vs [] = Inr []"
| "fmt vs (c # cs) =
     (if c = CHR ''{'' then
        (if cs \<noteq> [] \<and> hd cs = CHR ''{'' then rmap (\<lambda>r. c # r) (fmt vs (tl cs))
         else if CHR ''}'' \<notin> set cs then Inl (ValueError ''expected '}' before end of string'')
         else (case map_of vs (takeWhile (\<lambda>x. x \<noteq> CHR ''}'') cs) of
                 None \<Rightarrow> Inl (KeyError (takeWhile (\<lambda>x. x \<noteq> CHR ''}'') cs))
               | Some v \<Rightarrow> rmap (\<lambda>r. v @ r) (fmt vs (tl (dropWhile (\<lambda>x. x \<noteq> CHR ''}'') cs)))))
      else if c = CHR ''}'' then
        (if cs \<noteq> [] \<and> hd cs = CHR ''}'' then rmap (\<lambda>r. c # r) (fmt vs (tl cs))
         else Inl (ValueError ''Single '}' encountered in format string''))
      else rmap (\<lambda>r. c # r) (fmt vs cs))"
  by pat_completeness auto
termination
proof (relation "measure (\<lambda>(vs, s). length s)")
  fix vs c cs
  show "((vs, tl (dropWhile (\<lambda>x. x \<noteq> CHR ''}'') cs)), vs, c # cs) \<in> measure (\<lambda>(vs, s). length s)"
    using length_dropWhile_le [of "\<lambda>x. x \<noteq> CHR ''}''" cs] by simp
qed auto

definition mval_repr :: "mval \<Rightarrow> string" where
  "mval_repr v = (case v of MStr s \<Rightarrow> str_repr s | MInt i \<Rightarrow> int_repr i)"

definition dict_repr :: "metadata \<Rightarrow> string" where
  "dict_repr m = ''{'' @ py_join '', '' (map (\<lambda>(k, v). str_repr k @ '': '' @ mval_repr v) m) @ ''}''"

definition doc_repr :: "document \<Rightarrow> string" where
  "doc_repr d =
     ''Document('' @
     (case doc_id d of None \<Rightarrow> [] | Some i \<Rightarrow> ''id='' @ str_repr i @ '', '') @
     (if metadata d = [] then [] else ''metadata='' @ dict_repr (metadata d) @ '', '') @
     ''page_content='' @ str_repr (page_content d) @ '')''"

definition docs_str :: "document list \<Rightarrow> string" where
  "docs_str ds = ''['' @ py_join '', '' (map doc_repr ds) @ '']''"

subsection \<open>Lemmas\<close>

lemma fmt_plain:
  "CHR ''{'' \<notin> set s \<Longrightarrow> CHR ''}'' \<notin> set s \<Longrightarrow> fmt vs s = Inr s"
  by (induction s) auto

lemma fmt_append_plain:
  "CHR ''{'' \<notin> set a \<Longrightarrow> CHR ''}'' \<notin> set a \<Longrightarrow> fmt vs (a @ b) = rmap (\<lambda>r. a @ r) (fmt vs b)"
proof (induction a)
  case Nil
  then show ?case by (cases "fmt vs b") simp_all
next
  case (Cons c a)
  then show ?case by (cases "fmt vs b") auto
qed

lemma fmt_field:
  assumes "CHR ''}'' \<notin> set n" "n \<noteq> []" "hd n \<noteq> CHR ''{''" "map_of vs n = Some v"
  shows "fmt vs (CHR ''{'' # n @ CHR ''}'' # b) = rmap (\<lambda>r. v @ r) (fmt vs b)"
proof -
  have "takeWhile (\<lambda>x. x \<noteq> CHR ''}'') (n @ CHR ''}'' # b) = n"
    using assms(1) by (subst takeWhile_append2) auto
  moreover have "dropWhile (\<lambda>x. x \<noteq> CHR ''}'') (n @ CHR ''}'' # b) = CHR ''}'' # b"
    using assms(1) by (subst dropWhile_append2) auto
  ultimately show ?thesis using assms(2-4) by (cases n) auto
qed

lemma fmt_one_field:
  assumes "CHR ''{'' \<notin> set a" "CHR ''}'' \<notin> set a" "CHR ''}'' \<notin> set n" "n \<noteq> []"
    "hd n \<noteq> CHR ''{''" "map_of vs n = Some v" "CHR ''{'' \<notin> set b" "CHR ''}'' \<notin> set b"
  shows "fmt vs (a @ CHR ''{'' # n @ CHR ''}'' # b) = Inr (a @ v @ b)"
proof -
  have "fmt vs (CHR ''{'' # n @ CHR ''}'' # b) = Inr (v @ b)"
    by (simp only: fmt_field [OF assms(3-6)] fmt_plain [OF assms(7,8)] rmap_Inr)
  then show ?thesis by (simp only: fmt_append_plain [OF assms(1,2)] rmap_Inr)
qed

lemma docs_str_Nil [simp]: "docs_str [] = ''[]''"
  by (simp add: docs_str_def)

lemma sublist_py_join_elem: "x \<in> set xs \<Longrightarrow> sublist x (py_join sep xs)"
proof -
  assume "x \<in> set xs"
  then obtain a b where "xs = a @ [x] @ b" by (metis append_Cons append_Nil split_list)
  moreover have "sublist (py_join sep [x]) (py_join sep (a @ [x] @ b))"
    by (rule sublist_py_join_infix)
  ultimately show ?thesis by simp
qed

lemma sublist_docs_str:
  "d \<in> set ds \<Longrightarrow> sublist (str_repr (page_content d)) (docs_str ds)"
proof -
  assume d: "d \<in> set ds"
  have "doc_repr d = (''Document('' @
     (case doc_id d of None \<Rightarrow> [] | Some i \<Rightarrow> ''id='' @ str_repr i @ '', '') @
     (if metadata d = [] then [] else ''metadata='' @ dict_repr (metadata d) @ '', '') @
     ''page_content='') @ str_repr (page_content d) @ '')''"
    by (simp add: doc_repr_def)
  then have "sublist (str_repr (page_content d)) (doc_repr d)"
    by (metis sublist_appendI)
  also have "sublist (doc_repr d) (py_join '', '' (map doc_repr ds))"
    using d by (intro sublist_py_join_elem) simp
  also have "sublist (py_join '', '' (map doc_repr ds)) (docs_str ds)"
    unfolding docs_str_def by (metis sublist_appendI append_assoc)
  finally show ?thesis .
qed

text \<open>Hence neither does the \<open>str\<close> of a list of documents.\<close>

lemma mval_repr_not_nl: "CHR ''\<newline>'' \<notin> set (mval_repr v)"
  by (cases v) (simp_all add: mval_repr_def str_repr_not_nl int_repr_not_nl)

lemma dict_repr_not_nl: "CHR ''\<newline>'' \<notin> set (dict_repr m)"
  using set_py_join [of "'', ''" "map (\<lambda>(k, v). str_repr k @ '': '' @ mval_repr v) m"]
  by (auto simp: dict_repr_def str_repr_not_nl mval_repr_not_nl)

lemma doc_repr_not_nl: "CHR ''\<newline>'' \<notin> set (doc_repr d)"
  by (auto simp: doc_repr_def str_repr_not_nl dict_repr_not_nl split: option.splits)

lemma docs_str_not_nl: "CHR ''\<newline>'' \<notin> set (docs_str ds)"
  using set_py_join [of "'', ''" "map doc_repr ds"]
  by (auto simp: docs_str_def doc_repr_not_nl)

end
