(* ===== verification/Retriever.thy ===== *)
theory Retriever
  imports VectorStore Prompt
begin

text \<open>
  The multi-query retriever (spec 4.5): \<open>get_retriever(vector_store)\<close> of
  \<open>src/Rag/Rag_project.py\<close> wraps the top-5 base retriever in LangChain's
  \<open>MultiQueryRetriever.from_llm(retriever=base_retriever, llm=ChatOpenAI(temperature=0))\<close>.
  The chat model is a parameter of the model (\<open>chat_model\<close>): given its configuration
  (model name and temperature) and the prompt text it returns the completion or raises.
  \<open>ChatOpenAI(temperature=0)\<close> is the configuration \<open>chat_openai_default\<close>
  (LangChain's default model \<open>gpt-3.5-turbo\<close>).

  What the library does is modelled from its code: the query is formatted into
  \<open>DEFAULT_QUERY_PROMPT\<close>, the model's reply is parsed by \<open>LineListOutputParser\<close>
  (\<open>strip\<close>, \<open>split("\n")\<close>, empty lines dropped), the base retriever is invoked on
  every parsed line in order (\<open>include_original\<close> is left at \<open>False\<close>, so the user's
  query itself is not searched), and the concatenated results are de-duplicated by
  \<open>_unique_documents\<close>, which keeps a document unless an equal one (same id, text and
  metadata) occurred earlier. An exception of the model or of a search propagates.
\<close>

record llm_cfg =
  model_name :: string
  temperature :: nat

type_synonym chat_model = "llm_cfg \<Rightarrow> string \<Rightarrow> string result"

definition chat_openai_default :: llm_cfg where
  "chat_openai_default = \<lparr>model_name = ''gpt-3.5-turbo'', temperature = 0\<rparr>"

definition MQ_PROMPT :: string where
  "MQ_PROMPT = ''You are an AI language model assistant. Your task is \<newline>    to generate 3 different versions of the given user \<newline>    question to retrieve relevant documents from a vector  database. \<newline>    By generating multiple perspectives on the user question, \<newline>    your goal is to help the user overcome some of the limitations \<newline>    of distance-based similarity search. Provide these alternative \<newline>    questions separated by newlines. Original question: {question}''"

definition line_list_parse :: "string \<Rightarrow> string list" where
  "line_list_parse t = filter (\<lambda>l. l \<noteq> []) (split_on ''\<newline>'' (py_strip t))"

definition generate_queries :: "(string \<Rightarrow> string result) \<Rightarrow> string \<Rightarrow> string list result" where
  "generate_queries llm q = rmap line_list_parse (rbind (fmt [(''question'', q)] MQ_PROMPT) llm)"

definition retrieve_documents ::
    "(string \<Rightarrow> document list result) \<Rightarrow> string list \<Rightarrow> document list result" where
  "retrieve_documents r qs = rmap concat (map_r r qs)"

definition unique_documents :: "document list \<Rightarrow> document list" where
  "unique_documents ds = map snd (filter (\<lambda>(i, d). d \<notin> set (take i ds)) (zip [0..<length ds] ds))"

definition multi_query_retrieve ::
    "(string \<Rightarrow> string result) \<Rightarrow> (string \<Rightarrow> document list result) \<Rightarrow> string \<Rightarrow> document list result" where
  "multi_query_retrieve llm r q =
     rbind (generate_queries llm q) (\<lambda>qs. rmap unique_documents (retrieve_documents r qs))"

text \<open>
  \<open>get_retriever(vector_store)\<close> (lines 195--216), invoked on a query: the vector store
  is the persisted directory \<open>p\<close>, read in the store as it is when the query runs.
\<close>

definition get_retriever ::
    "chat_model \<Rightarrow> embeddings \<Rightarrow> string \<Rightarrow> store \<Rightarrow> string \<Rightarrow> document list result" where
  "get_retriever llm emb p st q = multi_query_retrieve (llm chat_openai_default) (base_retriever emb st p) q"

text \<open>The text of \<open>DEFAULT_QUERY_PROMPT\<close> before its one field.\<close>

definition mq_prefix :: string where
  "mq_prefix = ''You are an AI language model assistant. Your task is \<newline>    to generate 3 different versions of the given user \<newline>    question to retrieve relevant documents from a vector  database. \<newline>    By generating multiple perspectives on the user question, \<newline>    your goal is to help the user overcome some of the limitations \<newline>    of distance-based similarity search. Provide these alternative \<newline>    questions separated by newlines. Original question: ''"

subsection \<open>Lemmas\<close>

lemma fmt_MQ_PROMPT: "fmt [(''question'', q)] MQ_PROMPT = Inr (mq_prefix @ q)"
proof -
  have e: "MQ_PROMPT = mq_prefix @ CHR ''{'' # ''question'' @ CHR ''}'' # []"
    by (simp add: MQ_PROMPT_def mq_prefix_def)
  have "fmt [(''question'', q)] MQ_PROMPT = Inr (mq_prefix @ q @ [])"
    unfolding e by (rule fmt_one_field) (simp_all add: mq_prefix_def)
  then show ?thesis by simp
qed

lemma generate_queries_eq: "generate_queries llm q = rmap line_list_parse (llm (mq_prefix @ q))"
  by (simp add: generate_queries_def fmt_MQ_PROMPT)

lemma unique_documents_snoc:
  "unique_documents (ds @ [x]) = unique_documents ds @ (if x \<in> set ds then [] else [x])"
proof -
  let ?P = "\<lambda>(i, d). d \<notin> set (take i (ds @ [x]))"
  have z: "zip [0..<length (ds @ [x])] (ds @ [x]) = zip [0..<length ds] ds @ [(length ds, x)]"
    by simp
  have "filter ?P (zip [0..<length ds] ds) = filter (\<lambda>(i, d). d \<notin> set (take i ds)) (zip [0..<length ds] ds)"
  proof (rule filter_cong [OF refl])
    fix id assume "id \<in> set (zip [0..<length ds] ds)"
    moreover obtain i d where "id = (i, d)" by (cases id)
    ultimately have "i \<in> set [0..<length ds]" by (auto dest: set_zip_leftD)
    then have "fst id < length ds" using \<open>id = (i, d)\<close> by simp
    then show "?P id = (\<lambda>(i, d). d \<notin> set (take i ds)) id" by (cases id) simp
  qed
  then show ?thesis
    unfolding unique_documents_def z by simp
qed

lemma unique_documents_remdups: "unique_documents ds = rev (remdups (rev ds))"
proof (induction ds rule: rev_induct)
  case Nil
  then show ?case by (simp add: unique_documents_def)
next
  case (snoc x ds)
  then show ?case by (simp add: unique_documents_snoc)
qed

lemma set_unique_documents: "set (unique_documents ds) = set ds"
  by (simp add: unique_documents_remdups)

lemma distinct_unique_documents: "distinct (unique_documents ds)"
  by (simp add: unique_documents_remdups)

lemma retrieve_documents_Inr:
  "\<forall>l\<in>set qs. r l = Inr (R l) \<Longrightarrow> retrieve_documents r qs = Inr (concat (map R qs))"
  unfolding retrieve_documents_def by (simp only: map_r_all_Inr rmap_Inr)

lemma get_retriever_eq:
  "get_retriever llm emb p st q =
     rbind (llm chat_openai_default (mq_prefix @ q)) (\<lambda>out.
       rmap unique_documents (retrieve_documents (base_retriever emb st p) (line_list_parse out)))"
  by (cases "llm chat_openai_default (mq_prefix @ q)")
     (simp_all add: get_retriever_def multi_query_retrieve_def generate_queries_eq)

lemma base_retriever_empty:
  "disk st p = Some [] \<Longrightarrow> embed_query emb q = Inr v \<Longrightarrow> base_retriever emb st p q = Inr []"
  by (simp add: base_retriever_def similarity_search_def)

text \<open>An empty collection: every generated query finds nothing, and so does the retriever.\<close>

lemma get_retriever_empty:
  assumes "disk st p = Some []" "\<forall>q. \<exists>v. embed_query emb q = Inr v"
    and "llm chat_openai_default (mq_prefix @ q) = Inr out"
  shows "get_retriever llm emb p st q = Inr []"
proof -
  have "\<forall>l\<in>set (line_list_parse out). base_retriever emb st p l = Inr ((\<lambda>_. []) l)"
    using assms(1,2) base_retriever_empty by metis
  then have "retrieve_documents (base_retriever emb st p) (line_list_parse out) = Inr []"
    using retrieve_documents_Inr [where R = "\<lambda>_. []"] by simp
  then show ?thesis using assms(3) by (simp add: get_retriever_eq unique_documents_def)
qed

lemma length_unique_documents_le: "length (unique_documents ds) \<le> length ds"
  using length_remdups_leq [of "rev ds"] by (simp add: unique_documents_remdups)

lemma base_retriever_bound:
  assumes "disk st p = Some c" "embed_query emb q = Inr v"
  shows "\<exists>ds. base_retriever emb st p q = Inr ds \<and> length ds \<le> 5 \<and> set ds \<subseteq> entry_document ` set c"
proof -
  obtain es where "base_retriever emb st p q = Inr (map entry_document es)"
      "length es = min 5 (length c)" "mset es \<subseteq># mset c"
    using similarity_search_topk [OF assms] unfolding base_retriever_def by blast
  moreover have "set es \<subseteq> set c"
    using \<open>mset es \<subseteq># mset c\<close> by (metis mset_subset_eqD set_mset_mset subsetI)
  ultimately show ?thesis by auto
qed

text \<open>A collection of one record: every query finds it, and the union is that one document.\<close>

lemma base_retriever_single:
  "disk st p = Some [e] \<Longrightarrow> embed_query emb q = Inr v \<Longrightarrow> base_retriever emb st p q = Inr [entry_document e]"
  by (simp add: base_retriever_def similarity_search_def)

lemma remdups_replicate_Suc: "remdups (replicate (Suc n) x) = [x]"
  by (induction n) auto

lemma unique_documents_replicate: "0 < n \<Longrightarrow> unique_documents (replicate n x) = [x]"
  by (cases n) (simp_all only: unique_documents_remdups rev_replicate remdups_replicate_Suc, simp_all)

lemma concat_map_const: "concat (map (\<lambda>_. [x]) xs) = replicate (length xs) x"
  by (induction xs) auto

lemma get_retriever_single:
  assumes "disk st p = Some [e]" "\<forall>q. \<exists>v. embed_query emb q = Inr v"
    and "llm chat_openai_default (mq_prefix @ q) = Inr out" "line_list_parse out \<noteq> []"
  shows "get_retriever llm emb p st q = Inr [entry_document e]"
proof -
  have "\<forall>l\<in>set (line_list_parse out). base_retriever emb st p l = Inr ((\<lambda>_. [entry_document e]) l)"
    using assms(1,2) base_retriever_single by metis
  then have "retrieve_documents (base_retriever emb st p) (line_list_parse out) =
             Inr (concat (map (\<lambda>_. [entry_document e]) (line_list_parse out)))"
    by (rule retrieve_documents_Inr)
  moreover have "concat (map (\<lambda>_. [entry_document e]) (line_list_parse out)) =
                 replicate (length (line_list_parse out)) (entry_document e)"
    by (rule concat_map_const)
  ultimately show ?thesis
    using assms(3,4) by (simp add: get_retriever_eq unique_documents_replicate)
qed

subsection \<open>Properties of the retriever\<close>

text \<open>
  C9. When the expansion call answers \<open>out\<close> and every parsed line \<open>l\<close> of it is
  searched successfully, the retriever returns each document found for some line exactly
  once: the union of the top-5 results of the generated queries, duplicates removed. The
  user's own query contributes only if the model repeats it as a line.
\<close>

theorem get_retriever_union:
  assumes "llm chat_openai_default (mq_prefix @ q) = Inr out"
    and "\<forall>l\<in>set (line_list_parse out). base_retriever emb st p l = Inr (R l)"
  shows "\<exists>ds. get_retriever llm emb p st q = Inr ds \<and> distinct ds \<and>
           set ds = (\<Union>l\<in>set (line_list_parse out). set (R l))"
proof -
  have "retrieve_documents (base_retriever emb st p) (line_list_parse out) =
      Inr (concat (map R (line_list_parse out)))"
    using assms(2) by (rule retrieve_documents_Inr)
  then have "get_retriever llm emb p st q = Inr (unique_documents (concat (map R (line_list_parse out))))"
    using assms(1) by (simp only: get_retriever_eq rbind_Inr rmap_Inr)
  then show ?thesis by (simp add: set_unique_documents distinct_unique_documents)
qed

theorem get_retriever_union_witness:
  "\<exists>ds. get_retriever (\<lambda>c p. Inr ''office hours\<newline>closing day'')
          \<lparr>embed_documents = \<lambda>ts. Inr (map (\<lambda>t. [real (length t)]) ts),
           embed_query = \<lambda>q. Inr [real (length q)]\<rparr> CHROMA_PATH
          \<lparr>disk = (\<lambda>_. None)(CHROMA_PATH \<mapsto>
             [\<lparr>ent_id = ''uuid-0'', ent_vec = [12], ent_text = ''alpha'', ent_meta = []\<rparr>]),
           next_uid = 1, max_batch = 1\<rparr> ''When is the office closed?'' = Inr ds \<and> distinct ds \<and>
        set ds = (\<Union>l\<in>set (line_list_parse ''office hours\<newline>closing day'').
                     set [entry_document \<lparr>ent_id = ''uuid-0'', ent_vec = [12], ent_text = ''alpha'', ent_meta = []\<rparr>])"
  by (rule get_retriever_union)
     (simp_all add: line_list_parse_def py_strip_def py_isspace_def split_on_def base_retriever_def
        similarity_search_def)

text \<open>
  C10. When the expansion reply has no non-blank line (the model answered with white space),
  the retriever returns no document at all, whatever the index holds: with
  \<open>include_original=False\<close> the user's query is never searched. Spec 4.5 (b) runs the
  base search for the original query as well.
\<close>

theorem get_retriever_blank_expansion:
  assumes "llm chat_openai_default (mq_prefix @ q) = Inr out"
    and "line_list_parse out = []"
  shows "get_retriever llm emb p st q = Inr []"
  using assms by (simp add: get_retriever_eq retrieve_documents_def unique_documents_def)

theorem get_retriever_blank_expansion_witness:
  "get_retriever (\<lambda>c p. Inr '' \<newline> '')
     \<lparr>embed_documents = \<lambda>ts. Inr (map (\<lambda>t. [real (length t)]) ts),
      embed_query = \<lambda>q. Inr [real (length q)]\<rparr> CHROMA_PATH
     \<lparr>disk = (\<lambda>_. None)(CHROMA_PATH \<mapsto>
        [\<lparr>ent_id = ''uuid-0'', ent_vec = [26], ent_text = ''When is the office closed?'', ent_meta = []\<rparr>]),
      next_uid = 1, max_batch = 1\<rparr> ''When is the office closed?'' = Inr []"
  by (rule get_retriever_blank_expansion) (simp, code_simp)

text \<open>
  C11. When the expansion call raises, the retriever raises the same exception: there is no
  fallback to the base search for the query alone, which spec 4.5 and 7 require.
\<close>

theorem get_retriever_no_fallback:
  assumes "llm chat_openai_default (mq_prefix @ q) = Inl e"
  shows "get_retriever llm emb p st q = Inl e"
  using assms by (simp add: get_retriever_eq)

theorem get_retriever_no_fallback_witness:
  "get_retriever (\<lambda>c p. Inl (ProviderError ''rate limit''))
     \<lparr>embed_documents = \<lambda>ts. Inr (map (\<lambda>t. [real (length t)]) ts),
      embed_query = \<lambda>q. Inr [real (length q)]\<rparr> CHROMA_PATH
     \<lparr>disk = (\<lambda>_. None)(CHROMA_PATH \<mapsto>
        [\<lparr>ent_id = ''uuid-0'', ent_vec = [5], ent_text = ''alpha'', ent_meta = []\<rparr>]),
      next_uid = 1, max_batch = 1\<rparr> ''alpha'' = Inl (ProviderError ''rate limit'')"
  by (rule get_retriever_no_fallback) simp

text \<open>
  C27. The retrieved context is bounded: when the index directory holds the collection
  \<open>c\<close>, the query embeddings succeed and the expansion call answers \<open>out\<close>, the
  retriever returns at most five documents per parsed line of \<open>out\<close> and never more
  documents than the collection has records (the results are de-duplicated, and each is
  the document of a stored record).
\<close>

theorem get_retriever_bound:
  assumes "disk st p = Some c" "\<forall>l. \<exists>v. embed_query emb l = Inr v"
    and "llm chat_openai_default (mq_prefix @ q) = Inr out"
  shows "\<exists>ds. get_retriever llm emb p st q = Inr ds
           \<and> length ds \<le> 5 * length (line_list_parse out) \<and> length ds \<le> length c"
proof -
  define ls where "ls = line_list_parse out"
  have "\<forall>l. \<exists>ds. base_retriever emb st p l = Inr ds \<and> length ds \<le> 5 \<and> set ds \<subseteq> entry_document ` set c"
    using assms(1,2) base_retriever_bound by metis
  then obtain R where R: "\<And>l. base_retriever emb st p l = Inr (R l)" "\<And>l. length (R l) \<le> 5"
      "\<And>l. set (R l) \<subseteq> entry_document ` set c"
    by metis
  have r: "retrieve_documents (base_retriever emb st p) ls = Inr (concat (map R ls))"
    using R(1) by (intro retrieve_documents_Inr) simp
  let ?ds = "unique_documents (concat (map R ls))"
  have g: "get_retriever llm emb p st q = Inr ?ds"
    using assms(3) r by (simp add: get_retriever_eq ls_def)
  have "length (concat (map R ls)) \<le> 5 * length ls"
    using R(2) by (induction ls) (auto intro: add_mono)
  then have b1: "length ?ds \<le> 5 * length ls"
    using length_unique_documents_le le_trans by blast
  have "set ?ds \<subseteq> entry_document ` set c"
    using R(3) by (auto simp: set_unique_documents)
  then have "card (set ?ds) \<le> card (entry_document ` set c)"
    by (simp add: card_mono)
  also have "\<dots> \<le> length c"
    using card_image_le card_length le_trans by blast
  finally have b2: "length ?ds \<le> length c"
    using distinct_card [OF distinct_unique_documents] by simp
  show ?thesis using g b1 b2 ls_def by blast
qed

theorem get_retriever_bound_witness:
  "\<exists>ds. get_retriever (\<lambda>c p. Inr ''office hours\<newline>closing day\<newline>weekly schedule'')
          \<lparr>embed_documents = \<lambda>ts. Inr (map (\<lambda>t. [real (length t)]) ts),
           embed_query = \<lambda>q. Inr [real (length q)]\<rparr> CHROMA_PATH
          \<lparr>disk = (\<lambda>_. None)(CHROMA_PATH \<mapsto>
             [\<lparr>ent_id = ''uuid-0'', ent_vec = [12], ent_text = ''alpha'', ent_meta = []\<rparr>,
              \<lparr>ent_id = ''uuid-1'', ent_vec = [4], ent_text = ''beta'', ent_meta = []\<rparr>]),
           next_uid = 2, max_batch = 1\<rparr> ''When is the office closed?'' = Inr ds
        \<and> length ds \<le> 5 * length (line_list_parse ''office hours\<newline>closing day\<newline>weekly schedule'')
        \<and> length ds \<le> length
             [\<lparr>ent_id = ''uuid-0'', ent_vec = [12], ent_text = ''alpha'', ent_meta = []\<rparr>,
              \<lparr>ent_id = ''uuid-1'', ent_vec = [4], ent_text = ''beta'', ent_meta = []\<rparr>]"
  by (rule get_retriever_bound) simp_all

end
