(* ===== verification/Splitter.thy ===== *)
theory Splitter
  imports Documents
begin

text \<open>
  The chunker (spec 4.2): \<open>split_text\<close> of \<open>src/Rag/Rag_project.py\<close> builds LangChain's
  \<open>RecursiveCharacterTextSplitter(chunk_size=1000, chunk_overlap=200,
  length_function=len, is_separator_regex=False)\<close> and calls \<open>split_documents\<close>.
  The splitter itself lives in \<open>langchain_text_splitters\<close> (\<open>TextSplitter.__init__\<close>,
  \<open>_merge_splits\<close>, \<open>_join_docs\<close>, \<open>create_documents\<close>, \<open>split_documents\<close> in
  \<open>base.py\<close>; \<open>_split_text_with_regex\<close> and \<open>RecursiveCharacterTextSplitter._split_text\<close>
  in \<open>character.py\<close>); it is modelled here as the spec describes it and as that code
  does it, with the defaults the program leaves in place: separators
  \<open>["\n\n", "\n", " ", ""]\<close>, \<open>keep_separator=True\<close> (the separator starts the next
  piece), \<open>strip_whitespace=True\<close>, \<open>add_start_index=False\<close>.

  Structure: \<open>split_rec\<close> is \<open>_split_text\<close> (choose the first separator that occurs,
  split on it, merge the short pieces, recurse on the long ones with the remaining
  separators) and \<open>split_loop\<close> is its \<open>for s in splits\<close> loop, defined by mutual
  recursion; \<open>merge_loop\<close> is \<open>_merge_splits\<close> with its running \<open>total\<close> and
  \<open>pop_front\<close> its inner \<open>while\<close> loop that drops pieces from the front of the window
  until what is left fits the overlap.
\<close>

record text_splitter =
  chunk_size :: nat
  chunk_overlap :: nat
  separators :: "string list"
  keep_separator :: bool
  strip_whitespace :: bool

definition default_separators :: "string list" where
  "default_separators = [''\<newline>\<newline>'', ''\<newline>'', '' '', []]"

text \<open>\<open>TextSplitter.__init__\<close>: the argument checks, then the defaults.\<close>

definition make_text_splitter :: "int \<Rightarrow> int \<Rightarrow> text_splitter result" where
  "make_text_splitter csize coverlap =
     (if csize \<le> 0 then Inl (ValueError ''chunk_size must be > 0'')
      else if coverlap < 0 then Inl (ValueError ''chunk_overlap must be >= 0'')
      else if csize < coverlap then Inl (ValueError ''Got a larger chunk overlap than chunk size'')
      else Inr \<lparr>chunk_size = nat csize, chunk_overlap = nat coverlap,
                separators = default_separators, keep_separator = True,
                strip_whitespace = True\<rparr>)"

subsection \<open>Splitting on one separator\<close>

text \<open>
  \<open>_split_text_with_regex(text, re.escape(sep), keep_separator)\<close>: with a separator and
  \<open>keep_separator\<close>, \<open>re.split\<close> with a capture group gives the pieces and the
  separators between them, and each separator is glued to the start of the piece after it;
  without \<open>keep_separator\<close> the separators are dropped; the empty separator splits into
  characters. Empty strings are filtered out.
\<close>

definition split_text_with_regex :: "string \<Rightarrow> string \<Rightarrow> bool \<Rightarrow> string list" where
  "split_text_with_regex t sep keep =
     filter (\<lambda>s. s \<noteq> [])
       (if sep \<noteq> []
        then (if keep
              then (case split_on sep t of [] \<Rightarrow> [] | p # ps \<Rightarrow> p # map (\<lambda>q. sep @ q) ps)
              else split_on sep t)
        else map (\<lambda>c. [c]) t)"

text \<open>
  The separator loop at the top of \<open>_split_text\<close>
  (\<open>for i, _s in enumerate(separators)\<close>): the empty separator is taken at once with no
  finer separators left; otherwise the first separator that occurs in the text
  (\<open>re.search\<close> of the escaped separator, a substring test) is taken with
  \<open>separators[i + 1:]\<close>; if none occurs, the last one is taken with none left. The list of separators is given as its head and tail: \<open>_split_text\<close>
  reads \<open>separators[-1]\<close> first, which raises \<open>IndexError\<close> on an empty list, and it
  only ever recurses with a non-empty list.
\<close>

fun pick_separator :: "string \<Rightarrow> string list \<Rightarrow> nat \<Rightarrow> (string \<times> nat option) option" where
  "pick_separator t [] i = None"
| "pick_separator t (s # ss) i =
     (if s = [] then Some ([], None)
      else if sublist s t then Some (s, Some i)
      else pick_separator t ss (Suc i))"

definition choose_separator :: "string \<Rightarrow> string \<Rightarrow> string list \<Rightarrow> string \<times> string list" where
  "choose_separator t s0 ss =
     (case pick_separator t (s0 # ss) 0 of
        Some (s, Some i) \<Rightarrow> (s, drop (Suc i) (s0 # ss))
      | Some (s, None) \<Rightarrow> (s, [])
      | None \<Rightarrow> (last (s0 # ss), []))"

subsection \<open>Merging pieces into chunks\<close>

text \<open>\<open>_join_docs\<close>: join, strip, and drop an empty result.\<close>

definition join_docs :: "text_splitter \<Rightarrow> string list \<Rightarrow> string \<Rightarrow> string option" where
  "join_docs cfg docs sep =
     (let t = py_join sep docs;
          t' = (if strip_whitespace cfg then py_strip t else t)
      in if t' = [] then None else Some t')"

text \<open>
  The inner loop of \<open>_merge_splits\<close>:
  \<^verbatim>\<open>while total > self._chunk_overlap or (
          total + _len + (separator_len if len(current_doc) > 0 else 0)
          > self._chunk_size and total > 0):
      total -= self._length_function(current_doc[0]) + (
          separator_len if len(current_doc) > 1 else 0)
      current_doc = current_doc[1:]\<close>
  With an empty window the loop condition cannot hold, since \<open>total\<close> is the length of the
  joined window (lemma \<open>merge_total_inv\<close>); the equation for \<open>[]\<close> returns.
\<close>

fun pop_front :: "text_splitter \<Rightarrow> nat \<Rightarrow> nat \<Rightarrow> string list \<Rightarrow> nat \<Rightarrow> string list \<times> nat" where
  "pop_front cfg sl len [] tot = ([], tot)"
| "pop_front cfg sl len (c # cs) tot =
     (if chunk_overlap cfg < tot \<or> (chunk_size cfg < tot + len + sl \<and> 0 < tot)
      then pop_front cfg sl len cs (tot - (length c + (if cs \<noteq> [] then sl else 0)))
      else (c # cs, tot))"

text \<open>
  The outer loop of \<open>_merge_splits(splits, separator)\<close>: \<open>cur\<close> is \<open>current_doc\<close>,
  \<open>tot\<close> its running length. When the next piece does not fit, the window is emitted
  and shrunk from the front; then the piece is appended. The final window is emitted at
  the end. The source tests \<open>total + _len + (separator_len if len(current_doc) > 0
  else 0) > self._chunk_size\<close> and, inside, \<open>len(current_doc) > 0\<close> before it emits
  (with an empty window it only logs a warning); the model tests the conjunction, in
  which the separator length is counted because the window is non-empty.
\<close>

function merge_loop :: "text_splitter \<Rightarrow> string \<Rightarrow> string list \<Rightarrow> nat \<Rightarrow> string list \<Rightarrow> string list" where
  "merge_loop cfg sep cur tot [] = list_of_opt (join_docs cfg cur sep)"
| "merge_loop cfg sep cur tot (d # ds) =
     (if cur \<noteq> [] \<and> chunk_size cfg < tot + length d + length sep
      then (case pop_front cfg (length sep) (length d) cur tot of
              (cur', tot') \<Rightarrow>
                list_of_opt (join_docs cfg cur sep) @
                merge_loop cfg sep (cur' @ [d])
                  (tot' + length d + (if cur' \<noteq> [] then length sep else 0)) ds)
      else merge_loop cfg sep (cur @ [d]) (tot + length d + (if cur \<noteq> [] then length sep else 0)) ds)"
  by pat_completeness auto
termination
  by (relation "measure (\<lambda>(cfg, sep, cur, tot, ds). length ds)") auto

definition merge_splits :: "text_splitter \<Rightarrow> string list \<Rightarrow> string \<Rightarrow> string list" where
  "merge_splits cfg splits sep = merge_loop cfg sep [] 0 splits"

subsection \<open>The recursive splitter\<close>

text \<open>
  \<open>_split_text(text, separators)\<close> and its loop over the pieces: pieces shorter than
  \<open>chunk_size\<close> are collected in \<open>good\<close> (\<open>_good_splits\<close>) and merged; a longer
  piece first flushes the collected ones, then is split again with the finer separators,
  or is kept whole when none is left.
\<close>

function (sequential) split_rec ::
    "text_splitter \<Rightarrow> string \<Rightarrow> string list \<Rightarrow> string \<Rightarrow> string list"
  and split_loop ::
    "text_splitter \<Rightarrow> string \<Rightarrow> string list \<Rightarrow> string list \<Rightarrow> string list \<Rightarrow> string list"
where
  "split_rec cfg s0 ss t =
     (let (sep, new) = choose_separator t s0 ss;
          msep = (if keep_separator cfg then [] else sep)
      in split_loop cfg msep new [] (split_text_with_regex t sep (keep_separator cfg)))"
| "split_loop cfg msep new good [] =
     (if good = [] then [] else merge_splits cfg good msep)"
| "split_loop cfg msep new good (s # ss) =
     (if length s < chunk_size cfg then split_loop cfg msep new (good @ [s]) ss
      else (if good = [] then [] else merge_splits cfg good msep) @
           (case new of [] \<Rightarrow> [s] | n # ns \<Rightarrow> split_rec cfg n ns s) @
           split_loop cfg msep new [] ss)"
  by pat_completeness auto
termination
  by (relation "measures
    [\<lambda>x. case x of Inl (_, _, ss, _) \<Rightarrow> 2 * length ss + 1 | Inr (_, _, new, _, _) \<Rightarrow> 2 * length new,
     \<lambda>x. case x of Inl _ \<Rightarrow> 0 | Inr (_, _, _, _, sp) \<Rightarrow> length sp]")
     (auto simp: choose_separator_def split: option.splits)

subsection \<open>Splitting documents\<close>

text \<open>\<open>RecursiveCharacterTextSplitter.split_text(text)\<close> is \<open>_split_text(text, self._separators)\<close>.\<close>

definition rcts_split_text :: "text_splitter \<Rightarrow> string \<Rightarrow> string list result" where
  "rcts_split_text cfg t =
     (case separators cfg of [] \<Rightarrow> Inl IndexError | s0 # ss \<Rightarrow> Inr (split_rec cfg s0 ss t))"

text \<open>
  \<open>create_documents(texts, metadatas)\<close> with \<open>add_start_index=False\<close>: one new
  \<open>Document\<close> per chunk, carrying a copy of its source's metadata and no id;
  \<open>split_documents(documents)\<close> passes each document's text and metadata to it.
\<close>

definition split_documents :: "text_splitter \<Rightarrow> document list \<Rightarrow> document list result" where
  "split_documents cfg docs =
     rmap concat
       (map_r (\<lambda>d. rmap (map (\<lambda>c. mk_document c (metadata d))) (rcts_split_text cfg (page_content d)))
          docs)"

text \<open>
  \<open>split_text(documents)\<close> of \<open>Rag_project.py\<close> (lines 129--142): the splitter of the
  program's configuration applied to the loaded documents (the two \<open>print\<close> calls are
  progress output only).
\<close>

definition split_text :: "document list \<Rightarrow> document list result" where
  "split_text docs = rbind (make_text_splitter 1000 200) (\<lambda>sp. split_documents sp docs)"

text \<open>
  The invariant of \<open>_merge_splits\<close>: the running total is the length of the joined
  window, the window fits in a chunk, and it holds no empty piece.
\<close>

definition merge_inv :: "text_splitter \<Rightarrow> string \<Rightarrow> string list \<Rightarrow> nat \<Rightarrow> bool" where
  "merge_inv cfg sep cur tot \<longleftrightarrow>
     tot = length (py_join sep cur) \<and> tot \<le> chunk_size cfg \<and> (\<forall>c\<in>set cur. c \<noteq> [])"

subsection \<open>Lemmas: the merge loop\<close>

lemma join_docs_Some:
  "join_docs cfg docs sep = Some x \<Longrightarrow> sublist x (py_join sep docs)"
  by (auto simp: join_docs_def Let_def split: if_splits)

lemma join_docs_length:
  "join_docs cfg docs sep = Some x \<Longrightarrow> length x \<le> length (py_join sep docs)"
  by (auto simp: join_docs_def Let_def split: if_splits)

lemma pop_front_inv:
  assumes "pop_front cfg (length sep) len cur tot = (cur', tot')"
    and "tot = length (py_join sep cur)"
  shows "tot' = length (py_join sep cur') \<and> suffix cur' cur \<and>
         (cur' \<noteq> [] \<longrightarrow> \<not> (chunk_overlap cfg < tot' \<or>
                                (chunk_size cfg < tot' + len + length sep \<and> 0 < tot')))"
  using assms
proof (induction cur arbitrary: tot)
  case Nil
  then show ?case by simp
next
  case (Cons c cs)
  show ?case
  proof (cases "chunk_overlap cfg < tot \<or> (chunk_size cfg < tot + len + length sep \<and> 0 < tot)")
    case True
    with Cons.prems have "pop_front cfg (length sep) len cs
        (tot - (length c + (if cs \<noteq> [] then length sep else 0))) = (cur', tot')"
      by simp
    moreover have "tot - (length c + (if cs \<noteq> [] then length sep else 0)) = length (py_join sep cs)"
      using Cons.prems(2) by (simp add: length_py_join_Cons)
    ultimately show ?thesis
      using Cons.IH by (auto intro: suffix_ConsI)
  next
    case False
    with Cons.prems show ?thesis by auto
  qed
qed

lemma merge_inv_step:
  assumes inv: "merge_inv cfg sep cur tot"
    and d: "d \<noteq> []" "length d \<le> chunk_size cfg"
    and pop: "pop_front cfg (length sep) (length d) cur tot = (cur', tot')"
  shows "merge_inv cfg sep (cur' @ [d]) (tot' + length d + (if cur' \<noteq> [] then length sep else 0))"
proof -
  from pop inv have p: "tot' = length (py_join sep cur') \<and> suffix cur' cur \<and>
      (cur' \<noteq> [] \<longrightarrow> \<not> (chunk_overlap cfg < tot' \<or>
          (chunk_size cfg < tot' + length d + length sep \<and> 0 < tot')))"
    by (intro pop_front_inv) (auto simp: merge_inv_def)
  have ne: "\<forall>c\<in>set cur'. c \<noteq> []"
    using p inv by (auto simp: merge_inv_def dest: set_mono_suffix)
  show ?thesis
  proof (cases "cur' = []")
    case True
    with p d show ?thesis by (simp add: merge_inv_def)
  next
    case False
    with ne have "0 < tot'" using p py_join_pos by blast
    with False p d ne show ?thesis
      by (auto simp: merge_inv_def py_join_snoc)
  qed
qed

lemma merge_inv_append:
  assumes inv: "merge_inv cfg sep cur tot"
    and d: "d \<noteq> []" "length d \<le> chunk_size cfg"
    and fits: "\<not> (cur \<noteq> [] \<and> chunk_size cfg < tot + length d + length sep)"
  shows "merge_inv cfg sep (cur @ [d]) (tot + length d + (if cur \<noteq> [] then length sep else 0))"
  using assms by (cases "cur = []") (auto simp: merge_inv_def py_join_snoc)

lemma merge_loop_bound:
  "merge_inv cfg sep cur tot \<Longrightarrow> \<forall>d\<in>set ds. d \<noteq> [] \<and> length d \<le> chunk_size cfg \<Longrightarrow>
   x \<in> set (merge_loop cfg sep cur tot ds) \<Longrightarrow> length x \<le> chunk_size cfg"
proof (induction cfg sep cur tot ds rule: merge_loop.induct)
  case (1 cfg sep cur tot)
  then show ?case
    by (auto simp: merge_inv_def dest!: join_docs_length)
next
  case (2 cfg sep cur tot d ds)
  show ?case
  proof (cases "cur \<noteq> [] \<and> chunk_size cfg < tot + length d + length sep")
    case True
    obtain cur' tot' where pop: "pop_front cfg (length sep) (length d) cur tot = (cur', tot')"
      by fastforce
    from True pop "2.prems"(3) have
      "x \<in> set (list_of_opt (join_docs cfg cur sep)) \<or>
       x \<in> set (merge_loop cfg sep (cur' @ [d]) (tot' + length d + (if cur' \<noteq> [] then length sep else 0)) ds)"
      by auto
    then show ?thesis
    proof
      assume "x \<in> set (list_of_opt (join_docs cfg cur sep))"
      with "2.prems"(1) show ?thesis by (auto simp: merge_inv_def dest!: join_docs_length)
    next
      assume x: "x \<in> set (merge_loop cfg sep (cur' @ [d]) (tot' + length d + (if cur' \<noteq> [] then length sep else 0)) ds)"
      have "merge_inv cfg sep (cur' @ [d]) (tot' + length d + (if cur' \<noteq> [] then length sep else 0))"
        using merge_inv_step "2.prems"(1,2) pop by auto
      with "2.IH"(1) [OF True pop [symmetric]] "2.prems"(2) x show ?thesis by auto
    qed
  next
    case False
    with "2.prems"(3) have x: "x \<in> set (merge_loop cfg sep (cur @ [d]) (tot + length d + (if cur \<noteq> [] then length sep else 0)) ds)"
      by simp
    have "merge_inv cfg sep (cur @ [d]) (tot + length d + (if cur \<noteq> [] then length sep else 0))"
      using merge_inv_append "2.prems"(1,2) False by auto
    with "2.IH"(2) [OF False] "2.prems"(2) x show ?thesis by auto
  qed
qed

lemma pop_front_suffix:
  "pop_front cfg sl len cur tot = (cur', tot') \<Longrightarrow> suffix cur' cur"
  by (induction cfg sl len cur tot rule: pop_front.induct) (auto split: if_splits intro: suffix_ConsI)

lemma merge_loop_sublist:
  "x \<in> set (merge_loop cfg sep cur tot ds) \<Longrightarrow> sublist x (py_join sep (cur @ ds))"
proof (induction cfg sep cur tot ds rule: merge_loop.induct)
  case (1 cfg sep cur tot)
  then show ?case by (auto dest!: join_docs_Some)
next
  case (2 cfg sep cur tot d ds)
  show ?case
  proof (cases "cur \<noteq> [] \<and> chunk_size cfg < tot + length d + length sep")
    case True
    obtain cur' tot' where pop: "pop_front cfg (length sep) (length d) cur tot = (cur', tot')"
      by fastforce
    then have "suffix cur' cur" by (rule pop_front_suffix)
    then obtain p where p: "cur = p @ cur'" by (auto simp: suffix_def)
    from True pop "2.prems" have
      "x \<in> set (list_of_opt (join_docs cfg cur sep)) \<or>
       x \<in> set (merge_loop cfg sep (cur' @ [d]) (tot' + length d + (if cur' \<noteq> [] then length sep else 0)) ds)"
      by auto
    then show ?thesis
    proof
      assume "x \<in> set (list_of_opt (join_docs cfg cur sep))"
      then have "sublist x (py_join sep cur)" by (auto dest!: join_docs_Some)
      also have "sublist (py_join sep cur) (py_join sep ([] @ cur @ d # ds))"
        by (rule sublist_py_join_infix)
      finally show ?thesis by simp
    next
      assume "x \<in> set (merge_loop cfg sep (cur' @ [d]) (tot' + length d + (if cur' \<noteq> [] then length sep else 0)) ds)"
      with "2.IH"(1) [OF True pop [symmetric]] have "sublist x (py_join sep ((cur' @ [d]) @ ds))"
        by blast
      also have "sublist (py_join sep ((cur' @ [d]) @ ds)) (py_join sep (p @ ((cur' @ [d]) @ ds) @ []))"
        by (rule sublist_py_join_infix)
      finally show ?thesis using p by simp
    qed
  next
    case False
    with "2.IH"(2) "2.prems" show ?thesis by simp
  qed
qed

lemma merge_splits_bound:
  "\<forall>d\<in>set ds. d \<noteq> [] \<and> length d \<le> chunk_size cfg \<Longrightarrow>
   x \<in> set (merge_splits cfg ds sep) \<Longrightarrow> length x \<le> chunk_size cfg"
  unfolding merge_splits_def
  by (rule merge_loop_bound) (auto simp: merge_inv_def)

lemma merge_splits_sublist:
  "x \<in> set (merge_splits cfg ds sep) \<Longrightarrow> sublist x (py_join sep ds)"
  unfolding merge_splits_def using merge_loop_sublist by fastforce

lemma split_text_with_regex_nonempty:
  "s \<in> set (split_text_with_regex t sep keep) \<Longrightarrow> s \<noteq> []"
  by (simp add: split_text_with_regex_def)

lemma split_text_with_regex_chars:
  "s \<in> set (split_text_with_regex t [] keep) \<Longrightarrow> length s = 1"
  by (auto simp: split_text_with_regex_def)

lemma concat_split_text_with_regex:
  "concat (split_text_with_regex t sep True) = t"
proof (cases "sep = []")
  case True
  then show ?thesis by (simp add: split_text_with_regex_def concat_map_singleton)
next
  case False
  obtain p ps where sp: "split_on sep t = p # ps"
    by (metis split_on_def split_on_aux_nonempty list.exhaust)
  have "concat (split_text_with_regex t sep True) = concat (p # map (\<lambda>q. sep @ q) ps)"
    using False sp by (simp add: split_text_with_regex_def)
  also have "\<dots> = py_join sep (split_on sep t)"
    using sp by (simp add: py_join_Cons_concat)
  also have "\<dots> = t" by (rule py_join_split_on)
  finally show ?thesis .
qed

lemma pick_separator_found:
  "pick_separator t seps i = Some (s, Some j) \<Longrightarrow>
   i \<le> j \<and> j - i < length seps \<and> seps ! (j - i) = s \<and> s \<noteq> [] \<and> [] \<notin> set (take (j - i) seps)"
proof (induction t seps i rule: pick_separator.induct)
  case (2 t s' ss i)
  show ?case
  proof (cases "s' = [] \<or> sublist s' t")
    case True
    with "2.prems" show ?thesis by (auto split: if_splits)
  next
    case False
    with "2.prems" have "pick_separator t ss (Suc i) = Some (s, Some j)" by simp
    with "2.IH" False have "Suc i \<le> j \<and> j - Suc i < length ss \<and> ss ! (j - Suc i) = s \<and>
        s \<noteq> [] \<and> [] \<notin> set (take (j - Suc i) ss)" by simp
    with False show ?thesis
      by (auto simp: Suc_diff_Suc [symmetric] take_Cons' nth_Cons' simp del: Suc_diff_Suc)
  qed
qed simp

lemma pick_separator_empty_sep:
  "pick_separator t seps i = Some (s, None) \<Longrightarrow> s = []"
  by (induction t seps i rule: pick_separator.induct) (auto split: if_splits)

lemma pick_separator_None:
  "pick_separator t seps i = None \<Longrightarrow> [] \<notin> set seps"
  by (induction t seps i rule: pick_separator.induct) (auto split: if_splits)

lemma choose_separator_empty:
  assumes "[] \<in> set (s0 # ss)" and ch: "choose_separator t s0 ss = (sep, new)"
  shows "sep = [] \<and> new = [] \<or> sep \<noteq> [] \<and> [] \<in> set new"
proof (cases "pick_separator t (s0 # ss) 0")
  case None
  with assms(1) show ?thesis using pick_separator_None by blast
next
  case (Some r)
  then obtain s jo where r: "pick_separator t (s0 # ss) 0 = Some (s, jo)"
    by (cases r) auto
  show ?thesis
  proof (cases jo)
    case None
    with r have "s = []" using pick_separator_empty_sep by blast
    with r None ch show ?thesis by (simp add: choose_separator_def)
  next
    case (Some j)
    let ?seps = "s0 # ss"
    from r Some have f: "j < length ?seps \<and> ?seps ! j = s \<and> s \<noteq> [] \<and> [] \<notin> set (take j ?seps)"
      using pick_separator_found [of t ?seps 0 s j] by simp
    have "?seps = take j ?seps @ ?seps ! j # drop (Suc j) ?seps"
      using f id_take_nth_drop by blast
    with assms(1) f have "[] \<in> set (drop (Suc j) ?seps)"
      by (metis Un_iff list.set_intros(2) set_ConsD set_append)
    with r Some ch f show ?thesis by (auto simp: choose_separator_def)
  qed
qed

lemma split_rec_bound:
  "0 < chunk_size cfg \<Longrightarrow> [] \<in> set (s0 # ss) \<Longrightarrow>
   x \<in> set (split_rec cfg s0 ss t) \<Longrightarrow> length x \<le> chunk_size cfg"
and split_loop_bound:
  "0 < chunk_size cfg \<Longrightarrow> (new \<noteq> [] \<longrightarrow> [] \<in> set new) \<Longrightarrow>
   (new = [] \<longrightarrow> (\<forall>s\<in>set splits. length s \<le> 1)) \<Longrightarrow> (\<forall>s\<in>set splits. s \<noteq> []) \<Longrightarrow>
   (\<forall>g\<in>set good. g \<noteq> [] \<and> length g < chunk_size cfg) \<Longrightarrow>
   x \<in> set (split_loop cfg msep new good splits) \<Longrightarrow> length x \<le> chunk_size cfg"
proof (induction cfg s0 ss t and cfg msep new good splits rule: split_rec_split_loop.induct)
  case (1 cfg s0 ss t)
  obtain sep new where ch: "choose_separator t s0 ss = (sep, new)" by fastforce
  let ?msep = "if keep_separator cfg then [] else sep"
  let ?sp = "split_text_with_regex t sep (keep_separator cfg)"
  have x: "x \<in> set (split_loop cfg ?msep new [] ?sp)"
    using "1.prems"(3) ch by simp
  from choose_separator_empty [OF "1.prems"(2) ch]
  have "(new \<noteq> [] \<longrightarrow> [] \<in> set new) \<and> (new = [] \<longrightarrow> (\<forall>s\<in>set ?sp. length s \<le> 1))"
    by (auto dest: split_text_with_regex_chars)
  with "1.IH" [OF ch [symmetric] refl refl] "1.prems"(1) x show ?case
    by (auto dest: split_text_with_regex_nonempty)
next
  case (2 cfg msep new good)
  then have "\<forall>d\<in>set good. d \<noteq> [] \<and> length d \<le> chunk_size cfg"
    by (auto intro: less_imp_le)
  with "2.prems"(6) show ?case
    by (auto split: if_splits intro: merge_splits_bound)
next
  case (3 cfg msep new good s ss)
  show ?case
  proof (cases "length s < chunk_size cfg")
    case True
    with "3.prems" "3.IH"(1) show ?thesis by auto
  next
    case False
    from False "3.prems"(6) consider
        (m) "x \<in> set (if good = [] then [] else merge_splits cfg good msep)"
      | (r) "x \<in> set (case new of [] \<Rightarrow> [s] | n # ns \<Rightarrow> split_rec cfg n ns s)"
      | (l) "x \<in> set (split_loop cfg msep new [] ss)"
      by auto
    then show ?thesis
    proof cases
      case m
      from "3.prems"(5) have "\<forall>d\<in>set good. d \<noteq> [] \<and> length d \<le> chunk_size cfg"
        by (auto intro: less_imp_le)
      with m show ?thesis by (auto split: if_splits intro: merge_splits_bound)
    next
      case r
      show ?thesis
      proof (cases new)
        case Nil
        with r "3.prems"(1,3) show ?thesis by auto
      next
        case (Cons n ns)
        with r "3.prems"(1,2) "3.IH"(2) [OF False Cons] show ?thesis by auto
      qed
    next
      case l
      with "3.prems"(1-4) "3.IH"(3) [OF False] show ?thesis by auto
    qed
  qed
qed

lemma split_rec_sublist:
  "keep_separator cfg \<Longrightarrow> x \<in> set (split_rec cfg s0 ss t) \<Longrightarrow> sublist x t"
and split_loop_sublist:
  "keep_separator cfg \<Longrightarrow> msep = [] \<Longrightarrow>
   x \<in> set (split_loop cfg msep new good splits) \<Longrightarrow> sublist x (concat (good @ splits))"
proof (induction cfg s0 ss t and cfg msep new good splits rule: split_rec_split_loop.induct)
  case (1 cfg s0 ss t)
  obtain sep new where ch: "choose_separator t s0 ss = (sep, new)" by fastforce
  let ?sp = "split_text_with_regex t sep True"
  have "x \<in> set (split_loop cfg [] new [] ?sp)"
    using "1.prems" ch by simp
  with "1.IH" [OF ch [symmetric] refl refl] "1.prems"(1) have "sublist x (concat ([] @ ?sp))"
    by simp
  then show ?case by (simp add: concat_split_text_with_regex)
next
  case (2 cfg msep new good)
  then show ?case
    by (auto split: if_splits dest: merge_splits_sublist)
next
  case (3 cfg msep new good s ss)
  show ?case
  proof (cases "length s < chunk_size cfg")
    case True
    with "3.prems" "3.IH"(1) show ?thesis by auto
  next
    case False
    from False "3.prems"(3) consider
        (m) "x \<in> set (if good = [] then [] else merge_splits cfg good msep)"
      | (r) "x \<in> set (case new of [] \<Rightarrow> [s] | n # ns \<Rightarrow> split_rec cfg n ns s)"
      | (l) "x \<in> set (split_loop cfg msep new [] ss)"
      by auto
    then show ?thesis
    proof cases
      case m
      then have "sublist x (concat good)"
        using "3.prems"(2) by (auto split: if_splits dest: merge_splits_sublist)
      then show ?thesis by (metis append_Nil2 concat_append sublist_order.order_trans sublist_append_rightI)
    next
      case r
      have "sublist x s"
      proof (cases new)
        case Nil
        with r show ?thesis by simp
      next
        case (Cons n ns)
        with r "3.prems"(1) "3.IH"(2) [OF False Cons] show ?thesis by auto
      qed
      then show ?thesis
        by (metis concat.simps(2) concat_append sublist_order.order_trans sublist_appendI)
    next
      case l
      with "3.prems"(1,2) "3.IH"(3) [OF False] have "sublist x (concat ss)" by simp
      then show ?thesis
        by (metis concat.simps(2) concat_append sublist_order.order_trans sublist_append_leftI append_assoc)
    qed
  qed
qed

lemma rcts_split_text_bound:
  "0 < chunk_size cfg \<Longrightarrow> [] \<in> set (separators cfg) \<Longrightarrow>
   rcts_split_text cfg t = Inr cs \<Longrightarrow> c \<in> set cs \<Longrightarrow> length c \<le> chunk_size cfg"
  by (auto simp: rcts_split_text_def split: list.splits intro: split_rec_bound)

lemma rcts_split_text_sublist:
  "keep_separator cfg \<Longrightarrow> rcts_split_text cfg t = Inr cs \<Longrightarrow> c \<in> set cs \<Longrightarrow> sublist c t"
  by (auto simp: rcts_split_text_def split: list.splits intro: split_rec_sublist)

lemma rcts_split_text_Inr:
  "separators cfg \<noteq> [] \<Longrightarrow> \<exists>cs. rcts_split_text cfg t = Inr cs"
  by (auto simp: rcts_split_text_def split: list.splits)

lemma split_documents_Inr:
  "separators cfg \<noteq> [] \<Longrightarrow> \<exists>cs. split_documents cfg docs = Inr cs"
proof -
  assume "separators cfg \<noteq> []"
  then have "\<forall>d\<in>set docs. \<exists>ts. rcts_split_text cfg (page_content d) = Inr ts"
    using rcts_split_text_Inr by blast
  then obtain g where "\<forall>d\<in>set docs. rcts_split_text cfg (page_content d) = Inr (g d)"
    by metis
  then show ?thesis
    by (auto simp: split_documents_def map_r_all_Inr [where g = "\<lambda>d. map (\<lambda>c. mk_document c (metadata d)) (g d)"])
qed

lemma split_documents_elem:
  assumes "split_documents cfg docs = Inr cs" and "c \<in> set cs"
  shows "\<exists>d\<in>set docs. \<exists>ts. rcts_split_text cfg (page_content d) = Inr ts \<and>
           c = mk_document (page_content c) (metadata d) \<and> page_content c \<in> set ts"
proof -
  from assms(1) obtain css where m: "map_r (\<lambda>d. rmap (map (\<lambda>c. mk_document c (metadata d)))
        (rcts_split_text cfg (page_content d))) docs = Inr css" and cs: "cs = concat css"
    by (auto simp: split_documents_def)
  from assms(2) cs obtain ds where ds: "ds \<in> set css" "c \<in> set ds" by auto
  from map_r_Inr_elem [OF m ds(1)] obtain d where
    "d \<in> set docs" "rmap (map (\<lambda>c. mk_document c (metadata d))) (rcts_split_text cfg (page_content d)) = Inr ds"
    by blast
  with ds(2) show ?thesis by force
qed

lemma make_text_splitter_program:
  "make_text_splitter 1000 200 =
     Inr \<lparr>chunk_size = 1000, chunk_overlap = 200, separators = default_separators,
          keep_separator = True, strip_whitespace = True\<rparr>"
  by (simp add: make_text_splitter_def)

subsection \<open>Properties of the program's chunker\<close>

text \<open>
  C1. The program's chunker never fails, and every chunk it produces from the loaded
  documents is at most 1000 characters long, the configured \<open>chunk_size\<close>: the hard
  upper bound of spec 4.2 that the embedding call relies on.
\<close>

theorem split_text_bound:
  "\<exists>cs. split_text docs = Inr cs \<and> (\<forall>c\<in>set cs. length (page_content c) \<le> 1000)"
proof -
  let ?cfg = "\<lparr>chunk_size = 1000, chunk_overlap = 200, separators = default_separators,
          keep_separator = True, strip_whitespace = True\<rparr>"
  obtain cs where cs: "split_documents ?cfg docs = Inr cs"
    using split_documents_Inr [of ?cfg docs] by (auto simp: default_separators_def)
  have "length (page_content c) \<le> 1000" if "c \<in> set cs" for c
    using split_documents_elem [OF cs that] rcts_split_text_bound [of ?cfg]
    by (fastforce simp: default_separators_def)
  with cs show ?thesis by (auto simp: split_text_def make_text_splitter_program)
qed

text \<open>
  C2. Every chunk is a verbatim substring of the text of one of the loaded documents and
  carries exactly that document's metadata and no id: chunking never invents text, and it
  adds no sequential index to the metadata (spec 3 and 4.2 promise one).
\<close>

theorem split_text_grounded:
  assumes "split_text docs = Inr cs" and "c \<in> set cs"
  shows "\<exists>d\<in>set docs. sublist (page_content c) (page_content d) \<and>
           metadata c = metadata d \<and> doc_id c = None"
proof -
  let ?cfg = "\<lparr>chunk_size = 1000, chunk_overlap = 200, separators = default_separators,
          keep_separator = True, strip_whitespace = True\<rparr>"
  from assms(1) have "split_documents ?cfg docs = Inr cs"
    by (simp add: split_text_def make_text_splitter_program)
  from split_documents_elem [OF this assms(2)] rcts_split_text_sublist [of ?cfg]
  show ?thesis by (metis mk_document_sel select_convs(4))
qed

theorem split_text_bound_witness:
  "\<exists>cs. split_text [mk_document ''Offices close on Fridays.'' [(''source'', MStr ''faq.txt'')]] = Inr cs \<and>
     (\<forall>c\<in>set cs. length (page_content c) \<le> 1000)"
  by (rule split_text_bound)

theorem split_text_grounded_witness:
  "split_text [mk_document ''Offices close on Fridays.'' [(''source'', MStr ''faq.txt'')]] =
     Inr [mk_document ''Offices close on Fridays.'' [(''source'', MStr ''faq.txt'')]] \<and>
   (\<exists>d\<in>set [mk_document ''Offices close on Fridays.'' [(''source'', MStr ''faq.txt'')]].
      sublist (page_content (mk_document ''Offices close on Fridays.'' [(''source'', MStr ''faq.txt'')]))
        (page_content d) \<and>
      metadata (mk_document ''Offices close on Fridays.'' [(''source'', MStr ''faq.txt'')]) = metadata d \<and>
      doc_id (mk_document ''Offices close on Fridays.'' [(''source'', MStr ''faq.txt'')]) = None)"
proof -
  have eq: "split_text [mk_document ''Offices close on Fridays.'' [(''source'', MStr ''faq.txt'')]] =
     Inr [mk_document ''Offices close on Fridays.'' [(''source'', MStr ''faq.txt'')]]"
    by code_simp
  show ?thesis
    using eq split_text_grounded [OF eq, of "mk_document ''Offices close on Fridays.'' [(''source'', MStr ''faq.txt'')]"]
    by simp
qed

subsection \<open>Chunks carry no id\<close>

lemma split_text_ids: "split_text docs = Inr cs \<Longrightarrow> \<forall>c\<in>set cs. doc_id c = None"
proof
  fix c assume "split_text docs = Inr cs" "c \<in> set cs"
  then have "split_documents \<lparr>chunk_size = 1000, chunk_overlap = 200, separators = default_separators,
          keep_separator = True, strip_whitespace = True\<rparr> docs = Inr cs"
    by (simp add: split_text_def make_text_splitter_program)
  from split_documents_elem [OF this \<open>c \<in> set cs\<close>] show "doc_id c = None"
    by (metis mk_document_sel(3))
qed

lemma split_text_meta:
  assumes "split_text docs = Inr cs" "c \<in> set cs"
  shows "\<exists>d\<in>set docs. metadata c = metadata d"
proof -
  have "split_documents \<lparr>chunk_size = 1000, chunk_overlap = 200, separators = default_separators,
          keep_separator = True, strip_whitespace = True\<rparr> docs = Inr cs"
    using assms(1) by (simp add: split_text_def make_text_splitter_program)
  from split_documents_elem [OF this assms(2)] show ?thesis
    by (metis mk_document_sel(2))
qed

lemma split_text_Nil: "split_text [] = Inr []"
  by (simp add: split_text_def make_text_splitter_program split_documents_def)

end
