(* ===== verification/Loader.thy ===== *)
theory Loader
  imports Documents
begin

text \<open>
  The document loader (spec 4.1): \<open>load_documents(data_path)\<close> of
  \<open>src/Rag/Rag_project.py\<close> runs three LangChain \<open>DirectoryLoader\<close> passes over the data
  directory, \<open>**/*.pdf\<close> with \<open>PyPDFLoader\<close>, then \<open>**/*.txt\<close> and \<open>**/*.md\<close> with
  \<open>TextLoader(encoding="utf-8")\<close> (the Word pass is commented out), and concatenates the
  results in that order. The function's docstring promises DOCX support; the code has no
  \<open>.docx\<close> pass, so a Word file is never loaded (C3 shows which files are).
  \<open>PyPDFLoader\<close>'s metadata is taken as \<open>{"source", "page"}\<close>, as older
  \<open>langchain_community\<close> releases produce it (newer ones add further keys).

  The file system is a list of directories and a list of files in the order the directory
  walk yields them. A file's bytes are not modelled; what the two readers make of them is:
  \<open>as_text\<close> is the UTF-8 decoding (\<open>None\<close> when the bytes are not valid UTF-8) and
  \<open>as_pdf\<close> the page texts \<open>pypdf\<close> extracts (\<open>None\<close> when it cannot parse the file).
  \<open>directory_loader\<close> is \<open>DirectoryLoader.load\<close>: the directory check, the glob, the
  \<open>_is_visible\<close> filter on the path relative to the root, and the per-file loader call
  whose exception is re-raised unless \<open>silent_errors\<close> is set (the program leaves it at
  its default, \<open>False\<close>). A loader that raises aborts the pass, since \<open>load()\<close> is
  \<open>list(lazy_load())\<close>.
\<close>

record fs_file =
  fpath :: string
  as_text :: "string option"
  as_pdf :: "string list option"

record filesystem =
  fs_dirs :: "string list"
  fs_files :: "fs_file list"

datatype loader_cls = PyPDFLoader | TextLoader

definition slash :: string where
  "slash = ''/''"

definition DATA_PATH :: string where
  "DATA_PATH = ''c:'' @ [CHR 0x5C] @ ''Users'' @ [CHR 0x5C] @ ''othma'' @ [CHR 0x5C] @ ''Documents'' @
     [CHR 0x5C] @ ''Simple_RAG'' @ [CHR 0x5C] @ ''data'' @ [CHR 0x5C] @ ''sample_documents''"

text \<open>The path of a file relative to the root, when the file lies below the root.\<close>

definition rel_path :: "string \<Rightarrow> string \<Rightarrow> string option" where
  "rel_path root p =
     (if prefix (root @ slash) p then Some (drop (length root + 1) p) else None)"

text \<open>\<open>_is_visible\<close>: no part of the relative path starts with a dot.\<close>

definition is_visible :: "string \<Rightarrow> bool" where
  "is_visible rel \<longleftrightarrow> (\<forall>part\<in>set (split_on slash rel). \<not> prefix ''.'' part)"

text \<open>
  \<open>Path.glob("**/*" + ext)\<close>: a file at any depth below the root whose name ends with
  \<open>ext\<close> (case-sensitive, as on POSIX).
\<close>

definition glob_match :: "string \<Rightarrow> string \<Rightarrow> string \<Rightarrow> bool" where
  "glob_match root ext p \<longleftrightarrow> (case rel_path root p of None \<Rightarrow> False | Some rel \<Rightarrow> suffix ext rel)"

text \<open>
  \<open>TextLoader.lazy_load\<close>: the decoded text as one document with \<open>{"source": path}\<close>;
  a decoding error becomes \<open>RuntimeError(f"Error loading {path}")\<close>.
  \<open>PyPDFLoader\<close>: one document per page with \<open>{"source": path, "page": i}\<close>.
\<close>

definition text_loader :: "fs_file \<Rightarrow> document list result" where
  "text_loader f =
     (case as_text f of
        None \<Rightarrow> Inl (LoadError (''Error loading '' @ fpath f))
      | Some s \<Rightarrow> Inr [mk_document s [(''source'', MStr (fpath f))]])"

definition pdf_loader :: "fs_file \<Rightarrow> document list result" where
  "pdf_loader f =
     (case as_pdf f of
        None \<Rightarrow> Inl (LoadError (fpath f))
      | Some pages \<Rightarrow>
          Inr (map (\<lambda>(i, pg). mk_document pg [(''source'', MStr (fpath f)), (''page'', MInt (int i))])
                 (zip [0..<length pages] pages)))"

fun run_loader :: "loader_cls \<Rightarrow> fs_file \<Rightarrow> document list result" where
  "run_loader PyPDFLoader f = pdf_loader f"
| "run_loader TextLoader f = text_loader f"

text \<open>
  \<open>_is_visible(item.relative_to(path))\<close>: the check \<open>_lazy_load_file\<close> makes before it
  calls the loader (\<open>load_hidden\<close> is left \<open>False\<close>).
\<close>

definition loads_visible :: "string \<Rightarrow> fs_file \<Rightarrow> bool" where
  "loads_visible root f = (case rel_path root (fpath f) of None \<Rightarrow> False | Some rel \<Rightarrow> is_visible rel)"

text \<open>\<open>DirectoryLoader._lazy_load_file\<close> for one globbed file.\<close>

definition load_file :: "string \<Rightarrow> loader_cls \<Rightarrow> bool \<Rightarrow> fs_file \<Rightarrow> document list result" where
  "load_file root cls silent f =
     (if loads_visible root f
      then (case run_loader cls f of
              Inl e \<Rightarrow> (if silent then Inr [] else Inl e)
            | Inr ds \<Rightarrow> Inr ds)
      else Inr [])"

text \<open>\<open>DirectoryLoader(path, glob="**/*" + ext, loader_cls=cls, silent_errors=silent).load()\<close>.\<close>

definition directory_loader ::
    "filesystem \<Rightarrow> string \<Rightarrow> string \<Rightarrow> loader_cls \<Rightarrow> bool \<Rightarrow> document list result" where
  "directory_loader fs root ext cls silent =
     (if root \<notin> set (fs_dirs fs)
      then (if root \<in> fpath ` set (fs_files fs)
            then Inl (ValueError (''Expected directory, got file: '' @ root))
            else Inl (FileNotFoundError (''Directory not found: '' @ root)))
      else rmap concat
             (map_r (load_file root cls silent) (filter (\<lambda>f. glob_match root ext (fpath f)) (fs_files fs))))"

text \<open>\<open>load_documents(data_path)\<close> (lines 82--124): PDF, then TXT, then Markdown.\<close>

definition load_documents :: "filesystem \<Rightarrow> string \<Rightarrow> document list result" where
  "load_documents fs data_path =
     rbind (directory_loader fs data_path ''.pdf'' PyPDFLoader False) (\<lambda>pdfs.
     rbind (directory_loader fs data_path ''.txt'' TextLoader False) (\<lambda>txts.
     rmap (\<lambda>mds. pdfs @ txts @ mds) (directory_loader fs data_path ''.md'' TextLoader False)))"

subsection \<open>Lemmas\<close>

lemma load_file_Inr:
  "load_file root cls False f = Inr ds \<Longrightarrow> d \<in> set ds \<Longrightarrow>
   \<exists>rel. rel_path root (fpath f) = Some rel \<and> is_visible rel \<and> run_loader cls f = Inr ds"
  by (auto simp: load_file_def loads_visible_def split: if_splits option.splits sum.splits)

lemma load_file_Inl:
  "rel_path root (fpath f) = Some rel \<Longrightarrow> is_visible rel \<Longrightarrow> run_loader cls f = Inl e \<Longrightarrow>
   load_file root cls False f = Inl e"
  by (simp add: load_file_def loads_visible_def)

lemma load_file_ok:
  "(\<forall>rel. rel_path root (fpath f) = Some rel \<longrightarrow> is_visible rel \<longrightarrow> (\<exists>ds. run_loader cls f = Inr ds)) \<Longrightarrow>
   \<exists>ds. load_file root cls False f = Inr ds"
  by (auto simp: load_file_def loads_visible_def split: option.splits sum.splits)

lemma directory_loader_elem:
  assumes "directory_loader fs root ext cls False = Inr ds" and "d \<in> set ds"
  shows "\<exists>f\<in>set (fs_files fs). \<exists>rel ds'. rel_path root (fpath f) = Some rel \<and> is_visible rel \<and>
           suffix ext rel \<and> run_loader cls f = Inr ds' \<and> d \<in> set ds'"
proof -
  let ?fs = "filter (\<lambda>f. glob_match root ext (fpath f)) (fs_files fs)"
  from assms(1) obtain dss where m: "map_r (load_file root cls False) ?fs = Inr dss"
      and ds: "ds = concat dss"
    by (auto simp: directory_loader_def split: if_splits)
  from assms(2) ds obtain ds' where ds': "ds' \<in> set dss" "d \<in> set ds'" by auto
  from map_r_Inr_elem [OF m ds'(1)] obtain f where
    f: "f \<in> set ?fs" "load_file root cls False f = Inr ds'" by blast
  from load_file_Inr [OF f(2) ds'(2)] obtain rel where
    r: "rel_path root (fpath f) = Some rel" "is_visible rel" "run_loader cls f = Inr ds'" by blast
  from f(1) r(1) have "suffix ext rel" by (simp add: glob_match_def)
  with f(1) r ds'(2) show ?thesis by auto
qed

lemma text_loader_elem:
  "text_loader f = Inr ds \<Longrightarrow> d \<in> set ds \<Longrightarrow>
   as_text f = Some (page_content d) \<and> d = mk_document (page_content d) [(''source'', MStr (fpath f))]"
  by (auto simp: text_loader_def split: option.splits)

lemma pdf_loader_elem:
  assumes "pdf_loader f = Inr ds" and "d \<in> set ds"
  shows "\<exists>pages i. as_pdf f = Some pages \<and> i < length pages \<and>
     d = mk_document (pages ! i) [(''source'', MStr (fpath f)), (''page'', MInt (int i))]"
proof -
  from assms(1) obtain pages where p: "as_pdf f = Some pages"
    and ds: "ds = map (\<lambda>(i, pg). mk_document pg [(''source'', MStr (fpath f)), (''page'', MInt (int i))])
                 (zip [0..<length pages] pages)"
    by (auto simp: pdf_loader_def split: option.splits)
  from assms(2) ds obtain i where "i < length pages"
      "d = mk_document (pages ! i) [(''source'', MStr (fpath f)), (''page'', MInt (int i))]"
    by (auto simp: set_zip)
  with p show ?thesis by blast
qed

lemma map_r_load_file_length:
  assumes "\<forall>f\<in>set xs. loads_visible root f \<longrightarrow> (\<exists>ds. run_loader cls f = Inr ds \<and> length ds = n f)"
  shows "\<exists>dss. map_r (load_file root cls False) xs = Inr dss \<and>
           length (concat dss) = sum_list (map n (filter (loads_visible root) xs))"
  using assms
proof (induction xs)
  case Nil
  then show ?case by simp
next
  case (Cons f xs)
  then obtain dss where IH: "map_r (load_file root cls False) xs = Inr dss"
      "length (concat dss) = sum_list (map n (filter (loads_visible root) xs))"
    by auto
  show ?case
  proof (cases "loads_visible root f")
    case True
    with Cons.prems obtain ds where ds: "run_loader cls f = Inr ds" "length ds = n f" by auto
    with True have "load_file root cls False f = Inr ds"
      by (simp add: load_file_def loads_visible_def split: option.splits)
    with True ds IH show ?thesis by simp
  next
    case False
    then have "load_file root cls False f = Inr []"
      by (simp add: load_file_def loads_visible_def split: option.splits)
    with False IH show ?thesis by simp
  qed
qed

lemma directory_loader_length:
  assumes "root \<in> set (fs_dirs fs)"
    and "\<forall>f\<in>set (fs_files fs). glob_match root ext (fpath f) \<longrightarrow> loads_visible root f \<longrightarrow>
           (\<exists>ds. run_loader cls f = Inr ds \<and> length ds = n f)"
  shows "\<exists>ds. directory_loader fs root ext cls False = Inr ds \<and>
           length ds = sum_list (map n (filter (\<lambda>f. glob_match root ext (fpath f) \<and> loads_visible root f) (fs_files fs)))"
proof -
  let ?xs = "filter (\<lambda>f. glob_match root ext (fpath f)) (fs_files fs)"
  from assms(2) have "\<forall>f\<in>set ?xs. loads_visible root f \<longrightarrow> (\<exists>ds. run_loader cls f = Inr ds \<and> length ds = n f)"
    by auto
  from map_r_load_file_length [OF this] obtain dss where
    "map_r (load_file root cls False) ?xs = Inr dss"
    "length (concat dss) = sum_list (map n (filter (loads_visible root) ?xs))"
    by blast
  with assms(1) show ?thesis
    by (simp add: directory_loader_def filter_filter conj_commute)
qed

text \<open>Every loaded document carries metadata (at least its \<open>source\<close>).\<close>

lemma run_loader_meta:
  assumes "run_loader cls f = Inr ds" "d \<in> set ds"
  shows "metadata d \<noteq> []"
proof (cases cls)
  case PyPDFLoader
  with assms obtain pages i where
    "d = mk_document (pages ! i) [(''source'', MStr (fpath f)), (''page'', MInt (int i))]"
    using pdf_loader_elem by fastforce
  then show ?thesis by simp
next
  case TextLoader
  with assms have "d = mk_document (page_content d) [(''source'', MStr (fpath f))]"
    using text_loader_elem by simp
  then have "metadata d = [(''source'', MStr (fpath f))]" by (metis mk_document_sel(2))
  then show ?thesis by simp
qed

lemma directory_loader_meta:
  "directory_loader fs dir ext cls False = Inr ds \<Longrightarrow> d \<in> set ds \<Longrightarrow> metadata d \<noteq> []"
  by (blast dest: directory_loader_elem run_loader_meta)

lemma load_documents_meta: "load_documents fs dir = Inr docs \<Longrightarrow> \<forall>d\<in>set docs. metadata d \<noteq> []"
  by (auto simp: load_documents_def rbind_def split: sum.splits dest: directory_loader_meta)

subsection \<open>Properties of the loader\<close>

text \<open>
  C3. Every document \<open>load_documents\<close> returns comes from a visible file below the data
  directory: a page of a \<open>.pdf\<close> file with \<open>{"source", "page"}\<close> metadata, or the whole
  decoded text of a \<open>.txt\<close> or \<open>.md\<close> file with \<open>{"source"}\<close>. Files of other
  types and files under hidden directories are never loaded.
\<close>

theorem load_documents_sources:
  assumes "load_documents fs root = Inr docs" and "d \<in> set docs"
  shows "\<exists>f\<in>set (fs_files fs). \<exists>rel. rel_path root (fpath f) = Some rel \<and> is_visible rel \<and>
     (suffix ''.pdf'' rel \<and> (\<exists>pages i. as_pdf f = Some pages \<and> i < length pages \<and>
          d = mk_document (pages ! i) [(''source'', MStr (fpath f)), (''page'', MInt (int i))]) \<or>
      (suffix ''.txt'' rel \<or> suffix ''.md'' rel) \<and> as_text f = Some (page_content d) \<and>
          d = mk_document (page_content d) [(''source'', MStr (fpath f))])"
proof -
  from assms(1) obtain pdfs txts mds where
    p: "directory_loader fs root ''.pdf'' PyPDFLoader False = Inr pdfs" and
    t: "directory_loader fs root ''.txt'' TextLoader False = Inr txts" and
    m: "directory_loader fs root ''.md'' TextLoader False = Inr mds" and
    docs: "docs = pdfs @ txts @ mds"
    by (auto simp: load_documents_def)
  from assms(2) docs consider "d \<in> set pdfs" | "d \<in> set txts" | "d \<in> set mds" by auto
  then show ?thesis
  proof cases
    case 1
    from directory_loader_elem [OF p this] obtain f rel ds' where
      f: "f \<in> set (fs_files fs)" "rel_path root (fpath f) = Some rel" "is_visible rel"
         "suffix ''.pdf'' rel" "pdf_loader f = Inr ds'" "d \<in> set ds'"
      by auto
    from pdf_loader_elem [OF f(5,6)] f(1-4) show ?thesis by blast
  next
    case 2
    from directory_loader_elem [OF t this] obtain f rel ds' where
      f: "f \<in> set (fs_files fs)" "rel_path root (fpath f) = Some rel" "is_visible rel"
         "suffix ''.txt'' rel" "text_loader f = Inr ds'" "d \<in> set ds'"
      by auto
    from text_loader_elem [OF f(5,6)] f(1-4) show ?thesis by blast
  next
    case 3
    from directory_loader_elem [OF m this] obtain f rel ds' where
      f: "f \<in> set (fs_files fs)" "rel_path root (fpath f) = Some rel" "is_visible rel"
         "suffix ''.md'' rel" "text_loader f = Inr ds'" "d \<in> set ds'"
      by auto
    from text_loader_elem [OF f(5,6)] f(1-4) show ?thesis by blast
  qed
qed

theorem load_documents_sources_witness:
  "\<exists>f\<in>set (fs_files \<lparr>fs_dirs = [''data''], fs_files =
      [\<lparr>fpath = ''data/handbook.pdf'', as_text = None, as_pdf = Some [''Welcome.'', ''Leave policy.'']\<rparr>,
       \<lparr>fpath = ''data/faq.txt'', as_text = Some ''Offices close on Fridays.'', as_pdf = None\<rparr>,
       \<lparr>fpath = ''data/.drafts/old.txt'', as_text = None, as_pdf = None\<rparr>,
       \<lparr>fpath = ''data/notes/readme.md'', as_text = Some ''# Notes'', as_pdf = None\<rparr>,
       \<lparr>fpath = ''data/form.docx'', as_text = None, as_pdf = None\<rparr>]\<rparr>). \<exists>rel. rel_path ''data'' (fpath f) = Some rel \<and> is_visible rel \<and>
     (suffix ''.pdf'' rel \<and> (\<exists>pages i. as_pdf f = Some pages \<and> i < length pages \<and>
          mk_document ''Leave policy.'' [(''source'', MStr ''data/handbook.pdf''), (''page'', MInt 1)] =
          mk_document (pages ! i) [(''source'', MStr (fpath f)), (''page'', MInt (int i))]) \<or>
      (suffix ''.txt'' rel \<or> suffix ''.md'' rel) \<and>
        as_text f = Some (page_content (mk_document ''Leave policy.'' [(''source'', MStr ''data/handbook.pdf''), (''page'', MInt 1)])) \<and>
        mk_document ''Leave policy.'' [(''source'', MStr ''data/handbook.pdf''), (''page'', MInt 1)] =
        mk_document (page_content (mk_document ''Leave policy.'' [(''source'', MStr ''data/handbook.pdf''), (''page'', MInt 1)]))
          [(''source'', MStr (fpath f))])"
proof -
  have eq: "load_documents \<lparr>fs_dirs = [''data''], fs_files =
      [\<lparr>fpath = ''data/handbook.pdf'', as_text = None, as_pdf = Some [''Welcome.'', ''Leave policy.'']\<rparr>,
       \<lparr>fpath = ''data/faq.txt'', as_text = Some ''Offices close on Fridays.'', as_pdf = None\<rparr>,
       \<lparr>fpath = ''data/.drafts/old.txt'', as_text = None, as_pdf = None\<rparr>,
       \<lparr>fpath = ''data/notes/readme.md'', as_text = Some ''# Notes'', as_pdf = None\<rparr>,
       \<lparr>fpath = ''data/form.docx'', as_text = None, as_pdf = None\<rparr>]\<rparr> ''data'' =
     Inr [mk_document ''Welcome.'' [(''source'', MStr ''data/handbook.pdf''), (''page'', MInt 0)],
          mk_document ''Leave policy.'' [(''source'', MStr ''data/handbook.pdf''), (''page'', MInt 1)],
          mk_document ''Offices close on Fridays.'' [(''source'', MStr ''data/faq.txt'')],
          mk_document ''# Notes'' [(''source'', MStr ''data/notes/readme.md'')]]"
    by code_simp
  show ?thesis
    by (rule load_documents_sources [OF eq]) simp
qed

text \<open>
  C4. One visible \<open>.txt\<close> file that is not valid UTF-8 makes the whole
  \<open>load_documents\<close> call raise, so every other document of the corpus is lost with it:
  \<open>DirectoryLoader\<close> is built without \<open>silent_errors=True\<close>. Spec 4.1 and 7 require
  per-file failure that does not abort the scan.
\<close>

theorem load_documents_aborts:
  assumes "root \<in> set (fs_dirs fs)" and "f \<in> set (fs_files fs)"
    and "rel_path root (fpath f) = Some rel" and "is_visible rel" and "suffix ''.txt'' rel"
    and "as_text f = None"
  shows "\<exists>e. load_documents fs root = Inl e"
proof -
  have lf: "load_file root TextLoader False f = Inl (LoadError (''Error loading '' @ fpath f))"
    using assms(3,4,6) by (intro load_file_Inl) (auto simp: text_loader_def)
  have mem: "f \<in> set (filter (\<lambda>f. glob_match root ''.txt'' (fpath f)) (fs_files fs))"
    using assms(2,3,5) by (simp add: glob_match_def)
  obtain e where "map_r (load_file root TextLoader False)
      (filter (\<lambda>f. glob_match root ''.txt'' (fpath f)) (fs_files fs)) = Inl e"
    using map_r_Inl_first [where f = "load_file root TextLoader False", OF mem lf] by blast
  with assms(1) have "directory_loader fs root ''.txt'' TextLoader False = Inl e"
    by (simp add: directory_loader_def)
  then show ?thesis
    by (cases "directory_loader fs root ''.pdf'' PyPDFLoader False") (auto simp: load_documents_def)
qed

theorem load_documents_aborts_witness:
  "\<exists>e. load_documents \<lparr>fs_dirs = [''data''], fs_files =
      [\<lparr>fpath = ''data/faq.txt'', as_text = Some ''Offices close on Fridays.'', as_pdf = None\<rparr>,
       \<lparr>fpath = ''data/latin1.txt'', as_text = None, as_pdf = None\<rparr>]\<rparr> ''data'' = Inl e"
  by (rule load_documents_aborts [where f = "\<lparr>fpath = ''data/latin1.txt'', as_text = None, as_pdf = None\<rparr>"
        and rel = "''latin1.txt''"])
     (simp_all add: rel_path_def slash_def is_visible_def split_on_def suffix_to_prefix)

text \<open>
  C5. When every visible \<open>.pdf\<close>, \<open>.txt\<close> and \<open>.md\<close> file below the data directory can
  be read, \<open>load_documents\<close> succeeds and returns one document per PDF page plus one per
  text or Markdown file (spec 8: N valid files give N documents).
\<close>

theorem load_documents_count:
  assumes "root \<in> set (fs_dirs fs)"
    and "\<forall>f\<in>set (fs_files fs). loads_visible root f \<longrightarrow>
           (glob_match root ''.pdf'' (fpath f) \<longrightarrow> as_pdf f \<noteq> None) \<and>
           (glob_match root ''.txt'' (fpath f) \<or> glob_match root ''.md'' (fpath f) \<longrightarrow> as_text f \<noteq> None)"
  shows "\<exists>docs. load_documents fs root = Inr docs \<and>
     length docs =
       sum_list (map (\<lambda>f. length (the (as_pdf f)))
         (filter (\<lambda>f. glob_match root ''.pdf'' (fpath f) \<and> loads_visible root f) (fs_files fs))) +
       length (filter (\<lambda>f. glob_match root ''.txt'' (fpath f) \<and> loads_visible root f) (fs_files fs)) +
       length (filter (\<lambda>f. glob_match root ''.md'' (fpath f) \<and> loads_visible root f) (fs_files fs))"
proof -
  have p: "\<forall>f\<in>set (fs_files fs). glob_match root ''.pdf'' (fpath f) \<longrightarrow> loads_visible root f \<longrightarrow>
      (\<exists>ds. run_loader PyPDFLoader f = Inr ds \<and> length ds = length (the (as_pdf f)))"
    using assms(2) by (auto simp: pdf_loader_def)
  have t: "\<forall>f\<in>set (fs_files fs). glob_match root ext (fpath f) \<longrightarrow> loads_visible root f \<longrightarrow>
      (\<exists>ds. run_loader TextLoader f = Inr ds \<and> length ds = 1)"
    if "ext = ''.txt'' \<or> ext = ''.md''" for ext
    using assms(2) that by (auto simp: text_loader_def)
  obtain pdfs where "directory_loader fs root ''.pdf'' PyPDFLoader False = Inr pdfs"
    "length pdfs = sum_list (map (\<lambda>f. length (the (as_pdf f)))
         (filter (\<lambda>f. glob_match root ''.pdf'' (fpath f) \<and> loads_visible root f) (fs_files fs)))"
    using directory_loader_length [OF assms(1) p] by blast
  moreover obtain txts where "directory_loader fs root ''.txt'' TextLoader False = Inr txts"
    "length txts = length (filter (\<lambda>f. glob_match root ''.txt'' (fpath f) \<and> loads_visible root f) (fs_files fs))"
    using directory_loader_length [OF assms(1) t [of "''.txt''"]] by (auto simp: sum_list_triv)
  moreover obtain mds where "directory_loader fs root ''.md'' TextLoader False = Inr mds"
    "length mds = length (filter (\<lambda>f. glob_match root ''.md'' (fpath f) \<and> loads_visible root f) (fs_files fs))"
    using directory_loader_length [OF assms(1) t [of "''.md''"]] by (auto simp: sum_list_triv)
  ultimately show ?thesis by (simp add: load_documents_def)
qed

theorem load_documents_count_witness:
  "\<exists>docs. load_documents \<lparr>fs_dirs = [''data''], fs_files =
      [\<lparr>fpath = ''data/handbook.pdf'', as_text = None, as_pdf = Some [''Welcome.'', ''Leave policy.'']\<rparr>,
       \<lparr>fpath = ''data/faq.txt'', as_text = Some ''Offices close on Fridays.'', as_pdf = None\<rparr>,
       \<lparr>fpath = ''data/.drafts/old.txt'', as_text = None, as_pdf = None\<rparr>,
       \<lparr>fpath = ''data/notes/readme.md'', as_text = Some ''# Notes'', as_pdf = None\<rparr>,
       \<lparr>fpath = ''data/form.docx'', as_text = None, as_pdf = None\<rparr>]\<rparr> ''data'' = Inr docs \<and> length docs = 4"
proof -
  have "\<exists>docs. load_documents \<lparr>fs_dirs = [''data''], fs_files =
      [\<lparr>fpath = ''data/handbook.pdf'', as_text = None, as_pdf = Some [''Welcome.'', ''Leave policy.'']\<rparr>,
       \<lparr>fpath = ''data/faq.txt'', as_text = Some ''Offices close on Fridays.'', as_pdf = None\<rparr>,
       \<lparr>fpath = ''data/.drafts/old.txt'', as_text = None, as_pdf = None\<rparr>,
       \<lparr>fpath = ''data/notes/readme.md'', as_text = Some ''# Notes'', as_pdf = None\<rparr>,
       \<lparr>fpath = ''data/form.docx'', as_text = None, as_pdf = None\<rparr>]\<rparr> ''data'' = Inr docs \<and>
     length docs =
       sum_list (map (\<lambda>f. length (the (as_pdf f)))
         (filter (\<lambda>f. glob_match ''data'' ''.pdf'' (fpath f) \<and> loads_visible ''data'' f) (fs_files \<lparr>fs_dirs = [''data''], fs_files =
      [\<lparr>fpath = ''data/handbook.pdf'', as_text = None, as_pdf = Some [''Welcome.'', ''Leave policy.'']\<rparr>,
       \<lparr>fpath = ''data/faq.txt'', as_text = Some ''Offices close on Fridays.'', as_pdf = None\<rparr>,
       \<lparr>fpath = ''data/.drafts/old.txt'', as_text = None, as_pdf = None\<rparr>,
       \<lparr>fpath = ''data/notes/readme.md'', as_text = Some ''# Notes'', as_pdf = None\<rparr>,
       \<lparr>fpath = ''data/form.docx'', as_text = None, as_pdf = None\<rparr>]\<rparr>))) +
       length (filter (\<lambda>f. glob_match ''data'' ''.txt'' (fpath f) \<and> loads_visible ''data'' f) (fs_files \<lparr>fs_dirs = [''data''], fs_files =
      [\<lparr>fpath = ''data/handbook.pdf'', as_text = None, as_pdf = Some [''Welcome.'', ''Leave policy.'']\<rparr>,
       \<lparr>fpath = ''data/faq.txt'', as_text = Some ''Offices close on Fridays.'', as_pdf = None\<rparr>,
       \<lparr>fpath = ''data/.drafts/old.txt'', as_text = None, as_pdf = None\<rparr>,
       \<lparr>fpath = ''data/notes/readme.md'', as_text = Some ''# Notes'', as_pdf = None\<rparr>,
       \<lparr>fpath = ''data/form.docx'', as_text = None, as_pdf = None\<rparr>]\<rparr>)) +
       length (filter (\<lambda>f. glob_match ''data'' ''.md'' (fpath f) \<and> loads_visible ''data'' f) (fs_files \<lparr>fs_dirs = [''data''], fs_files =
      [\<lparr>fpath = ''data/handbook.pdf'', as_text = None, as_pdf = Some [''Welcome.'', ''Leave policy.'']\<rparr>,
       \<lparr>fpath = ''data/faq.txt'', as_text = Some ''Offices close on Fridays.'', as_pdf = None\<rparr>,
       \<lparr>fpath = ''data/.drafts/old.txt'', as_text = None, as_pdf = None\<rparr>,
       \<lparr>fpath = ''data/notes/readme.md'', as_text = Some ''# Notes'', as_pdf = None\<rparr>,
       \<lparr>fpath = ''data/form.docx'', as_text = None, as_pdf = None\<rparr>]\<rparr>))"
    by (rule load_documents_count)
       (simp_all add: glob_match_def loads_visible_def rel_path_def slash_def is_visible_def split_on_def suffix_to_prefix)
  then show ?thesis
    by (simp add: glob_match_def loads_visible_def rel_path_def slash_def is_visible_def split_on_def
        suffix_to_prefix eval_nat_numeral)
qed

end
