(* ===== verification/Chain.thy ===== *)
theory Chain
  imports Retriever Splitter Loader
begin

text \<open>
  The query-time chain and the program's entry point (spec 4.4, 4.6 and the control flow of
  section 2), from \<open>src/Rag/Rag_project.py\<close>:
  \<^item> \<open>construct_query(question)\<close> (lines 168--190): the rewrite template formatted with the
    question, one call of \<open>ChatOpenAI(temperature=0)\<close>, the reply's text returned as it is
    (\<open>StrOutputParser\<close>); an exception of the model propagates.
  \<^item> \<open>create_rag_chain(retriever)\<close> (lines 221--254), invoked on a query: the retriever and a
    pass-through run on the query, the answer template is formatted with the retrieved
    documents as \<open>context\<close> (Python's \<open>str\<close> of the list, see \<open>Prompt\<close>) and the query as
    \<open>question\<close>, and \<open>ChatOpenAI(model="gpt-4o-mini", temperature=0)\<close> is called once; its
    text is the answer.
  \<^item> the \<open>__main__\<close> block (lines 259--289): open the persisted index if its directory
    exists, else load, split and index the corpus; build the retriever and the chain; rewrite
    the fixed example question and invoke the chain on the rewritten query. An exception ends
    the program; the store it leaves behind is returned with it.
  The services (the file system of the corpus, the embedding provider and the chat model)
  are a record of parameters.
\<close>

record services =
  sv_files :: filesystem
  sv_emb :: embeddings
  sv_llm :: chat_model

definition rewrite_template :: string where
  "rewrite_template = ''Provide a better search query for the user question. \<newline>        Focus on extracting keywords and intent. \<newline>        Do not answer the question, just rewrite it for a search engine.\<newline>\<newline>        User Question: {question}\<newline>        \<newline>        Search Query:''"

definition construct_query :: "chat_model \<Rightarrow> string \<Rightarrow> string result" where
  "construct_query llm question =
     rbind (fmt [(''question'', question)] rewrite_template) (llm chat_openai_default)"

definition gpt_4o_mini :: llm_cfg where
  "gpt_4o_mini = \<lparr>model_name = ''gpt-4o-mini'', temperature = 0\<rparr>"

definition rag_template :: string where
  "rag_template = ''You are a helpful assistant for a company. \<newline>    Use the following pieces of retrieved context to answer the question. \<newline>    If you don't know the answer, just say that you don't know. \<newline>    Use three sentences maximum and keep the answer concise.\<newline>\<newline>    Context:\<newline>    {context}\<newline>\<newline>    Question:\<newline>    {question}\<newline>\<newline>    Answer:\<newline>    ''"

definition create_rag_chain ::
    "chat_model \<Rightarrow> (string \<Rightarrow> document list result) \<Rightarrow> string \<Rightarrow> string result" where
  "create_rag_chain llm retriever query =
     rbind (retriever query) (\<lambda>docs.
       rbind (fmt [(''context'', docs_str docs), (''question'', query)] rag_template) (llm gpt_4o_mini))"

definition USER_INPUT :: string where
  "USER_INPUT = ''What is the main topic of the documents?''"

text \<open>
  Opening or building the index (lines 261--269, and the same code in \<open>init_rag\<close> of
  \<open>src/app.py\<close>): \<open>os.path.exists(CHROMA_PATH)\<close> is the directory being present in
  the store.
\<close>

definition open_or_build :: "services \<Rightarrow> store \<Rightarrow> string result \<times> store" where
  "open_or_build sv st =
     (if disk st CHROMA_PATH \<noteq> None then (case load_vector_store st of (p, st') \<Rightarrow> (Inr p, st'))
      else (case load_documents (sv_files sv) DATA_PATH of
              Inl e \<Rightarrow> (Inl e, st)
            | Inr docs \<Rightarrow> (case split_text docs of
                 Inl e \<Rightarrow> (Inl e, st)
               | Inr chunks \<Rightarrow> create_vector_store (sv_emb sv) chunks st)))"

definition main_run :: "services \<Rightarrow> store \<Rightarrow> string result \<times> store" where
  "main_run sv st =
     (case open_or_build sv st of
        (Inl e, st1) \<Rightarrow> (Inl e, st1)
      | (Inr p, st1) \<Rightarrow>
          (rbind (construct_query (sv_llm sv) USER_INPUT)
             (create_rag_chain (sv_llm sv) (get_retriever (sv_llm sv) (sv_emb sv) p st1)), st1))"

text \<open>The two templates cut at their fields.\<close>

definition rewrite_prefix :: string where
  "rewrite_prefix = ''Provide a better search query for the user question. \<newline>        Focus on extracting keywords and intent. \<newline>        Do not answer the question, just rewrite it for a search engine.\<newline>\<newline>        User Question: ''"

definition rewrite_suffix :: string where
  "rewrite_suffix = ''\<newline>        \<newline>        Search Query:''"

definition rag_prefix :: string where
  "rag_prefix = ''You are a helpful assistant for a company. \<newline>    Use the following pieces of retrieved context to answer the question. \<newline>    If you don't know the answer, just say that you don't know. \<newline>    Use three sentences maximum and keep the answer concise.\<newline>\<newline>    Context:\<newline>    ''"

definition rag_middle :: string where
  "rag_middle = ''\<newline>\<newline>    Question:\<newline>    ''"

definition rag_suffix :: string where
  "rag_suffix = ''\<newline>\<newline>    Answer:\<newline>    ''"

subsection \<open>Lemmas\<close>

lemma fmt_rewrite_template:
  "fmt [(''question'', q)] rewrite_template = Inr (rewrite_prefix @ q @ rewrite_suffix)"
proof -
  have e: "rewrite_template = rewrite_prefix @ CHR ''{'' # ''question'' @ CHR ''}'' # rewrite_suffix"
    by (simp add: rewrite_template_def rewrite_prefix_def rewrite_suffix_def)
  show ?thesis
    unfolding e by (rule fmt_one_field) (simp_all add: rewrite_prefix_def rewrite_suffix_def)
qed

lemma fmt_rag_template:
  "fmt [(''context'', c), (''question'', q)] rag_template =
     Inr (rag_prefix @ c @ rag_middle @ q @ rag_suffix)"
proof -
  let ?vs = "[(''context'', c), (''question'', q)]"
  have e: "rag_template = rag_prefix @ CHR ''{'' # ''context'' @ CHR ''}'' #
                          rag_middle @ CHR ''{'' # ''question'' @ CHR ''}'' # rag_suffix"
    by (simp add: rag_template_def rag_prefix_def rag_middle_def rag_suffix_def)
  have "fmt ?vs (rag_middle @ CHR ''{'' # ''question'' @ CHR ''}'' # rag_suffix) =
        Inr (rag_middle @ q @ rag_suffix)"
    by (rule fmt_one_field) (simp_all add: rag_middle_def rag_suffix_def)
  moreover have "fmt ?vs (CHR ''{'' # ''context'' @ CHR ''}'' # (rag_middle @ CHR ''{'' # ''question'' @ CHR ''}'' # rag_suffix)) =
        rmap (\<lambda>r. c @ r) (fmt ?vs (rag_middle @ CHR ''{'' # ''question'' @ CHR ''}'' # rag_suffix))"
    by (rule fmt_field) simp_all
  moreover have "fmt ?vs (rag_prefix @ (CHR ''{'' # ''context'' @ CHR ''}'' # (rag_middle @ CHR ''{'' # ''question'' @ CHR ''}'' # rag_suffix))) =
        rmap (\<lambda>r. rag_prefix @ r) (fmt ?vs (CHR ''{'' # ''context'' @ CHR ''}'' # (rag_middle @ CHR ''{'' # ''question'' @ CHR ''}'' # rag_suffix)))"
    by (rule fmt_append_plain) (simp_all add: rag_prefix_def)
  ultimately show ?thesis unfolding e by simp
qed

lemma chroma_open_existing: "disk st p \<noteq> None \<Longrightarrow> chroma_open st p = st"
  by (auto simp: chroma_open_def fun_upd_idem)

lemma open_or_build_existing:
  "disk st CHROMA_PATH \<noteq> None \<Longrightarrow> open_or_build sv st = (Inr CHROMA_PATH, st)"
  by (simp add: open_or_build_def load_vector_store_def chroma_open_existing)

lemma create_rag_chain_eq:
  "create_rag_chain llm r q =
     rbind (r q) (\<lambda>docs. llm gpt_4o_mini (rag_prefix @ docs_str docs @ rag_middle @ q @ rag_suffix))"
  by (simp add: create_rag_chain_def fmt_rag_template)

subsection \<open>Properties of the chain\<close>

text \<open>
  C12. The retrieved chunks reach the answer model as Python's \<open>str\<close> of the list of
  documents, not as their texts joined by newlines (spec 4.6). For every retrieved chunk
  whose text has a line break: the prompt's context is \<open>docs_str docs\<close>, which holds no
  raw line break at all, so the chunk's text does not occur in it; what occurs is the
  chunk's \<open>repr\<close>, with each break written as a backslash and the letter n.
\<close>

theorem rag_context_escaped:
  assumes "r q = Inr docs" and "d \<in> set docs" and "CHR ''\<newline>'' \<in> set (page_content d)"
  shows "create_rag_chain llm r q = llm gpt_4o_mini (rag_prefix @ docs_str docs @ rag_middle @ q @ rag_suffix)
         \<and> CHR ''\<newline>'' \<notin> set (docs_str docs)
         \<and> \<not> sublist (page_content d) (docs_str docs)
         \<and> sublist (str_repr (page_content d)) (docs_str docs)"
proof -
  have "\<not> sublist (page_content d) (docs_str docs)"
    using assms(3) docs_str_not_nl set_mono_sublist by fastforce
  then show ?thesis
    using assms(1,2) by (simp add: create_rag_chain_eq docs_str_not_nl sublist_docs_str)
qed

theorem rag_context_escaped_witness:
  "create_rag_chain (\<lambda>c p. Inr p)
     (\<lambda>q. Inr [mk_document ''Closed on Fridays.\<newline>Open 9-5.'' [(''source'', MStr ''faq.txt'')]])
     ''When is the office closed?'' =
   Inr (rag_prefix @ docs_str [mk_document ''Closed on Fridays.\<newline>Open 9-5.'' [(''source'', MStr ''faq.txt'')]]
        @ rag_middle @ ''When is the office closed?'' @ rag_suffix)
   \<and> CHR ''\<newline>'' \<notin> set (docs_str [mk_document ''Closed on Fridays.\<newline>Open 9-5.'' [(''source'', MStr ''faq.txt'')]])
   \<and> \<not> sublist ''Closed on Fridays.\<newline>Open 9-5.''
         (docs_str [mk_document ''Closed on Fridays.\<newline>Open 9-5.'' [(''source'', MStr ''faq.txt'')]])
   \<and> sublist (str_repr ''Closed on Fridays.\<newline>Open 9-5.'')
         (docs_str [mk_document ''Closed on Fridays.\<newline>Open 9-5.'' [(''source'', MStr ''faq.txt'')]])"
  using rag_context_escaped [where r = "\<lambda>q. Inr [mk_document ''Closed on Fridays.\<newline>Open 9-5.'' [(''source'', MStr ''faq.txt'')]]"
      and q = "''When is the office closed?''" and llm = "\<lambda>c p. Inr p"
      and d = "mk_document ''Closed on Fridays.\<newline>Open 9-5.'' [(''source'', MStr ''faq.txt'')]"]
  by simp

text \<open>
  C13. When the index directory exists, the \<open>__main__\<close> block neither loads nor
  re-embeds anything and leaves the store as it is; its answer is the model's reply to the
  answer template whose question is the rewritten query \<open>sq\<close> that
  \<open>construct_query\<close> made of the example input, with the documents retrieved for
  \<open>sq\<close> as context. The user's own question never reaches the answer model, which spec
  4.6 says answers "the original question".
\<close>

theorem main_run_existing_index:
  assumes "disk st CHROMA_PATH \<noteq> None"
    and "construct_query (sv_llm sv) USER_INPUT = Inr sq"
    and "get_retriever (sv_llm sv) (sv_emb sv) CHROMA_PATH st sq = Inr docs"
  shows "main_run sv st =
           (sv_llm sv gpt_4o_mini (rag_prefix @ docs_str docs @ rag_middle @ sq @ rag_suffix), st)"
  using assms by (simp add: main_run_def open_or_build_existing create_rag_chain_eq)

theorem main_run_existing_index_witness:
  "disk \<lparr>disk = (\<lambda>_. None)(CHROMA_PATH \<mapsto>
            [\<lparr>ent_id = ''uuid-0'', ent_vec = [18], ent_text = ''Offices close on Fridays.'', ent_meta = []\<rparr>]),
          next_uid = 1, max_batch = 1\<rparr> CHROMA_PATH \<noteq> None
   \<and> construct_query (\<lambda>c p. Inr ''office closing day'') USER_INPUT = Inr ''office closing day''
   \<and> get_retriever (\<lambda>c p. Inr ''office closing day'')
       \<lparr>embed_documents = \<lambda>ts. Inr (map (\<lambda>t. [real (length t)]) ts),
        embed_query = \<lambda>q. Inr [real (length q)]\<rparr> CHROMA_PATH
       \<lparr>disk = (\<lambda>_. None)(CHROMA_PATH \<mapsto>
            [\<lparr>ent_id = ''uuid-0'', ent_vec = [18], ent_text = ''Offices close on Fridays.'', ent_meta = []\<rparr>]),
          next_uid = 1, max_batch = 1\<rparr> ''office closing day''
       = Inr [entry_document \<lparr>ent_id = ''uuid-0'', ent_vec = [18], ent_text = ''Offices close on Fridays.'', ent_meta = []\<rparr>]
   \<and> main_run \<lparr>sv_files = \<lparr>fs_dirs = [], fs_files = []\<rparr>,
               sv_emb = \<lparr>embed_documents = \<lambda>ts. Inr (map (\<lambda>t. [real (length t)]) ts),
                         embed_query = \<lambda>q. Inr [real (length q)]\<rparr>,
               sv_llm = \<lambda>c p. Inr ''office closing day''\<rparr>
       \<lparr>disk = (\<lambda>_. None)(CHROMA_PATH \<mapsto>
            [\<lparr>ent_id = ''uuid-0'', ent_vec = [18], ent_text = ''Offices close on Fridays.'', ent_meta = []\<rparr>]),
          next_uid = 1, max_batch = 1\<rparr> =
     (Inr ''office closing day'',
      \<lparr>disk = (\<lambda>_. None)(CHROMA_PATH \<mapsto>
            [\<lparr>ent_id = ''uuid-0'', ent_vec = [18], ent_text = ''Offices close on Fridays.'', ent_meta = []\<rparr>]),
          next_uid = 1, max_batch = 1\<rparr>)"
proof -
  let ?st = "\<lparr>disk = (\<lambda>_. None)(CHROMA_PATH \<mapsto>
            [\<lparr>ent_id = ''uuid-0'', ent_vec = [18], ent_text = ''Offices close on Fridays.'', ent_meta = []\<rparr>]),
          next_uid = 1, max_batch = 1\<rparr>"
  let ?emb = "\<lparr>embed_documents = \<lambda>ts. Inr (map (\<lambda>t. [real (length t)]) ts),
                embed_query = \<lambda>q. Inr [real (length q)]\<rparr>"
  let ?llm = "\<lambda>(c::llm_cfg) (p::string). Inr ''office closing day'' :: string result"
  let ?e = "\<lparr>ent_id = ''uuid-0'', ent_vec = [18], ent_text = ''Offices close on Fridays.'', ent_meta = []\<rparr>"
  let ?sv = "\<lparr>sv_files = \<lparr>fs_dirs = [], fs_files = []\<rparr>, sv_emb = ?emb, sv_llm = ?llm\<rparr>"
  have h1: "disk ?st CHROMA_PATH \<noteq> None" by simp
  have h2: "construct_query (sv_llm ?sv) USER_INPUT = Inr ''office closing day''"
    by (simp add: construct_query_def fmt_rewrite_template)
  have h3: "get_retriever (sv_llm ?sv) (sv_emb ?sv) CHROMA_PATH ?st ''office closing day'' =
      Inr [entry_document ?e]"
    by (simp add: get_retriever_eq line_list_parse_def py_strip_def py_isspace_def split_on_def
        retrieve_documents_def base_retriever_def similarity_search_def unique_documents_def)
  have "main_run ?sv ?st = (Inr ''office closing day'', ?st)"
    using main_run_existing_index [OF h1 h2 h3] by simp
  with h1 h2 h3 show ?thesis by simp
qed

subsection \<open>An empty corpus\<close>

text \<open>
  C25. With an empty corpus (no \<open>.pdf\<close>, \<open>.txt\<close> or \<open>.md\<close> file below the data
  directory) and no index yet, \<open>__main__\<close> does not fail: it builds an empty collection,
  which it persists, retrieves nothing and asks the answer model with the context
  \<open>[]\<close>, whose template tells it to say that it does not know (spec 8's empty-corpus
  scenario). No embedding call is made.
\<close>

theorem main_run_empty_corpus:
  assumes "disk st CHROMA_PATH = None" "load_documents (sv_files sv) DATA_PATH = Inr []"
    and "\<forall>q. \<exists>v. embed_query (sv_emb sv) q = Inr v"
    and "construct_query (sv_llm sv) USER_INPUT = Inr sq"
    and "sv_llm sv chat_openai_default (mq_prefix @ sq) = Inr out"
  shows "main_run sv st =
           (sv_llm sv gpt_4o_mini (rag_prefix @ ''[]'' @ rag_middle @ sq @ rag_suffix),
            st\<lparr>disk := (disk st)(CHROMA_PATH \<mapsto> [])\<rparr>)"
proof -
  let ?st1 = "st\<lparr>disk := (disk st)(CHROMA_PATH \<mapsto> [])\<rparr>"
  have b: "open_or_build sv st = (Inr CHROMA_PATH, ?st1)"
    using assms(1,2) by (simp add: open_or_build_def split_text_Nil create_vector_store_def
        chroma_from_documents_def chroma_open_def)
  have "get_retriever (sv_llm sv) (sv_emb sv) CHROMA_PATH ?st1 sq = Inr []"
    using get_retriever_empty [where llm = "sv_llm sv" and emb = "sv_emb sv", OF _ assms(3,5)] by simp
  then show ?thesis
    using b assms(4) by (simp add: main_run_def create_rag_chain_eq)
qed
theorem main_run_empty_corpus_witness:
  "main_run \<lparr>sv_files = \<lparr>fs_dirs = [DATA_PATH], fs_files = []\<rparr>,
             sv_emb = \<lparr>embed_documents = \<lambda>ts. Inr (map (\<lambda>t. [real (length t)]) ts),
                       embed_query = \<lambda>q. Inr [real (length q)]\<rparr>,
             sv_llm = \<lambda>c p. if c = gpt_4o_mini then Inr p else Inr ''main topic''\<rparr>
     \<lparr>disk = \<lambda>_. None, next_uid = 0, max_batch = 1\<rparr> =
   (Inr (rag_prefix @ ''[]'' @ rag_middle @ ''main topic'' @ rag_suffix),
    \<lparr>disk = (\<lambda>_. None)(CHROMA_PATH \<mapsto> []), next_uid = 0, max_batch = 1\<rparr>)"
proof -
  have l: "load_documents \<lparr>fs_dirs = [DATA_PATH], fs_files = []\<rparr> DATA_PATH = Inr []"
    by code_simp
  have g: "gpt_4o_mini \<noteq> chat_openai_default"
    by (simp add: gpt_4o_mini_def chat_openai_default_def)
  show ?thesis
    using main_run_empty_corpus [where st = "\<lparr>disk = \<lambda>_. None, next_uid = 0, max_batch = 1\<rparr>"
      and sq = "''main topic''" and out = "''main topic''"
      and sv = "\<lparr>sv_files = \<lparr>fs_dirs = [DATA_PATH], fs_files = []\<rparr>,
             sv_emb = \<lparr>embed_documents = \<lambda>ts. Inr (map (\<lambda>t. [real (length t)]) ts),
                       embed_query = \<lambda>q. Inr [real (length q)]\<rparr>,
             sv_llm = \<lambda>c p. if c = gpt_4o_mini then Inr p else Inr ''main topic''\<rparr>"] l g
    by (simp add: construct_query_def fmt_rewrite_template)
qed

end
