(* ===== verification/App.thy ===== *)
theory App
  imports Chain
begin

text \<open>
  The Streamlit front end, \<open>src/app.py\<close>. Streamlit runs the whole script once per user
  interaction; what survives a run is the session state (\<open>authenticated\<close>,
  \<open>messages\<close>: absent until the script first sets them), the file system (the persisted
  index) and the process-wide cache of \<open>@st.cache_resource\<close> (the chain \<open>init_rag\<close>
  returned, kept only when \<open>init_rag\<close> returned normally). One script run is
  \<open>app_run\<close>: a step from the state before the interaction to the state after it, given
  what the user did in the widgets (\<open>ui\<close>). \<open>st.stop()\<close>, \<open>st.rerun()\<close> and an
  uncaught exception all end the run; the state is what was written before.
  The cached chain is represented by the directory of the vector store it was built on;
  its retriever reads that directory when a question is asked.
\<close>

record session =
  authenticated :: "bool option"
  messages :: "(string \<times> string) list option"

record app_state =
  sess :: session
  app_store :: store
  rag_cache :: "string option"

record app_env =
  env_sv :: services
  app_secret :: "string option"

record ui =
  ui_password :: string
  ui_login :: bool
  ui_refresh :: bool
  ui_chat :: "string option"

definition DEFAULT_PASSWORD :: string where
  "DEFAULT_PASSWORD = ''admin123''"

text \<open>
  \<open>check_password()\<close> (lines 24--47) with the run it belongs to (lines 50--51): the
  result says whether the rest of the script runs. A correct password sets the flag and
  reruns the script, so the run that logs in does nothing else.
\<close>

definition check_password :: "string option \<Rightarrow> session \<Rightarrow> ui \<Rightarrow> bool \<times> session" where
  "check_password secret s u =
     (let s1 = (if authenticated s = None then s\<lparr>authenticated := Some False\<rparr> else s)
      in if authenticated s1 = Some True then (True, s1)
         else if ui_login u \<and> ui_password u = (case secret of None \<Rightarrow> DEFAULT_PASSWORD | Some p \<Rightarrow> p)
         then (False, s1\<lparr>authenticated := Some True\<rparr>)
         else (False, s1))"

definition init_messages :: "session \<Rightarrow> session" where
  "init_messages s = (if messages s = None then s\<lparr>messages := Some []\<rparr> else s)"

text \<open>
  The re-index button (lines 66--83): delete the index directory if it exists, then load,
  split and index the corpus. An exception leaves the store as it is at that point.
\<close>

definition refresh_index :: "services \<Rightarrow> store \<Rightarrow> unit result \<times> store" where
  "refresh_index sv st =
     (let st1 = (if disk st CHROMA_PATH \<noteq> None then st\<lparr>disk := (disk st)(CHROMA_PATH := None)\<rparr> else st)
      in case load_documents (sv_files sv) DATA_PATH of
           Inl e \<Rightarrow> (Inl e, st1)
         | Inr docs \<Rightarrow> (case split_text docs of
              Inl e \<Rightarrow> (Inl e, st1)
            | Inr chunks \<Rightarrow> (case create_vector_store (sv_emb sv) chunks st1 of
                 (r, st2) \<Rightarrow> (rmap (\<lambda>_. ()) r, st2))))"

text \<open>\<open>init_rag()\<close> under \<open>@st.cache_resource\<close> (lines 89--109).\<close>

definition init_rag :: "services \<Rightarrow> app_state \<Rightarrow> unit result \<times> app_state" where
  "init_rag sv w =
     (case rag_cache w of
        Some p \<Rightarrow> (Inr (), w)
      | None \<Rightarrow> (case open_or_build sv (app_store w) of
           (Inl e, st') \<Rightarrow> (Inl e, w\<lparr>app_store := st'\<rparr>)
         | (Inr p, st') \<Rightarrow> (Inr (), w\<lparr>app_store := st', rag_cache := Some p\<rparr>)))"

text \<open>
  One question (lines 117--141): the user message is appended first; the rewrite and the
  chain run inside \<open>try\<close>, and only a reply is appended. The chain is the cached one,
  whose retriever reads directory \<open>p\<close>.
\<close>

definition rag_answer :: "services \<Rightarrow> string \<Rightarrow> store \<Rightarrow> string \<Rightarrow> string result" where
  "rag_answer sv p st prompt =
     rbind (construct_query (sv_llm sv) prompt)
       (create_rag_chain (sv_llm sv) (get_retriever (sv_llm sv) (sv_emb sv) p st))"

definition chat_turn :: "services \<Rightarrow> string \<Rightarrow> string \<Rightarrow> app_state \<Rightarrow> app_state" where
  "chat_turn sv p prompt w =
     (let ms = (case messages (sess w) of None \<Rightarrow> [] | Some ms \<Rightarrow> ms) @ [(''user'', prompt)]
      in case rag_answer sv p (app_store w) prompt of
           Inl e \<Rightarrow> w\<lparr>sess := (sess w)\<lparr>messages := Some ms\<rparr>\<rparr>
         | Inr resp \<Rightarrow> w\<lparr>sess := (sess w)\<lparr>messages := Some (ms @ [(''assistant'', resp)])\<rparr>\<rparr>)"

text \<open>One run of the script (lines 49--141).\<close>

definition app_run :: "app_env \<Rightarrow> ui \<Rightarrow> app_state \<Rightarrow> app_state" where
  "app_run env u w =
     (case check_password (app_secret env) (sess w) u of
        (False, s1) \<Rightarrow> w\<lparr>sess := s1\<rparr>
      | (True, s1) \<Rightarrow>
          (let w2 = w\<lparr>sess := init_messages s1\<rparr>
           in if ui_refresh u
              then (case refresh_index (env_sv env) (app_store w2) of (r, st') \<Rightarrow> w2\<lparr>app_store := st'\<rparr>)
              else (case init_rag (env_sv env) w2 of
                      (Inl e, w3) \<Rightarrow> w3
                    | (Inr _, w3) \<Rightarrow>
                        (case (ui_chat u, rag_cache w3) of
                           (Some prompt, Some p) \<Rightarrow> if prompt = [] then w3 else chat_turn (env_sv env) p prompt w3
                         | _ \<Rightarrow> w3))))"

text \<open>
  The states a session can reach: it starts with an empty session state, any store, and a
  cache that another session may already have filled, and moves by script runs.
\<close>

definition fresh_session :: session where
  "fresh_session = \<lparr>authenticated = None, messages = None\<rparr>"

inductive reachable :: "app_env \<Rightarrow> app_state \<Rightarrow> bool" for env where
  start: "c = None \<or> c = Some CHROMA_PATH \<Longrightarrow>
          reachable env \<lparr>sess = fresh_session, app_store = st, rag_cache = c\<rparr>"
| run: "reachable env w \<Longrightarrow> reachable env (app_run env u w)"

text \<open>A transcript is a sequence of user messages, each followed by at most one reply.\<close>

fun wf_transcript :: "(string \<times> string) list \<Rightarrow> bool" where
  "wf_transcript [] = True"
| "wf_transcript ((r, m) # rest) =
     (r = ''user'' \<and>
      (case rest of
         (r', m') # rest' \<Rightarrow> (if r' = ''assistant'' then wf_transcript rest' else wf_transcript rest)
       | [] \<Rightarrow> True))"

text \<open>
  The invariant of reachable states: a transcript exists only in an authenticated session
  and is well formed, and the cached chain, if any, reads \<open>CHROMA_PATH\<close>.
\<close>

definition sess_ok :: "session \<Rightarrow> bool" where
  "sess_ok s =
     (case messages s of None \<Rightarrow> True | Some ms \<Rightarrow> wf_transcript ms \<and> authenticated s = Some True)"

definition app_inv :: "app_state \<Rightarrow> bool" where
  "app_inv w = (sess_ok (sess w) \<and> (rag_cache w = None \<or> rag_cache w = Some CHROMA_PATH))"

subsection \<open>Lemmas\<close>

lemma wf_transcript_append:
  "wf_transcript xs \<Longrightarrow> wf_transcript ys \<Longrightarrow> wf_transcript (xs @ ys)"
proof (induction xs rule: wf_transcript.induct)
  case 1
  then show ?case by simp
next
  case (2 r m rest)
  show ?case
  proof (cases rest)
    case Nil
    then show ?thesis using "2.prems" by (cases ys) auto
  next
    case (Cons x rest')
    then show ?thesis using 2 by (cases x) (auto split: if_splits)
  qed
qed

lemma chroma_from_documents_Inr: "chroma_from_documents emb p docs st = (Inr q, st') \<Longrightarrow> q = p"
  by (auto simp: chroma_from_documents_def Let_def split: prod.splits option.splits)

lemma open_or_build_Inr: "open_or_build sv st = (Inr p, st') \<Longrightarrow> p = CHROMA_PATH"
  by (auto simp: open_or_build_def load_vector_store_def create_vector_store_def
      split: if_splits sum.splits prod.splits dest: chroma_from_documents_Inr)

lemma check_password_locked:
  "authenticated s \<noteq> Some True \<Longrightarrow>
   \<exists>s1. check_password secret s u = (False, s1) \<and> messages s1 = messages s"
  by (auto simp: check_password_def Let_def)

lemma check_password_open:
  "authenticated s = Some True \<Longrightarrow> check_password secret s u = (True, s)"
  by (simp add: check_password_def)

lemma chat_turn_effect:
  "\<exists>ext. messages (sess (chat_turn sv p prompt w)) =
            Some ((case messages (sess w) of None \<Rightarrow> [] | Some ms \<Rightarrow> ms) @ (''user'', prompt) # ext)
     \<and> (ext = [] \<or> (\<exists>r. ext = [(''assistant'', r)]))
     \<and> authenticated (sess (chat_turn sv p prompt w)) = authenticated (sess w)
     \<and> app_store (chat_turn sv p prompt w) = app_store w
     \<and> rag_cache (chat_turn sv p prompt w) = rag_cache w"
  by (auto simp: chat_turn_def Let_def split: sum.splits)

lemma init_rag_effect:
  "init_rag sv w = (r, w') \<Longrightarrow>
   sess w' = sess w \<and> (rag_cache w' = rag_cache w \<or> rag_cache w' = Some CHROMA_PATH) \<and>
   (r = Inr () \<longrightarrow> rag_cache w' \<noteq> None)"
  by (auto simp: init_rag_def split: option.splits prod.splits sum.splits dest: open_or_build_Inr)

lemma app_inv_store [simp]: "app_inv (w\<lparr>app_store := st\<rparr>) = app_inv w"
  by (simp add: app_inv_def)

lemma app_run_open:
  assumes "authenticated (sess w) = Some True"
  shows "app_run env u w =
     (let w2 = w\<lparr>sess := init_messages (sess w)\<rparr>
      in if ui_refresh u
         then (case refresh_index (env_sv env) (app_store w2) of (r, st') \<Rightarrow> w2\<lparr>app_store := st'\<rparr>)
         else (case init_rag (env_sv env) w2 of
                 (Inl e, w3) \<Rightarrow> w3
               | (Inr _, w3) \<Rightarrow>
                   (case (ui_chat u, rag_cache w3) of
                      (Some prompt, Some p) \<Rightarrow> if prompt = [] then w3 else chat_turn (env_sv env) p prompt w3
                    | _ \<Rightarrow> w3)))"
  using assms by (simp add: app_run_def check_password_open)

lemma app_run_locked_eq:
  assumes "authenticated (sess w) \<noteq> Some True"
  shows "\<exists>s1. app_run env u w = w\<lparr>sess := s1\<rparr> \<and> messages s1 = messages (sess w)"
  using check_password_locked [OF assms, of "app_secret env" u]
  by (auto simp: app_run_def)

lemma app_inv_step: "app_inv w \<Longrightarrow> app_inv (app_run env u w)"
proof (cases "authenticated (sess w) = Some True")
  case False
  assume inv: "app_inv w"
  from app_run_locked_eq [OF False] obtain s1 where
    "app_run env u w = w\<lparr>sess := s1\<rparr>" "messages s1 = messages (sess w)" by blast
  moreover have "messages (sess w) = None"
    using inv False by (auto simp: app_inv_def sess_ok_def split: option.splits)
  ultimately show ?thesis using inv by (simp add: app_inv_def sess_ok_def)
next
  case True
  assume inv: "app_inv w"
  let ?w2 = "w\<lparr>sess := init_messages (sess w)\<rparr>"
  have inv2: "app_inv ?w2" and auth2: "authenticated (sess ?w2) = Some True"
    using inv True by (auto simp: app_inv_def sess_ok_def init_messages_def split: option.splits)
  show ?thesis
  proof (cases "ui_refresh u")
    case True
    then show ?thesis using inv2 \<open>authenticated (sess w) = Some True\<close>
      by (simp add: app_run_open split: prod.splits)
  next
    case False
    obtain r w3 where ir: "init_rag (env_sv env) ?w2 = (r, w3)" by fastforce
    from init_rag_effect [OF ir] have inv3: "app_inv w3" and auth3: "authenticated (sess w3) = Some True"
      using inv2 auth2 by (auto simp: app_inv_def)
    have chat: "app_inv (chat_turn (env_sv env) p prompt w3)" for p prompt
    proof -
      from chat_turn_effect [of "env_sv env" p prompt w3] obtain ext where
        m: "messages (sess (chat_turn (env_sv env) p prompt w3)) =
              Some ((case messages (sess w3) of None \<Rightarrow> [] | Some ms \<Rightarrow> ms) @ (''user'', prompt) # ext)"
        and ext: "ext = [] \<or> (\<exists>r. ext = [(''assistant'', r)])"
        and rest: "authenticated (sess (chat_turn (env_sv env) p prompt w3)) = authenticated (sess w3)"
          "rag_cache (chat_turn (env_sv env) p prompt w3) = rag_cache w3"
        by blast
      have "wf_transcript (case messages (sess w3) of None \<Rightarrow> [] | Some ms \<Rightarrow> ms)"
        using inv3 by (auto simp: app_inv_def sess_ok_def split: option.splits)
      moreover have "wf_transcript ((''user'', prompt) # ext)" using ext by auto
      ultimately show ?thesis
        using m rest inv3 auth3 by (simp add: app_inv_def sess_ok_def wf_transcript_append)
    qed
    have eq: "app_run env u w =
        (case r of
           Inl e \<Rightarrow> w3
         | Inr _ \<Rightarrow> (case (ui_chat u, rag_cache w3) of
              (Some prompt, Some p) \<Rightarrow> if prompt = [] then w3 else chat_turn (env_sv env) p prompt w3
            | _ \<Rightarrow> w3))"
      using False ir \<open>authenticated (sess w) = Some True\<close>
      by (simp add: app_run_open split: sum.splits unit.splits)
    show ?thesis
    proof (cases r)
      case (Inl e)
      then show ?thesis using eq inv3 by simp
    next
      case (Inr x)
      then show ?thesis using eq inv3 chat
        by (cases "ui_chat u"; cases "rag_cache w3") simp_all
    qed
  qed
qed

lemma reachable_app_inv: "reachable env w \<Longrightarrow> app_inv w"
proof (induction rule: reachable.induct)
  case (start c st)
  then show ?case by (auto simp: app_inv_def sess_ok_def fresh_session_def)
next
  case (run w u)
  from run.IH show ?case by (rule app_inv_step)
qed

subsection \<open>Properties of the front end\<close>

text \<open>
  C14. Until the session is authenticated, a script run changes nothing but the session's
  login flag: whatever the user types or clicks, the index on disk, the cached chain and
  the transcript stay as they are (the re-index button and the chat input are not reached).
\<close>

theorem app_run_locked:
  assumes "authenticated (sess w) \<noteq> Some True"
  shows "app_store (app_run env u w) = app_store w \<and> rag_cache (app_run env u w) = rag_cache w \<and>
         messages (sess (app_run env u w)) = messages (sess w)"
  using app_run_locked_eq [OF assms, of env u] by auto

theorem app_run_locked_witness:
  "authenticated (sess \<lparr>sess = fresh_session, app_store = \<lparr>disk = \<lambda>_. None, next_uid = 0, max_batch = 1\<rparr>,
                        rag_cache = None\<rparr>) \<noteq> Some True
   \<and> app_store (app_run \<lparr>env_sv = \<lparr>sv_files = \<lparr>fs_dirs = [], fs_files = []\<rparr>,
                                  sv_emb = \<lparr>embed_documents = \<lambda>ts. Inr [], embed_query = \<lambda>q. Inr []\<rparr>,
                                  sv_llm = \<lambda>c p. Inr []\<rparr>, app_secret = None\<rparr>
          \<lparr>ui_password = ''guess'', ui_login = True, ui_refresh = True, ui_chat = Some ''hi''\<rparr>
          \<lparr>sess = fresh_session, app_store = \<lparr>disk = \<lambda>_. None, next_uid = 0, max_batch = 1\<rparr>,
           rag_cache = None\<rparr>) = \<lparr>disk = \<lambda>_. None, next_uid = 0, max_batch = 1\<rparr>"
  using app_run_locked [of "\<lparr>sess = fresh_session, app_store = \<lparr>disk = \<lambda>_. None, next_uid = 0, max_batch = 1\<rparr>,
                            rag_cache = None\<rparr>"]
  by (simp add: fresh_session_def)

text \<open>
  C15. In every state a session can reach, a transcript exists only after login and is
  well formed: user messages, each followed by at most one assistant reply (a failed turn
  leaves its question without reply).
\<close>

theorem reachable_transcript:
  assumes "reachable env w" and "messages (sess w) = Some ms"
  shows "wf_transcript ms \<and> authenticated (sess w) = Some True"
  using reachable_app_inv [OF assms(1)] assms(2) by (simp add: app_inv_def sess_ok_def)

text \<open>
  C16. Once a session is authenticated it stays authenticated: no run resets the flag
  (there is no logout and no expiry).
\<close>

theorem app_run_auth_persistent:
  assumes "authenticated (sess w) = Some True"
  shows "authenticated (sess (app_run env u w)) = Some True"
proof -
  let ?w2 = "w\<lparr>sess := init_messages (sess w)\<rparr>"
  have a2: "authenticated (sess ?w2) = Some True" using assms by (simp add: init_messages_def)
  show ?thesis
  proof (cases "ui_refresh u")
    case True
    then show ?thesis using assms a2 by (simp add: app_run_open split: prod.splits)
  next
    case False
    obtain r w3 where ir: "init_rag (env_sv env) ?w2 = (r, w3)" by fastforce
    then have a3: "authenticated (sess w3) = Some True" using init_rag_effect [OF ir] a2 by simp
    have "authenticated (sess (chat_turn (env_sv env) p prompt w3)) = Some True" for p prompt
      using chat_turn_effect [of "env_sv env" p prompt w3] a3 by auto
    moreover have "app_run env u w =
        (case r of
           Inl e \<Rightarrow> w3
         | Inr _ \<Rightarrow> (case (ui_chat u, rag_cache w3) of
              (Some prompt, Some p) \<Rightarrow> if prompt = [] then w3 else chat_turn (env_sv env) p prompt w3
            | _ \<Rightarrow> w3))"
      using False ir assms by (simp add: app_run_open split: sum.splits unit.splits)
    ultimately show ?thesis using a3
      by (cases r; cases "ui_chat u"; cases "rag_cache w3") simp_all
  qed
qed

text \<open>
  C17. When no \<open>APP_PASSWORD\<close> secret is configured, the password \<open>admin123\<close>
  (the default of \<open>st.secrets.get\<close> at line 40) opens a locked session. This holds when a
  secrets store exists without that key; Streamlit versions that raise when there is no
  secrets file at all are not modelled.
\<close>

theorem app_run_default_password:
  assumes "app_secret env = None" and "authenticated (sess w) \<noteq> Some True"
    and "ui_login u" and "ui_password u = ''admin123''"
  shows "authenticated (sess (app_run env u w)) = Some True"
  using assms by (auto simp: app_run_def check_password_def DEFAULT_PASSWORD_def Let_def)

text \<open>
  C18. Re-indexing deletes the index before it reads the corpus: when loading the corpus
  fails (a missing data directory, one unreadable file), the run ends with the index
  directory gone, nothing else on disk changed, and the cached chain still pointing at the
  deleted directory. Spec 7 (d) and the open question of section 9 ask for a rebuild that
  leaves the previous index until the new one is complete.
\<close>

theorem app_run_refresh_load_error:
  assumes "authenticated (sess w) = Some True" and "ui_refresh u"
    and "load_documents (sv_files (env_sv env)) DATA_PATH = Inl e"
  shows "disk (app_store (app_run env u w)) = (disk (app_store w))(CHROMA_PATH := None) \<and>
         rag_cache (app_run env u w) = rag_cache w"
  using assms by (auto simp: app_run_open refresh_index_def Let_def fun_upd_idem)

text \<open>
  C19. A question in an authenticated session with a cached chain appends the user message
  and, only if rewriting, retrieval and generation all succeed, the reply; the index and
  the cache are not touched.
\<close>

theorem app_run_chat:
  assumes "authenticated (sess w) = Some True" and "\<not> ui_refresh u"
    and "rag_cache w = Some p" and "ui_chat u = Some prompt" and "prompt \<noteq> []"
    and "messages (sess w) = Some ms"
  shows "messages (sess (app_run env u w)) =
           Some (ms @ (''user'', prompt) #
                 (case rag_answer (env_sv env) p (app_store w) prompt of
                    Inl e \<Rightarrow> []
                  | Inr r \<Rightarrow> [(''assistant'', r)]))
         \<and> app_store (app_run env u w) = app_store w \<and> rag_cache (app_run env u w) = rag_cache w"
proof -
  have "init_rag (env_sv env) (w\<lparr>sess := init_messages (sess w)\<rparr>) = (Inr (), w\<lparr>sess := init_messages (sess w)\<rparr>)"
    using assms(3) by (simp add: init_rag_def)
  moreover have "init_messages (sess w) = sess w" using assms(6) by (simp add: init_messages_def)
  ultimately have "app_run env u w = chat_turn (env_sv env) p prompt w"
    using assms by (simp add: app_run_open split: unit.splits)
  then show ?thesis
    using assms(6) by (simp add: chat_turn_def Let_def split: sum.splits)
qed

theorem reachable_transcript_witness:
  "\<exists>w ms. reachable \<lparr>env_sv = \<lparr>sv_files = \<lparr>fs_dirs = [], fs_files = []\<rparr>,
               sv_emb = \<lparr>embed_documents = \<lambda>ts. Inr (map (\<lambda>t. [real (length t)]) ts),
                         embed_query = \<lambda>q. Inr [real (length q)]\<rparr>,
               sv_llm = \<lambda>c p. Inr ''Fridays''\<rparr>,
      app_secret = None\<rparr> w \<and> messages (sess w) = Some ms \<and>
     wf_transcript ms \<and> authenticated (sess w) = Some True \<and>
     ms = [(''user'', ''When is the office closed?''), (''assistant'', ''Fridays'')]"
proof -
  let ?env = "\<lparr>env_sv = \<lparr>sv_files = \<lparr>fs_dirs = [], fs_files = []\<rparr>,
               sv_emb = \<lparr>embed_documents = \<lambda>ts. Inr (map (\<lambda>t. [real (length t)]) ts),
                         embed_query = \<lambda>q. Inr [real (length q)]\<rparr>,
               sv_llm = \<lambda>c p. Inr ''Fridays''\<rparr>,
      app_secret = None\<rparr>"
  let ?w2 = "app_run ?env \<lparr>ui_password = [], ui_login = False, ui_refresh = False, ui_chat = Some ''When is the office closed?''\<rparr> (app_run ?env \<lparr>ui_password = ''admin123'', ui_login = True, ui_refresh = False, ui_chat = None\<rparr> \<lparr>sess = fresh_session, app_store = \<lparr>disk = (\<lambda>_. None)(CHROMA_PATH \<mapsto>
          [\<lparr>ent_id = ''uuid-0'', ent_vec = [25], ent_text = ''Offices close on Fridays.'', ent_meta = []\<rparr>]),
        next_uid = 1, max_batch = 1\<rparr>, rag_cache = Some CHROMA_PATH\<rparr>)"
  have r: "reachable ?env ?w2"
    by (intro reachable.run reachable.start) simp
  have m: "messages (sess ?w2) = Some [(''user'', ''When is the office closed?''), (''assistant'', ''Fridays'')]"
    by (simp add: app_run_def check_password_def DEFAULT_PASSWORD_def Let_def init_messages_def init_rag_def
        chat_turn_def rag_answer_def construct_query_def fmt_rewrite_template get_retriever_eq create_rag_chain_eq
        line_list_parse_def py_strip_def py_isspace_def split_on_def retrieve_documents_def base_retriever_def
        similarity_search_def unique_documents_def fresh_session_def)
  show ?thesis using reachable_transcript [OF r m] r m by blast
qed

theorem app_run_auth_persistent_witness:
  "authenticated (sess \<lparr>sess = \<lparr>authenticated = Some True, messages = Some []\<rparr>, app_store = \<lparr>disk = (\<lambda>_. None)(CHROMA_PATH \<mapsto>
          [\<lparr>ent_id = ''uuid-0'', ent_vec = [25], ent_text = ''Offices close on Fridays.'', ent_meta = []\<rparr>]),
        next_uid = 1, max_batch = 1\<rparr>, rag_cache = Some CHROMA_PATH\<rparr>) = Some True \<and> authenticated (sess (app_run \<lparr>env_sv = \<lparr>sv_files = \<lparr>fs_dirs = [], fs_files = []\<rparr>,
               sv_emb = \<lparr>embed_documents = \<lambda>ts. Inr (map (\<lambda>t. [real (length t)]) ts),
                         embed_query = \<lambda>q. Inr [real (length q)]\<rparr>,
               sv_llm = \<lambda>c p. Inr ''Fridays''\<rparr>,
      app_secret = None\<rparr> \<lparr>ui_password = [], ui_login = False, ui_refresh = True, ui_chat = None\<rparr> \<lparr>sess = \<lparr>authenticated = Some True, messages = Some []\<rparr>, app_store = \<lparr>disk = (\<lambda>_. None)(CHROMA_PATH \<mapsto>
          [\<lparr>ent_id = ''uuid-0'', ent_vec = [25], ent_text = ''Offices close on Fridays.'', ent_meta = []\<rparr>]),
        next_uid = 1, max_batch = 1\<rparr>, rag_cache = Some CHROMA_PATH\<rparr>)) = Some True"
  using app_run_auth_persistent [of "\<lparr>sess = \<lparr>authenticated = Some True, messages = Some []\<rparr>, app_store = \<lparr>disk = (\<lambda>_. None)(CHROMA_PATH \<mapsto>
          [\<lparr>ent_id = ''uuid-0'', ent_vec = [25], ent_text = ''Offices close on Fridays.'', ent_meta = []\<rparr>]),
        next_uid = 1, max_batch = 1\<rparr>, rag_cache = Some CHROMA_PATH\<rparr>" "\<lparr>env_sv = \<lparr>sv_files = \<lparr>fs_dirs = [], fs_files = []\<rparr>,
               sv_emb = \<lparr>embed_documents = \<lambda>ts. Inr (map (\<lambda>t. [real (length t)]) ts),
                         embed_query = \<lambda>q. Inr [real (length q)]\<rparr>,
               sv_llm = \<lambda>c p. Inr ''Fridays''\<rparr>,
      app_secret = None\<rparr>" "\<lparr>ui_password = [], ui_login = False, ui_refresh = True, ui_chat = None\<rparr>"] by simp

theorem app_run_default_password_witness:
  "authenticated (sess (app_run \<lparr>env_sv = \<lparr>sv_files = \<lparr>fs_dirs = [], fs_files = []\<rparr>,
               sv_emb = \<lparr>embed_documents = \<lambda>ts. Inr (map (\<lambda>t. [real (length t)]) ts),
                         embed_query = \<lambda>q. Inr [real (length q)]\<rparr>,
               sv_llm = \<lambda>c p. Inr ''Fridays''\<rparr>,
      app_secret = None\<rparr> \<lparr>ui_password = ''admin123'', ui_login = True, ui_refresh = False, ui_chat = None\<rparr> \<lparr>sess = fresh_session, app_store = \<lparr>disk = (\<lambda>_. None)(CHROMA_PATH \<mapsto>
          [\<lparr>ent_id = ''uuid-0'', ent_vec = [25], ent_text = ''Offices close on Fridays.'', ent_meta = []\<rparr>]),
        next_uid = 1, max_batch = 1\<rparr>, rag_cache = None\<rparr>)) = Some True"
  by (rule app_run_default_password) (simp_all add: fresh_session_def)

theorem app_run_refresh_load_error_witness:
  "disk (app_store (app_run \<lparr>env_sv = \<lparr>sv_files = \<lparr>fs_dirs = [], fs_files = []\<rparr>,
               sv_emb = \<lparr>embed_documents = \<lambda>ts. Inr (map (\<lambda>t. [real (length t)]) ts),
                         embed_query = \<lambda>q. Inr [real (length q)]\<rparr>,
               sv_llm = \<lambda>c p. Inr ''Fridays''\<rparr>,
      app_secret = None\<rparr> \<lparr>ui_password = [], ui_login = False, ui_refresh = True, ui_chat = None\<rparr> \<lparr>sess = \<lparr>authenticated = Some True, messages = Some []\<rparr>, app_store = \<lparr>disk = (\<lambda>_. None)(CHROMA_PATH \<mapsto>
          [\<lparr>ent_id = ''uuid-0'', ent_vec = [25], ent_text = ''Offices close on Fridays.'', ent_meta = []\<rparr>]),
        next_uid = 1, max_batch = 1\<rparr>, rag_cache = Some CHROMA_PATH\<rparr>)) = (disk (app_store \<lparr>sess = \<lparr>authenticated = Some True, messages = Some []\<rparr>, app_store = \<lparr>disk = (\<lambda>_. None)(CHROMA_PATH \<mapsto>
          [\<lparr>ent_id = ''uuid-0'', ent_vec = [25], ent_text = ''Offices close on Fridays.'', ent_meta = []\<rparr>]),
        next_uid = 1, max_batch = 1\<rparr>, rag_cache = Some CHROMA_PATH\<rparr>))(CHROMA_PATH := None) \<and>
   rag_cache (app_run \<lparr>env_sv = \<lparr>sv_files = \<lparr>fs_dirs = [], fs_files = []\<rparr>,
               sv_emb = \<lparr>embed_documents = \<lambda>ts. Inr (map (\<lambda>t. [real (length t)]) ts),
                         embed_query = \<lambda>q. Inr [real (length q)]\<rparr>,
               sv_llm = \<lambda>c p. Inr ''Fridays''\<rparr>,
      app_secret = None\<rparr> \<lparr>ui_password = [], ui_login = False, ui_refresh = True, ui_chat = None\<rparr> \<lparr>sess = \<lparr>authenticated = Some True, messages = Some []\<rparr>, app_store = \<lparr>disk = (\<lambda>_. None)(CHROMA_PATH \<mapsto>
          [\<lparr>ent_id = ''uuid-0'', ent_vec = [25], ent_text = ''Offices close on Fridays.'', ent_meta = []\<rparr>]),
        next_uid = 1, max_batch = 1\<rparr>, rag_cache = Some CHROMA_PATH\<rparr>) = rag_cache \<lparr>sess = \<lparr>authenticated = Some True, messages = Some []\<rparr>, app_store = \<lparr>disk = (\<lambda>_. None)(CHROMA_PATH \<mapsto>
          [\<lparr>ent_id = ''uuid-0'', ent_vec = [25], ent_text = ''Offices close on Fridays.'', ent_meta = []\<rparr>]),
        next_uid = 1, max_batch = 1\<rparr>, rag_cache = Some CHROMA_PATH\<rparr>"
  by (rule app_run_refresh_load_error [where e = "FileNotFoundError (''Directory not found: '' @ DATA_PATH)"])
     (simp_all add: load_documents_def directory_loader_def)

theorem app_run_chat_witness:
  "messages (sess (app_run \<lparr>env_sv = \<lparr>sv_files = \<lparr>fs_dirs = [], fs_files = []\<rparr>,
               sv_emb = \<lparr>embed_documents = \<lambda>ts. Inr (map (\<lambda>t. [real (length t)]) ts),
                         embed_query = \<lambda>q. Inr [real (length q)]\<rparr>,
               sv_llm = \<lambda>c p. Inr ''Fridays''\<rparr>,
      app_secret = None\<rparr> \<lparr>ui_password = [], ui_login = False, ui_refresh = False, ui_chat = Some ''When is the office closed?''\<rparr> \<lparr>sess = \<lparr>authenticated = Some True, messages = Some []\<rparr>, app_store = \<lparr>disk = (\<lambda>_. None)(CHROMA_PATH \<mapsto>
          [\<lparr>ent_id = ''uuid-0'', ent_vec = [25], ent_text = ''Offices close on Fridays.'', ent_meta = []\<rparr>]),
        next_uid = 1, max_batch = 1\<rparr>, rag_cache = Some CHROMA_PATH\<rparr>)) =
     Some ([] @ (''user'', ''When is the office closed?'') #
           (case rag_answer (env_sv \<lparr>env_sv = \<lparr>sv_files = \<lparr>fs_dirs = [], fs_files = []\<rparr>,
               sv_emb = \<lparr>embed_documents = \<lambda>ts. Inr (map (\<lambda>t. [real (length t)]) ts),
                         embed_query = \<lambda>q. Inr [real (length q)]\<rparr>,
               sv_llm = \<lambda>c p. Inr ''Fridays''\<rparr>,
      app_secret = None\<rparr>) CHROMA_PATH (app_store \<lparr>sess = \<lparr>authenticated = Some True, messages = Some []\<rparr>, app_store = \<lparr>disk = (\<lambda>_. None)(CHROMA_PATH \<mapsto>
          [\<lparr>ent_id = ''uuid-0'', ent_vec = [25], ent_text = ''Offices close on Fridays.'', ent_meta = []\<rparr>]),
        next_uid = 1, max_batch = 1\<rparr>, rag_cache = Some CHROMA_PATH\<rparr>) ''When is the office closed?'' of
              Inl e \<Rightarrow> []
            | Inr r \<Rightarrow> [(''assistant'', r)]))
   \<and> app_store (app_run \<lparr>env_sv = \<lparr>sv_files = \<lparr>fs_dirs = [], fs_files = []\<rparr>,
               sv_emb = \<lparr>embed_documents = \<lambda>ts. Inr (map (\<lambda>t. [real (length t)]) ts),
                         embed_query = \<lambda>q. Inr [real (length q)]\<rparr>,
               sv_llm = \<lambda>c p. Inr ''Fridays''\<rparr>,
      app_secret = None\<rparr> \<lparr>ui_password = [], ui_login = False, ui_refresh = False, ui_chat = Some ''When is the office closed?''\<rparr> \<lparr>sess = \<lparr>authenticated = Some True, messages = Some []\<rparr>, app_store = \<lparr>disk = (\<lambda>_. None)(CHROMA_PATH \<mapsto>
          [\<lparr>ent_id = ''uuid-0'', ent_vec = [25], ent_text = ''Offices close on Fridays.'', ent_meta = []\<rparr>]),
        next_uid = 1, max_batch = 1\<rparr>, rag_cache = Some CHROMA_PATH\<rparr>) = app_store \<lparr>sess = \<lparr>authenticated = Some True, messages = Some []\<rparr>, app_store = \<lparr>disk = (\<lambda>_. None)(CHROMA_PATH \<mapsto>
          [\<lparr>ent_id = ''uuid-0'', ent_vec = [25], ent_text = ''Offices close on Fridays.'', ent_meta = []\<rparr>]),
        next_uid = 1, max_batch = 1\<rparr>, rag_cache = Some CHROMA_PATH\<rparr> \<and> rag_cache (app_run \<lparr>env_sv = \<lparr>sv_files = \<lparr>fs_dirs = [], fs_files = []\<rparr>,
               sv_emb = \<lparr>embed_documents = \<lambda>ts. Inr (map (\<lambda>t. [real (length t)]) ts),
                         embed_query = \<lambda>q. Inr [real (length q)]\<rparr>,
               sv_llm = \<lambda>c p. Inr ''Fridays''\<rparr>,
      app_secret = None\<rparr> \<lparr>ui_password = [], ui_login = False, ui_refresh = False, ui_chat = Some ''When is the office closed?''\<rparr> \<lparr>sess = \<lparr>authenticated = Some True, messages = Some []\<rparr>, app_store = \<lparr>disk = (\<lambda>_. None)(CHROMA_PATH \<mapsto>
          [\<lparr>ent_id = ''uuid-0'', ent_vec = [25], ent_text = ''Offices close on Fridays.'', ent_meta = []\<rparr>]),
        next_uid = 1, max_batch = 1\<rparr>, rag_cache = Some CHROMA_PATH\<rparr>) = rag_cache \<lparr>sess = \<lparr>authenticated = Some True, messages = Some []\<rparr>, app_store = \<lparr>disk = (\<lambda>_. None)(CHROMA_PATH \<mapsto>
          [\<lparr>ent_id = ''uuid-0'', ent_vec = [25], ent_text = ''Offices close on Fridays.'', ent_meta = []\<rparr>]),
        next_uid = 1, max_batch = 1\<rparr>, rag_cache = Some CHROMA_PATH\<rparr>"
  by (rule app_run_chat) simp_all

subsection \<open>The persisted index stays well formed\<close>

lemma create_vector_store_wf:
  "store_wf st \<Longrightarrow> split_text docs = Inr chunks \<Longrightarrow> store_wf (snd (create_vector_store emb chunks st))"
  unfolding create_vector_store_def by (rule chroma_from_documents_wf) (assumption, rule split_text_ids)

lemma open_or_build_wf: "store_wf st \<Longrightarrow> store_wf (snd (open_or_build sv st))"
  by (auto simp: open_or_build_def load_vector_store_def store_wf_chroma_open create_vector_store_wf
      split: sum.splits)

lemma refresh_index_wf: "store_wf st \<Longrightarrow> store_wf (snd (refresh_index sv st))"
proof (cases "disk st CHROMA_PATH = None")
  case True
  assume wf: "store_wf st"
  then show ?thesis using True create_vector_store_wf [OF wf]
    by (auto simp: refresh_index_def Let_def case_prod_unfold split: sum.splits)
next
  case False
  assume wf: "store_wf st"
  then have wf1: "store_wf (st\<lparr>disk := (disk st)(CHROMA_PATH := None)\<rparr>)" by (rule store_wf_del)
  then show ?thesis using False create_vector_store_wf [OF wf1]
    by (auto simp: refresh_index_def Let_def case_prod_unfold split: sum.splits)
qed

lemma init_rag_wf: "init_rag sv w = (r, w') \<Longrightarrow> store_wf (app_store w) \<Longrightarrow> store_wf (app_store w')"
  using open_or_build_wf [of "app_store w" sv]
  by (auto simp: init_rag_def split: option.splits prod.splits sum.splits)

lemma chat_turn_store: "app_store (chat_turn sv p prompt w) = app_store w"
  by (simp add: chat_turn_def Let_def split: sum.splits)

text \<open>
  C22. Every script run keeps the persisted index well formed (\<open>store_wf\<close>: distinct
  record ids, each a \<open>uuid4\<close> already handed out), whether it logs in, re-indexes (delete,
  load, split, embed, with partial commits when a batch fails), builds the index on first
  use or answers a question.
\<close>

theorem app_run_store_wf:
  assumes "store_wf (app_store w)"
  shows "store_wf (app_store (app_run env u w))"
proof (cases "authenticated (sess w) = Some True")
  case False
  from app_run_locked_eq [OF False, of env u] obtain s1 where "app_run env u w = w\<lparr>sess := s1\<rparr>" by blast
  then show ?thesis using assms by simp
next
  case True
  let ?w2 = "w\<lparr>sess := init_messages (sess w)\<rparr>"
  show ?thesis
  proof (cases "ui_refresh u")
    case True
    then show ?thesis using \<open>authenticated (sess w) = Some True\<close> refresh_index_wf [OF assms, of "env_sv env"]
      by (simp add: app_run_open case_prod_unfold)
  next
    case False
    obtain r w3 where ir: "init_rag (env_sv env) ?w2 = (r, w3)" by fastforce
    have wf3: "store_wf (app_store w3)" using init_rag_wf [OF ir] assms by simp
    have eq: "app_run env u w =
        (case r of
           Inl e \<Rightarrow> w3
         | Inr _ \<Rightarrow> (case (ui_chat u, rag_cache w3) of
              (Some prompt, Some p) \<Rightarrow> if prompt = [] then w3 else chat_turn (env_sv env) p prompt w3
            | _ \<Rightarrow> w3))"
      using False ir \<open>authenticated (sess w) = Some True\<close>
      by (simp add: app_run_open split: sum.splits unit.splits)
    show ?thesis using wf3 unfolding eq
      by (cases r; cases "ui_chat u"; cases "rag_cache w3") (simp_all add: chat_turn_store)
  qed
qed

lemma store_wf_example: "store_wf \<lparr>disk = (\<lambda>_. None)(CHROMA_PATH \<mapsto>
          [\<lparr>ent_id = ''uuid-0'', ent_vec = [25], ent_text = ''Offices close on Fridays.'', ent_meta = []\<rparr>]),
        next_uid = 1, max_batch = 1\<rparr>"
proof -
  have "''uuid-0'' \<in> uuid_str ` {..<1}"
    by (rule image_eqI [where x = 0]) (code_simp, simp)
  then show ?thesis by (simp add: store_wf_def)
qed

theorem app_run_store_wf_witness:
  "store_wf (app_store \<lparr>sess = \<lparr>authenticated = Some True, messages = Some []\<rparr>, app_store = \<lparr>disk = (\<lambda>_. None)(CHROMA_PATH \<mapsto>
          [\<lparr>ent_id = ''uuid-0'', ent_vec = [25], ent_text = ''Offices close on Fridays.'', ent_meta = []\<rparr>]),
        next_uid = 1, max_batch = 1\<rparr>, rag_cache = Some CHROMA_PATH\<rparr>) \<and> store_wf (app_store (app_run \<lparr>env_sv = \<lparr>sv_files = \<lparr>fs_dirs = [], fs_files = []\<rparr>,
               sv_emb = \<lparr>embed_documents = \<lambda>ts. Inr (map (\<lambda>t. [real (length t)]) ts),
                         embed_query = \<lambda>q. Inr [real (length q)]\<rparr>,
               sv_llm = \<lambda>c p. Inr ''Fridays''\<rparr>,
      app_secret = None\<rparr> \<lparr>ui_password = [], ui_login = False, ui_refresh = True, ui_chat = None\<rparr> \<lparr>sess = \<lparr>authenticated = Some True, messages = Some []\<rparr>, app_store = \<lparr>disk = (\<lambda>_. None)(CHROMA_PATH \<mapsto>
          [\<lparr>ent_id = ''uuid-0'', ent_vec = [25], ent_text = ''Offices close on Fridays.'', ent_meta = []\<rparr>]),
        next_uid = 1, max_batch = 1\<rparr>, rag_cache = Some CHROMA_PATH\<rparr>))"
  using app_run_store_wf [of "\<lparr>sess = \<lparr>authenticated = Some True, messages = Some []\<rparr>, app_store = \<lparr>disk = (\<lambda>_. None)(CHROMA_PATH \<mapsto>
          [\<lparr>ent_id = ''uuid-0'', ent_vec = [25], ent_text = ''Offices close on Fridays.'', ent_meta = []\<rparr>]),
        next_uid = 1, max_batch = 1\<rparr>, rag_cache = Some CHROMA_PATH\<rparr>" "\<lparr>env_sv = \<lparr>sv_files = \<lparr>fs_dirs = [], fs_files = []\<rparr>,
               sv_emb = \<lparr>embed_documents = \<lambda>ts. Inr (map (\<lambda>t. [real (length t)]) ts),
                         embed_query = \<lambda>q. Inr [real (length q)]\<rparr>,
               sv_llm = \<lambda>c p. Inr ''Fridays''\<rparr>,
      app_secret = None\<rparr>" "\<lparr>ui_password = [], ui_login = False, ui_refresh = True, ui_chat = None\<rparr>"] store_wf_example by simp

subsection \<open>Re-indexing twice\<close>

lemma refresh_index_ok:
  assumes "load_documents (sv_files sv) DATA_PATH = Inr docs" "split_text docs = Inr chunks"
    and "\<forall>ts. \<exists>vs. embed_documents (sv_emb sv) ts = Inr vs \<and> length vs = length ts"
  shows "\<exists>c. refresh_index sv st =
            (Inr (), st\<lparr>disk := (disk st)(CHROMA_PATH \<mapsto> c), next_uid := next_uid st + length chunks\<rparr>)
          \<and> map (\<lambda>e. (ent_text e, ent_meta e)) c = map (\<lambda>d. (page_content d, metadata d)) chunks"
proof -
  define st1 where "st1 = (if disk st CHROMA_PATH \<noteq> None
                           then st\<lparr>disk := (disk st)(CHROMA_PATH := None)\<rparr> else st)"
  have n: "disk st1 CHROMA_PATH = None" and u: "next_uid st1 = next_uid st"
    by (simp_all add: st1_def)
  have "\<forall>d\<in>set chunks. doc_id d = None \<and> metadata d \<noteq> []"
    using split_text_ids [OF assms(2)] split_text_meta [OF assms(2)] load_documents_meta [OF assms(1)]
    by fastforce
  from chroma_from_documents_ok [OF assms(3) this, of st1 CHROMA_PATH] n u obtain c where
    r: "chroma_from_documents (sv_emb sv) CHROMA_PATH chunks st1 =
        (Inr CHROMA_PATH, st1\<lparr>disk := (disk st1)(CHROMA_PATH \<mapsto> c), next_uid := next_uid st + length chunks\<rparr>)"
    and t: "map (\<lambda>e. (ent_text e, ent_meta e)) c = map (\<lambda>d. (page_content d, metadata d)) chunks"
    by auto
  have s: "st1\<lparr>disk := (disk st1)(CHROMA_PATH \<mapsto> c), next_uid := next_uid st + length chunks\<rparr> =
        st\<lparr>disk := (disk st)(CHROMA_PATH \<mapsto> c), next_uid := next_uid st + length chunks\<rparr>"
    by (simp add: st1_def)
  have "refresh_index sv st =
        (case create_vector_store (sv_emb sv) chunks st1 of (r, st2) \<Rightarrow> (rmap (\<lambda>_. ()) r, st2))"
    using assms(1,2) unfolding refresh_index_def st1_def Let_def by simp
  with r s have "refresh_index sv st =
      (Inr (), st\<lparr>disk := (disk st)(CHROMA_PATH \<mapsto> c), next_uid := next_uid st + length chunks\<rparr>)"
    by (simp add: create_vector_store_def)
  with t show ?thesis by blast
qed

lemma app_run_refresh:
  "authenticated (sess w) = Some True \<Longrightarrow> ui_refresh u \<Longrightarrow>
   app_run env u w = w\<lparr>sess := init_messages (sess w),
                       app_store := snd (refresh_index (env_sv env) (app_store w))\<rparr>"
  by (simp add: app_run_open split: prod.splits)

lemma authenticated_init_messages [simp]: "authenticated (init_messages s) = authenticated s"
  by (simp add: init_messages_def)

text \<open>
  C24. Re-indexing is idempotent (spec 8): when the corpus loads and splits into
  \<open>chunks\<close> and the provider returns one vector per text, pressing the re-index button
  leaves a collection of exactly one record per chunk, and pressing it again on the
  unchanged corpus leaves the same texts and metadata in the same order, with nothing
  duplicated, because the button deletes the directory before it builds. The store is
  the directory contents; chromadb's in-process client cache, which may still refer to a
  directory deleted by \<open>shutil.rmtree\<close>, is not modelled.
\<close>

theorem app_run_reindex_idempotent:
  assumes "authenticated (sess w) = Some True" "ui_refresh u"
    and "load_documents (sv_files (env_sv env)) DATA_PATH = Inr docs" "split_text docs = Inr chunks"
    and "\<forall>ts. \<exists>vs. embed_documents (sv_emb (env_sv env)) ts = Inr vs \<and> length vs = length ts"
  shows "\<exists>c1 c2. disk (app_store (app_run env u w)) CHROMA_PATH = Some c1
           \<and> disk (app_store (app_run env u (app_run env u w))) CHROMA_PATH = Some c2
           \<and> length c1 = length chunks
           \<and> map (\<lambda>e. (ent_text e, ent_meta e)) c2 = map (\<lambda>e. (ent_text e, ent_meta e)) c1"
proof -
  let ?w1 = "app_run env u w"
  obtain c1 where r1: "refresh_index (env_sv env) (app_store w) =
      (Inr (), (app_store w)\<lparr>disk := (disk (app_store w))(CHROMA_PATH \<mapsto> c1),
                              next_uid := next_uid (app_store w) + length chunks\<rparr>)"
    and t1: "map (\<lambda>e. (ent_text e, ent_meta e)) c1 = map (\<lambda>d. (page_content d, metadata d)) chunks"
    using refresh_index_ok [OF assms(3-5)] by blast
  obtain c2 where r2: "refresh_index (env_sv env) (app_store ?w1) =
      (Inr (), (app_store ?w1)\<lparr>disk := (disk (app_store ?w1))(CHROMA_PATH \<mapsto> c2),
                              next_uid := next_uid (app_store ?w1) + length chunks\<rparr>)"
    and t2: "map (\<lambda>e. (ent_text e, ent_meta e)) c2 = map (\<lambda>d. (page_content d, metadata d)) chunks"
    using refresh_index_ok [OF assms(3-5)] by blast
  have a1: "authenticated (sess ?w1) = Some True"
    using assms(1,2) by (simp add: app_run_refresh)
  have "length c1 = length chunks" using arg_cong [OF t1, of length] by simp
  then show ?thesis
    using r1 r2 t1 t2 assms(1,2) a1 by (simp add: app_run_refresh)
qed

theorem app_run_reindex_idempotent_witness:
  "\<exists>c1 c2.
     disk (app_store (app_run
       \<lparr>env_sv = \<lparr>sv_files = \<lparr>fs_dirs = [DATA_PATH], fs_files =
             [\<lparr>fpath = DATA_PATH @ ''/faq.txt'', as_text = Some ''Offices close on Fridays.'', as_pdf = None\<rparr>]\<rparr>,
           sv_emb = \<lparr>embed_documents = \<lambda>ts. Inr (map (\<lambda>t. [real (length t)]) ts),
                     embed_query = \<lambda>q. Inr [real (length q)]\<rparr>,
           sv_llm = \<lambda>c p. Inr ''Fridays''\<rparr>, app_secret = None\<rparr>
       \<lparr>ui_password = [], ui_login = False, ui_refresh = True, ui_chat = None\<rparr>
       \<lparr>sess = \<lparr>authenticated = Some True, messages = Some []\<rparr>,
        app_store = \<lparr>disk = \<lambda>_. None, next_uid = 0, max_batch = 1\<rparr>, rag_cache = None\<rparr>)) CHROMA_PATH = Some c1
   \<and> disk (app_store (app_run
       \<lparr>env_sv = \<lparr>sv_files = \<lparr>fs_dirs = [DATA_PATH], fs_files =
             [\<lparr>fpath = DATA_PATH @ ''/faq.txt'', as_text = Some ''Offices close on Fridays.'', as_pdf = None\<rparr>]\<rparr>,
           sv_emb = \<lparr>embed_documents = \<lambda>ts. Inr (map (\<lambda>t. [real (length t)]) ts),
                     embed_query = \<lambda>q. Inr [real (length q)]\<rparr>,
           sv_llm = \<lambda>c p. Inr ''Fridays''\<rparr>, app_secret = None\<rparr>
       \<lparr>ui_password = [], ui_login = False, ui_refresh = True, ui_chat = None\<rparr>
       (app_run
       \<lparr>env_sv = \<lparr>sv_files = \<lparr>fs_dirs = [DATA_PATH], fs_files =
             [\<lparr>fpath = DATA_PATH @ ''/faq.txt'', as_text = Some ''Offices close on Fridays.'', as_pdf = None\<rparr>]\<rparr>,
           sv_emb = \<lparr>embed_documents = \<lambda>ts. Inr (map (\<lambda>t. [real (length t)]) ts),
                     embed_query = \<lambda>q. Inr [real (length q)]\<rparr>,
           sv_llm = \<lambda>c p. Inr ''Fridays''\<rparr>, app_secret = None\<rparr>
       \<lparr>ui_password = [], ui_login = False, ui_refresh = True, ui_chat = None\<rparr>
       \<lparr>sess = \<lparr>authenticated = Some True, messages = Some []\<rparr>,
        app_store = \<lparr>disk = \<lambda>_. None, next_uid = 0, max_batch = 1\<rparr>, rag_cache = None\<rparr>))) CHROMA_PATH = Some c2
   \<and> length c1 = 1
   \<and> map (\<lambda>e. (ent_text e, ent_meta e)) c2 = map (\<lambda>e. (ent_text e, ent_meta e)) c1"
proof -
  let ?docs = "[mk_document ''Offices close on Fridays.'' [(''source'', MStr (DATA_PATH @ ''/faq.txt''))]]"
  have l: "load_documents \<lparr>fs_dirs = [DATA_PATH], fs_files =
             [\<lparr>fpath = DATA_PATH @ ''/faq.txt'', as_text = Some ''Offices close on Fridays.'', as_pdf = None\<rparr>]\<rparr>
           DATA_PATH = Inr ?docs"
    by code_simp
  have s: "split_text ?docs = Inr ?docs"
    by code_simp
  show ?thesis
    using app_run_reindex_idempotent [where docs = ?docs and chunks = ?docs
      and w = "\<lparr>sess = \<lparr>authenticated = Some True, messages = Some []\<rparr>,
        app_store = \<lparr>disk = \<lambda>_. None, next_uid = 0, max_batch = 1\<rparr>, rag_cache = None\<rparr>"
      and u = "\<lparr>ui_password = [], ui_login = False, ui_refresh = True, ui_chat = None\<rparr>"
      and env = "\<lparr>env_sv = \<lparr>sv_files = \<lparr>fs_dirs = [DATA_PATH], fs_files =
             [\<lparr>fpath = DATA_PATH @ ''/faq.txt'', as_text = Some ''Offices close on Fridays.'', as_pdf = None\<rparr>]\<rparr>,
           sv_emb = \<lparr>embed_documents = \<lambda>ts. Inr (map (\<lambda>t. [real (length t)]) ts),
                     embed_query = \<lambda>q. Inr [real (length q)]\<rparr>,
           sv_llm = \<lambda>c p. Inr ''Fridays''\<rparr>, app_secret = None\<rparr>"] l s
    by simp
qed

subsection \<open>Logging in, then asking\<close>

lemma app_run_login:
  assumes "ui_login u" "ui_password u = (case app_secret env of None \<Rightarrow> DEFAULT_PASSWORD | Some p \<Rightarrow> p)"
  shows "app_run env u \<lparr>sess = fresh_session, app_store = st, rag_cache = c\<rparr> =
         \<lparr>sess = \<lparr>authenticated = Some True, messages = None\<rparr>, app_store = st, rag_cache = c\<rparr>"
  using assms by (simp add: app_run_def check_password_def fresh_session_def)

text \<open>
  C26. A fresh session that logs in with the configured password (or the default one when
  no secret is set) and then asks a non-empty question, with the index present and the
  answer pipeline succeeding with \<open>a\<close>, ends with the transcript
  \<open>[user: q, assistant: a]\<close>, the session authenticated, the chain cached on
  \<open>CHROMA_PATH\<close> and the store untouched. Whatever the user typed in the chat box during
  the login run is dropped: \<open>st.rerun()\<close> ends that run first.
\<close>

theorem app_run_login_then_chat:
  assumes "ui_login u1" "ui_password u1 = (case app_secret env of None \<Rightarrow> DEFAULT_PASSWORD | Some p \<Rightarrow> p)"
    and "\<not> ui_refresh u2" "ui_chat u2 = Some q" "q \<noteq> []"
    and "disk st CHROMA_PATH \<noteq> None" "c = None \<or> c = Some CHROMA_PATH"
    and "rag_answer (env_sv env) CHROMA_PATH st q = Inr a"
  shows "app_run env u2 (app_run env u1 \<lparr>sess = fresh_session, app_store = st, rag_cache = c\<rparr>) =
         \<lparr>sess = \<lparr>authenticated = Some True, messages = Some [(''user'', q), (''assistant'', a)]\<rparr>,
          app_store = st, rag_cache = Some CHROMA_PATH\<rparr>"
proof -
  have "init_rag (env_sv env) \<lparr>sess = \<lparr>authenticated = Some True, messages = Some []\<rparr>, app_store = st, rag_cache = c\<rparr> =
        (Inr (), \<lparr>sess = \<lparr>authenticated = Some True, messages = Some []\<rparr>, app_store = st, rag_cache = Some CHROMA_PATH\<rparr>)"
    using assms(6,7) by (auto simp: init_rag_def open_or_build_existing)
  then show ?thesis
    using assms by (simp add: app_run_login app_run_open init_messages_def chat_turn_def)
qed

theorem app_run_login_then_chat_witness:
  "app_run \<lparr>env_sv = \<lparr>sv_files = \<lparr>fs_dirs = [], fs_files = []\<rparr>,
               sv_emb = \<lparr>embed_documents = \<lambda>ts. Inr (map (\<lambda>t. [real (length t)]) ts),
                         embed_query = \<lambda>q. Inr [real (length q)]\<rparr>,
               sv_llm = \<lambda>c p. Inr ''Fridays''\<rparr>,
      app_secret = Some ''s3cret''\<rparr>
     \<lparr>ui_password = [], ui_login = False, ui_refresh = False, ui_chat = Some ''When is the office closed?''\<rparr>
     (app_run \<lparr>env_sv = \<lparr>sv_files = \<lparr>fs_dirs = [], fs_files = []\<rparr>,
               sv_emb = \<lparr>embed_documents = \<lambda>ts. Inr (map (\<lambda>t. [real (length t)]) ts),
                         embed_query = \<lambda>q. Inr [real (length q)]\<rparr>,
               sv_llm = \<lambda>c p. Inr ''Fridays''\<rparr>,
      app_secret = Some ''s3cret''\<rparr>
        \<lparr>ui_password = ''s3cret'', ui_login = True, ui_refresh = False, ui_chat = Some ''hello''\<rparr>
        \<lparr>sess = fresh_session, app_store = \<lparr>disk = (\<lambda>_. None)(CHROMA_PATH \<mapsto>
          [\<lparr>ent_id = ''uuid-0'', ent_vec = [25], ent_text = ''Offices close on Fridays.'', ent_meta = []\<rparr>]),
        next_uid = 1, max_batch = 1\<rparr>, rag_cache = None\<rparr>) =
   \<lparr>sess = \<lparr>authenticated = Some True,
            messages = Some [(''user'', ''When is the office closed?''), (''assistant'', ''Fridays'')]\<rparr>,
    app_store = \<lparr>disk = (\<lambda>_. None)(CHROMA_PATH \<mapsto>
          [\<lparr>ent_id = ''uuid-0'', ent_vec = [25], ent_text = ''Offices close on Fridays.'', ent_meta = []\<rparr>]),
        next_uid = 1, max_batch = 1\<rparr>, rag_cache = Some CHROMA_PATH\<rparr>"
proof -
  have a: "rag_answer (env_sv \<lparr>env_sv = \<lparr>sv_files = \<lparr>fs_dirs = [], fs_files = []\<rparr>,
               sv_emb = \<lparr>embed_documents = \<lambda>ts. Inr (map (\<lambda>t. [real (length t)]) ts),
                         embed_query = \<lambda>q. Inr [real (length q)]\<rparr>,
               sv_llm = \<lambda>c p. Inr ''Fridays''\<rparr>,
      app_secret = Some ''s3cret''\<rparr>) CHROMA_PATH \<lparr>disk = (\<lambda>_. None)(CHROMA_PATH \<mapsto>
          [\<lparr>ent_id = ''uuid-0'', ent_vec = [25], ent_text = ''Offices close on Fridays.'', ent_meta = []\<rparr>]),
        next_uid = 1, max_batch = 1\<rparr>
             ''When is the office closed?'' = Inr ''Fridays''"
    by code_simp
  show ?thesis
    by (rule app_run_login_then_chat) (use a in simp_all)
qed

end
