(* ===== verification/Pipeline.thy ===== *)
theory Pipeline
  imports App
begin

text \<open>
  The query-time pipeline as a state machine (spec 4.6: \<open>Idle \<rightarrow> Rewriting \<rightarrow>
  Retrieving \<rightarrow> Generating \<rightarrow> Done\<close>, any stage's fatal error going to \<open>Failed\<close>).
  The code runs it as one expression, \<open>rag_chain.invoke(construct_query(prompt))\<close> inside
  the \<open>try\<close> of \<open>src/app.py\<close> (lines 128--135, \<open>rag_answer\<close>). \<open>qstep\<close> cuts that
  expression into its stages: each stage makes exactly the call the code makes at that
  point (the rewrite, the multi-query retrieval, the formatting of the answer prompt and the
  answer call) and moves to the next stage or to \<open>QFailed\<close> with the exception.
  The properties below say which terminal stage the code's calls lead to.
\<close>

datatype qstage =
    QIdle
  | QRewriting
  | QRetrieving string
  | QGenerating string "document list"
  | QDone string
  | QFailed py_error

fun qstep :: "services \<Rightarrow> string \<Rightarrow> store \<Rightarrow> string \<Rightarrow> qstage \<Rightarrow> qstage" where
  "qstep sv p st prompt QIdle = QRewriting"
| "qstep sv p st prompt QRewriting =
     (case construct_query (sv_llm sv) prompt of Inl e \<Rightarrow> QFailed e | Inr sq \<Rightarrow> QRetrieving sq)"
| "qstep sv p st prompt (QRetrieving sq) =
     (case get_retriever (sv_llm sv) (sv_emb sv) p st sq of
        Inl e \<Rightarrow> QFailed e
      | Inr docs \<Rightarrow> QGenerating sq docs)"
| "qstep sv p st prompt (QGenerating sq docs) =
     (case rbind (fmt [(''context'', docs_str docs), (''question'', sq)] rag_template)
                 (sv_llm sv gpt_4o_mini) of
        Inl e \<Rightarrow> QFailed e
      | Inr a \<Rightarrow> QDone a)"
| "qstep sv p st prompt (QDone a) = QDone a"
| "qstep sv p st prompt (QFailed e) = QFailed e"

definition qrun :: "services \<Rightarrow> string \<Rightarrow> store \<Rightarrow> string \<Rightarrow> nat \<Rightarrow> qstage" where
  "qrun sv p st prompt n = (qstep sv p st prompt ^^ n) QIdle"

subsection \<open>Properties of the pipeline\<close>

text \<open>
  C20. When the rewrite, the retrieval and the answer call all succeed, the pipeline
  eventually reaches \<open>Done\<close> with the answer model's reply.
\<close>

theorem qrun_reaches_done:
  assumes "construct_query (sv_llm sv) prompt = Inr sq"
    and "get_retriever (sv_llm sv) (sv_emb sv) p st sq = Inr docs"
    and "sv_llm sv gpt_4o_mini (rag_prefix @ docs_str docs @ rag_middle @ sq @ rag_suffix) = Inr a"
  shows "\<exists>n. qrun sv p st prompt n = QDone a"
proof -
  have "qrun sv p st prompt 4 = QDone a"
    using assms by (simp add: qrun_def numeral_eq_Suc fmt_rag_template)
  then show ?thesis by blast
qed

text \<open>
  C21. When the rewrite call raises, the pipeline goes from \<open>Rewriting\<close> straight to
  \<open>Failed\<close> with that exception and stays there: the spec's fallback transition
  \<open>Rewriting \<rightarrow> Retrieving\<close> on error (search with the raw question) is never taken.
\<close>

theorem qrun_rewrite_failure:
  assumes "construct_query (sv_llm sv) prompt = Inl e"
  shows "qrun sv p st prompt 2 = QFailed e \<and> qrun sv p st prompt 4 = QFailed e"
  using assms by (simp add: qrun_def numeral_eq_Suc)

theorem qrun_reaches_done_witness:
  "\<exists>n. qrun \<lparr>sv_files = \<lparr>fs_dirs = [], fs_files = []\<rparr>,
      sv_emb = \<lparr>embed_documents = \<lambda>ts. Inr (map (\<lambda>t. [real (length t)]) ts),
                embed_query = \<lambda>q. Inr [real (length q)]\<rparr>,
      sv_llm = \<lambda>c p. Inr ''Fridays''\<rparr> CHROMA_PATH \<lparr>disk = (\<lambda>_. None)(CHROMA_PATH \<mapsto>
          [\<lparr>ent_id = ''uuid-0'', ent_vec = [25], ent_text = ''Offices close on Fridays.'', ent_meta = []\<rparr>]),
        next_uid = 1, max_batch = 1\<rparr> ''When is the office closed?'' n = QDone ''Fridays''"
  by (rule qrun_reaches_done [where sq = "''Fridays''" and docs = "[entry_document \<lparr>ent_id = ''uuid-0'', ent_vec = [25], ent_text = ''Offices close on Fridays.'', ent_meta = []\<rparr>]"])
     (simp_all add: construct_query_def fmt_rewrite_template get_retriever_eq
        line_list_parse_def py_strip_def py_isspace_def split_on_def retrieve_documents_def base_retriever_def
        similarity_search_def unique_documents_def)

theorem qrun_rewrite_failure_witness:
  "qrun \<lparr>sv_files = \<lparr>fs_dirs = [], fs_files = []\<rparr>,
      sv_emb = \<lparr>embed_documents = \<lambda>ts. Inr [], embed_query = \<lambda>q. Inr []\<rparr>,
      sv_llm = \<lambda>c p. Inl (ProviderError ''timeout'')\<rparr> CHROMA_PATH \<lparr>disk = (\<lambda>_. None)(CHROMA_PATH \<mapsto>
          [\<lparr>ent_id = ''uuid-0'', ent_vec = [25], ent_text = ''Offices close on Fridays.'', ent_meta = []\<rparr>]),
        next_uid = 1, max_batch = 1\<rparr> ''When is the office closed?'' 2 = QFailed (ProviderError ''timeout'') \<and>
   qrun \<lparr>sv_files = \<lparr>fs_dirs = [], fs_files = []\<rparr>,
      sv_emb = \<lparr>embed_documents = \<lambda>ts. Inr [], embed_query = \<lambda>q. Inr []\<rparr>,
      sv_llm = \<lambda>c p. Inl (ProviderError ''timeout'')\<rparr> CHROMA_PATH \<lparr>disk = (\<lambda>_. None)(CHROMA_PATH \<mapsto>
          [\<lparr>ent_id = ''uuid-0'', ent_vec = [25], ent_text = ''Offices close on Fridays.'', ent_meta = []\<rparr>]),
        next_uid = 1, max_batch = 1\<rparr> ''When is the office closed?'' 4 = QFailed (ProviderError ''timeout'')"
  by (rule qrun_rewrite_failure) (simp add: construct_query_def fmt_rewrite_template)

end
