(* ===== verification/Sessions.thy ===== *)
theory Sessions
  imports App
begin

text \<open>
  Several browser sessions on one Streamlit server. Each session has its own
  \<open>st.session_state\<close>; the persisted index and the \<open>@st.cache_resource\<close> cache of
  \<open>init_rag\<close> are shared by all of them. A script run belongs to one session and sees
  the shared store and cache as the previous run left them: runs are taken as atomic and
  interleaved one after another (the granularity spec 5 asks for, a session per request).
\<close>

type_synonym sid = nat

record server =
  srv_sessions :: "sid \<Rightarrow> session"
  srv_store :: store
  srv_cache :: "string option"

text \<open>The view one session's script run has of the server.\<close>

definition session_view :: "server \<Rightarrow> sid \<Rightarrow> app_state" where
  "session_view sv i = \<lparr>sess = srv_sessions sv i, app_store = srv_store sv, rag_cache = srv_cache sv\<rparr>"

definition server_run :: "app_env \<Rightarrow> sid \<Rightarrow> ui \<Rightarrow> server \<Rightarrow> server" where
  "server_run env i u sv =
     (let w = app_run env u (session_view sv i)
      in sv\<lparr>srv_sessions := (srv_sessions sv)(i := sess w), srv_store := app_store w,
            srv_cache := rag_cache w\<rparr>)"

fun server_runs :: "app_env \<Rightarrow> (sid \<times> ui) list \<Rightarrow> server \<Rightarrow> server" where
  "server_runs env [] sv = sv"
| "server_runs env ((i, u) # rs) sv = server_runs env rs (server_run env i u sv)"

definition server_start :: "store \<Rightarrow> server" where
  "server_start st = \<lparr>srv_sessions = \<lambda>_. fresh_session, srv_store = st, srv_cache = None\<rparr>"

definition login_password :: "app_env \<Rightarrow> string" where
  "login_password env = (case app_secret env of None \<Rightarrow> DEFAULT_PASSWORD | Some p \<Rightarrow> p)"

subsection \<open>Lemmas\<close>

lemma check_password_wrong:
  "authenticated s \<noteq> Some True \<Longrightarrow>
   \<not> (ui_login u \<and> ui_password u = (case secret of None \<Rightarrow> DEFAULT_PASSWORD | Some p \<Rightarrow> p)) \<Longrightarrow>
   \<exists>s1. check_password secret s u = (False, s1) \<and> authenticated s1 \<noteq> Some True \<and> messages s1 = messages s"
  by (auto simp: check_password_def Let_def)

lemma server_run_locked:
  assumes "authenticated (srv_sessions sv i) \<noteq> Some True"
    and "\<not> (ui_login u \<and> ui_password u = login_password env)"
  shows "srv_store (server_run env i u sv) = srv_store sv \<and> srv_cache (server_run env i u sv) = srv_cache sv
         \<and> (\<forall>j. authenticated (srv_sessions (server_run env i u sv) j) = authenticated (srv_sessions sv j)
               \<or> (j = i \<and> authenticated (srv_sessions (server_run env i u sv) j) \<noteq> Some True))"
proof -
  obtain s1 where c: "check_password (app_secret env) (srv_sessions sv i) u = (False, s1)"
      "authenticated s1 \<noteq> Some True"
    using check_password_wrong [OF assms(1), of u "app_secret env"] assms(2)
    by (auto simp: login_password_def)
  then have "app_run env u (session_view sv i) = (session_view sv i)\<lparr>sess := s1\<rparr>"
    by (simp add: app_run_def session_view_def)
  then show ?thesis using c(2)
    by (simp add: server_run_def session_view_def)
qed

subsection \<open>Properties of the shared server\<close>

text \<open>
  C28. Without the password nothing shared changes: in any interleaving of runs of
  sessions none of which is logged in, where no run submits the login form with the
  configured password (\<open>APP_PASSWORD\<close>, else \<open>admin123\<close>), the persisted index and
  the chain cache stay as they were and no session becomes authenticated, whatever the
  runs press or type (the re-index button and the chat box are behind the gate).
\<close>

theorem server_runs_without_password:
  assumes "\<forall>(i, u)\<in>set rs. \<not> (ui_login u \<and> ui_password u = login_password env)"
    and "\<forall>i. authenticated (srv_sessions sv i) \<noteq> Some True"
  shows "srv_store (server_runs env rs sv) = srv_store sv \<and> srv_cache (server_runs env rs sv) = srv_cache sv
         \<and> (\<forall>i. authenticated (srv_sessions (server_runs env rs sv) i) \<noteq> Some True)"
  using assms
proof (induction env rs sv rule: server_runs.induct)
  case (1 env sv)
  then show ?case by simp
next
  case (2 env i u rs sv)
  have l: "\<not> (ui_login u \<and> ui_password u = login_password env)" using "2.prems"(1) by auto
  have step: "srv_store (server_run env i u sv) = srv_store sv \<and> srv_cache (server_run env i u sv) = srv_cache sv
         \<and> (\<forall>j. authenticated (srv_sessions (server_run env i u sv) j) = authenticated (srv_sessions sv j)
               \<or> (j = i \<and> authenticated (srv_sessions (server_run env i u sv) j) \<noteq> Some True))"
    using server_run_locked [OF _ l] "2.prems"(2) by blast
  then have "\<forall>j. authenticated (srv_sessions (server_run env i u sv) j) \<noteq> Some True"
    using "2.prems"(2) by metis
  with "2.IH" "2.prems"(1) step show ?case by simp
qed

theorem server_runs_without_password_witness:
  "srv_store (server_runs \<lparr>env_sv = \<lparr>sv_files = \<lparr>fs_dirs = [], fs_files = []\<rparr>,
               sv_emb = \<lparr>embed_documents = \<lambda>ts. Inr (map (\<lambda>t. [real (length t)]) ts),
                         embed_query = \<lambda>q. Inr [real (length q)]\<rparr>,
               sv_llm = \<lambda>c p. Inr ''Fridays''\<rparr>,
      app_secret = None\<rparr> [(0, \<lparr>ui_password = ''letmein'', ui_login = True, ui_refresh = True, ui_chat = None\<rparr>), (1, \<lparr>ui_password = [], ui_login = False, ui_refresh = False, ui_chat = Some ''When is the office closed?''\<rparr>)] (server_start \<lparr>disk = (\<lambda>_. None)(CHROMA_PATH \<mapsto>
          [\<lparr>ent_id = ''uuid-0'', ent_vec = [25], ent_text = ''Offices close on Fridays.'', ent_meta = []\<rparr>]),
        next_uid = 1, max_batch = 1\<rparr>)) = srv_store (server_start \<lparr>disk = (\<lambda>_. None)(CHROMA_PATH \<mapsto>
          [\<lparr>ent_id = ''uuid-0'', ent_vec = [25], ent_text = ''Offices close on Fridays.'', ent_meta = []\<rparr>]),
        next_uid = 1, max_batch = 1\<rparr>)
   \<and> srv_cache (server_runs \<lparr>env_sv = \<lparr>sv_files = \<lparr>fs_dirs = [], fs_files = []\<rparr>,
               sv_emb = \<lparr>embed_documents = \<lambda>ts. Inr (map (\<lambda>t. [real (length t)]) ts),
                         embed_query = \<lambda>q. Inr [real (length q)]\<rparr>,
               sv_llm = \<lambda>c p. Inr ''Fridays''\<rparr>,
      app_secret = None\<rparr> [(0, \<lparr>ui_password = ''letmein'', ui_login = True, ui_refresh = True, ui_chat = None\<rparr>), (1, \<lparr>ui_password = [], ui_login = False, ui_refresh = False, ui_chat = Some ''When is the office closed?''\<rparr>)] (server_start \<lparr>disk = (\<lambda>_. None)(CHROMA_PATH \<mapsto>
          [\<lparr>ent_id = ''uuid-0'', ent_vec = [25], ent_text = ''Offices close on Fridays.'', ent_meta = []\<rparr>]),
        next_uid = 1, max_batch = 1\<rparr>)) = srv_cache (server_start \<lparr>disk = (\<lambda>_. None)(CHROMA_PATH \<mapsto>
          [\<lparr>ent_id = ''uuid-0'', ent_vec = [25], ent_text = ''Offices close on Fridays.'', ent_meta = []\<rparr>]),
        next_uid = 1, max_batch = 1\<rparr>)
   \<and> (\<forall>i. authenticated (srv_sessions (server_runs \<lparr>env_sv = \<lparr>sv_files = \<lparr>fs_dirs = [], fs_files = []\<rparr>,
               sv_emb = \<lparr>embed_documents = \<lambda>ts. Inr (map (\<lambda>t. [real (length t)]) ts),
                         embed_query = \<lambda>q. Inr [real (length q)]\<rparr>,
               sv_llm = \<lambda>c p. Inr ''Fridays''\<rparr>,
      app_secret = None\<rparr> [(0, \<lparr>ui_password = ''letmein'', ui_login = True, ui_refresh = True, ui_chat = None\<rparr>), (1, \<lparr>ui_password = [], ui_login = False, ui_refresh = False, ui_chat = Some ''When is the office closed?''\<rparr>)] (server_start \<lparr>disk = (\<lambda>_. None)(CHROMA_PATH \<mapsto>
          [\<lparr>ent_id = ''uuid-0'', ent_vec = [25], ent_text = ''Offices close on Fridays.'', ent_meta = []\<rparr>]),
        next_uid = 1, max_batch = 1\<rparr>)) i) \<noteq> Some True)"
  by (rule server_runs_without_password)
     (simp_all add: login_password_def DEFAULT_PASSWORD_def server_start_def fresh_session_def)

end
