(* ===== verification/Spec2Isabelle.thy ===== *)
theory Spec2Isabelle
  imports Pipeline Sessions
begin

text \<open>
  \<^bold>\<open>A verification development for the Rag-Company retrieval-augmented QA program.\<close>

  \<^bold>\<open>The program.\<close> Two Python files. \<open>src/Rag/Rag_project.py\<close> is the pipeline:
  \<open>load_documents\<close> (a \<open>DirectoryLoader\<close> per extension, PDF then TXT then Markdown),
  \<open>split_text\<close> (LangChain's \<open>RecursiveCharacterTextSplitter\<close>, 1000 characters with
  200 of overlap), \<open>create_vector_store\<close> (\<open>Chroma.from_documents\<close> with OpenAI
  embeddings, persisted under \<open>CHROMA_PATH\<close>), \<open>construct_query\<close> (a temperature-0
  chat call that rewrites the question), \<open>get_retriever\<close> (a \<open>MultiQueryRetriever\<close>
  over a top-5 similarity retriever) and \<open>create_rag_chain\<close> (context and question
  formatted into a prompt, one chat call, the text of the reply); its \<open>__main__\<close>
  block loads or builds the index and answers one question. \<open>src/app.py\<close> is the
  Streamlit front end: a password gate, a chat transcript in the session state, a button
  that deletes and rebuilds the index, and a cached chain (\<open>init_rag\<close>). The offline
  path (load, split, index) and the online path (rewrite, retrieve, generate) meet at the
  persisted index.

  \<^bold>\<open>Theories\<close> (each imports the ones it calls; this root imports \<open>Pipeline\<close>
  and \<open>Sessions\<close>, which reach all of them).
  \<^item> \<open>Prelude\<close>: Python exceptions as the values \<open>Inl e\<close> of \<open>'a result\<close>
    (\<open>py_error\<close>), sequencing (\<open>rbind\<close>, \<open>rmap\<close>, \<open>map_r\<close>: a \<open>for\<close> loop whose
    first exception aborts it) and the list, set and map lemmas the components share.
  \<^item> \<open>PyStr\<close>: the CPython string built-ins the code relies on (\<open>strip\<close>,
    \<open>split\<close>, \<open>join\<close>, \<open>repr\<close> of \<open>str\<close> and \<open>int\<close>), with the split/join round trip
    and the fact that \<open>repr\<close> never emits a raw line break.
  \<^item> \<open>Documents\<close>: LangChain's \<open>Document\<close> (text, ordered metadata, optional id).
  \<^item> \<open>Prompt\<close>: \<open>str.format\<close> as LangChain's f-string templates use it (\<open>fmt\<close>,
    with its \<open>KeyError\<close>/\<open>ValueError\<close> branches) and Python's \<open>str\<close> of a list of
    documents (\<open>docs_str\<close>, pydantic's \<open>repr\<close>).
  \<^item> \<open>Splitter\<close>: \<open>split_text\<close> (\<open>Rag_project.py\<close> 129--142) and the
    \<open>RecursiveCharacterTextSplitter\<close> it configures, modelled from the library's algorithm
    (\<open>make_text_splitter\<close>, \<open>split_text_with_regex\<close>, \<open>choose_separator\<close>,
    \<open>merge_loop\<close>/\<open>pop_front\<close> for \<open>_merge_splits\<close>, the mutually recursive
    \<open>split_rec\<close>/\<open>split_loop\<close> for \<open>_split_text\<close>, \<open>split_documents\<close>).
  \<^item> \<open>Loader\<close>: \<open>load_documents\<close> (82--124) over a file system of directories and
    files (a file is what UTF-8 decoding and \<open>pypdf\<close> make of it), with
    \<open>DirectoryLoader.load\<close>, \<open>TextLoader\<close> and \<open>PyPDFLoader\<close>.
  \<^item> \<open>VectorStore\<close>: the disk as a map from directories to Chroma collections, the
    \<open>uuid4\<close> supply as a counter; \<open>create_vector_store\<close> (147--163) through
    \<open>Chroma.from_documents\<close> (directory created first, ids, batches embedded then upserted,
    earlier batches committed), the top-5 base retriever (exact L2 search, ties in insertion
    order), and the well-formedness \<open>store_wf\<close> of the persisted collections.
  \<^item> \<open>Retriever\<close>: \<open>get_retriever\<close> (195--216): \<open>MultiQueryRetriever\<close> with its
    prompt, \<open>LineListOutputParser\<close>, one search per parsed line and \<open>_unique_documents\<close>
    (shown equal to \<open>rev (remdups (rev xs))\<close>).
  \<^item> \<open>Chain\<close>: \<open>construct_query\<close> (168--190), \<open>create_rag_chain\<close> (221--254) and the
    \<open>__main__\<close> block (259--289: \<open>open_or_build\<close>, \<open>main_run\<close>).
  \<^item> \<open>App\<close>: \<open>src/app.py\<close> as a state machine: one script run (\<open>app_run\<close>) is a step
    on the session state (\<open>authenticated\<close>, \<open>messages\<close>), the store and the
    \<open>cache_resource\<close> cache; \<open>check_password\<close>, the re-index button
    (\<open>refresh_index\<close>), \<open>init_rag\<close>, the chat turn; \<open>reachable\<close> states by rule
    induction.
  \<^item> \<open>Pipeline\<close>: the chat turn's query-time expression cut into the stages of spec
    4.6 (\<open>qstep\<close>, \<open>qrun\<close>), each stage making the call the code makes at that point.
  \<^item> \<open>Sessions\<close>: the Streamlit server with several sessions: each script run
    (\<open>server_run\<close>) is \<open>app_run\<close> on one session's own state and the shared store and
    chain cache; runs interleave one after another (\<open>server_runs\<close>).

  \<^bold>\<open>What the lemma groups show.\<close> Chunker: every chunk has at most 1000 characters and is
  a substring of its document with its metadata (C1--C2). Loader: which files are loaded
  (no \<open>.docx\<close>, whatever the docstring says), that one undecodable file aborts the whole
  load, and the document count (C3--C5). Index: a fresh build stores one record per chunk
  with distinct ids, a failed build leaves an empty directory behind, and a chunk's own text
  retrieves it (C6--C8). Retriever: union and de-duplication over the parsed lines only, no
  search for the original query, no fallback (C9--C11). Chain: the context is the
  \<open>repr\<close> of the documents, with no raw line break, and \<open>__main__\<close> asks with the
  rewritten query (C12--C13). Front end: nothing before login, well-formed transcript by
  rule induction, persistent login, the default password, the re-index that deletes first,
  the chat turn (C14--C19). Pipeline: the answer stage reached with the model's reply, no
  rewrite fallback (C20--C21). Store well-formedness across script runs (C22). Across runs
  and components: a build that failed at the provider is never repeated and later runs
  answer over an empty index (C23), re-indexing twice gives the same collection (C24), an
  empty corpus yields an empty persisted index and the context \<open>[]\<close> (C25), a login run
  followed by a question yields the two-message transcript (C26). Retrieval holds at most
  five documents per query and never more than the index (C27). Without the password no
  interleaving of sessions changes the index or the cache (C28). A build whose provider
  fails after the first batch leaves that batch persisted (C29). Spec 8's office scenario
  holds for any provider and model (C30).

  \<^bold>\<open>Bounds and fuel.\<close> No loop of the program needs fuel: the splitter's recursions are
  \<open>function\<close>s with measures (the list of pieces, the separators left), \<open>str.format\<close>
  recurses on the template's length, the loader and the batch loop are structural, and the
  staged pipeline is iterated a fixed four times. The concrete witnesses use small corpora
  and one-dimensional embeddings.

  \<^bold>\<open>Not modelled.\<close> The embedding provider and the chat model are parameters (functions
  that answer or raise), as spec 1 and 6 treat them; Chroma's storage engine and its
  approximate HNSW index are replaced by a map of directories and an exact search; the
  cached chain's retriever and the re-index button read and write the directory itself
  (chromadb's in-process client cache of a deleted directory is not modelled). \<open>load_dotenv\<close>, \<open>st.secrets\<close> other than
  \<open>APP_PASSWORD\<close>, printing and page rendering change no state the properties are about.
  Characters are Isabelle's 8-bit \<open>char\<close>, so \<open>repr\<close> escapes are those of code points
  below 256. Several sessions are modelled at the granularity of whole script runs
  (\<open>Sessions\<close>): Streamlit runs each script run in its own thread, and two runs that
  overlap in time (a re-index during another session's question) are not modelled.
\<close>


text \<open>
  C23. A failed first build leaves an index that is never rebuilt. When the index directory
  is absent, the corpus loads and splits into at least one chunk, and the embedding provider
  raises, the \<open>__main__\<close> block ends with that exception and leaves an empty
  \<open>chroma_db\<close> directory behind. The next run, whatever its services (the provider back
  up, the corpus changed), sees the directory, skips loading and indexing, retrieves nothing
  and asks the answer model with the context \<open>[]\<close> (spec 2 says the index is rebuilt
  when it is missing, but the code only tests that the directory exists).
\<close>

theorem main_run_stale_empty_index:
  assumes "disk st CHROMA_PATH = None"
    and "load_documents (sv_files sv) DATA_PATH = Inr docs" "split_text docs = Inr chunks"
    and "chunks \<noteq> []" "\<forall>ts. embed_documents (sv_emb sv) ts = Inl e"
    and "\<forall>q. \<exists>v. embed_query (sv_emb sv') q = Inr v"
    and "construct_query (sv_llm sv') USER_INPUT = Inr sq"
    and "sv_llm sv' chat_openai_default (mq_prefix @ sq) = Inr out"
  shows "\<exists>st1. main_run sv st = (Inl e, st1)
           \<and> main_run sv' st1 = (sv_llm sv' gpt_4o_mini (rag_prefix @ ''[]'' @ rag_middle @ sq @ rag_suffix), st1)"
proof -
  obtain st1 where b: "chroma_from_documents (sv_emb sv) CHROMA_PATH chunks st = (Inl e, st1)"
      and d: "disk st1 CHROMA_PATH = Some []"
    using chroma_from_documents_provider_down [OF assms(1,4,5)] by blast
  have r1: "main_run sv st = (Inl e, st1)"
    using assms(1-3) b by (simp add: main_run_def open_or_build_def create_vector_store_def)
  have "get_retriever (sv_llm sv') (sv_emb sv') CHROMA_PATH st1 sq = Inr []"
    using get_retriever_empty [where llm = "sv_llm sv'" and emb = "sv_emb sv'", OF d assms(6,8)] .
  then have "main_run sv' st1 = (sv_llm sv' gpt_4o_mini (rag_prefix @ ''[]'' @ rag_middle @ sq @ rag_suffix), st1)"
    using d assms(7) by (simp add: main_run_def open_or_build_existing create_rag_chain_eq)
  then show ?thesis using r1 by blast
qed

theorem main_run_stale_empty_index_witness:
  "\<exists>st1. main_run \<lparr>sv_files = \<lparr>fs_dirs = [DATA_PATH], fs_files =
             [\<lparr>fpath = DATA_PATH @ ''/faq.txt'', as_text = Some ''Offices close on Fridays.'', as_pdf = None\<rparr>]\<rparr>,
           sv_emb = \<lparr>embed_documents = \<lambda>ts. Inl (ProviderError ''quota''),
                     embed_query = \<lambda>q. Inl (ProviderError ''quota'')\<rparr>,
           sv_llm = \<lambda>c p. Inr ''office hours''\<rparr>
         \<lparr>disk = \<lambda>_. None, next_uid = 0, max_batch = 1\<rparr> = (Inl (ProviderError ''quota''), st1)
     \<and> main_run \<lparr>sv_files = \<lparr>fs_dirs = [], fs_files = []\<rparr>,
           sv_emb = \<lparr>embed_documents = \<lambda>ts. Inr (map (\<lambda>t. [real (length t)]) ts),
                     embed_query = \<lambda>q. Inr [real (length q)]\<rparr>,
           sv_llm = \<lambda>c p. if c = gpt_4o_mini then Inr p else Inr ''office hours''\<rparr> st1 =
         (Inr (rag_prefix @ ''[]'' @ rag_middle @ ''office hours'' @ rag_suffix), st1)"
proof -
  let ?docs = "[mk_document ''Offices close on Fridays.'' [(''source'', MStr (DATA_PATH @ ''/faq.txt''))]]"
  have l: "load_documents \<lparr>fs_dirs = [DATA_PATH], fs_files =
             [\<lparr>fpath = DATA_PATH @ ''/faq.txt'', as_text = Some ''Offices close on Fridays.'', as_pdf = None\<rparr>]\<rparr>
           DATA_PATH = Inr ?docs"
    by code_simp
  have s: "split_text ?docs = Inr ?docs"
    by code_simp
  have g: "gpt_4o_mini \<noteq> chat_openai_default"
    by (simp add: gpt_4o_mini_def chat_openai_default_def)
  show ?thesis
    using main_run_stale_empty_index [where st = "\<lparr>disk = \<lambda>_. None, next_uid = 0, max_batch = 1\<rparr>"
      and docs = ?docs and chunks = ?docs and e = "ProviderError ''quota''"
      and sq = "''office hours''" and out = "''office hours''"
      and sv = "\<lparr>sv_files = \<lparr>fs_dirs = [DATA_PATH], fs_files =
             [\<lparr>fpath = DATA_PATH @ ''/faq.txt'', as_text = Some ''Offices close on Fridays.'', as_pdf = None\<rparr>]\<rparr>,
           sv_emb = \<lparr>embed_documents = \<lambda>ts. Inl (ProviderError ''quota''),
                     embed_query = \<lambda>q. Inl (ProviderError ''quota'')\<rparr>,
           sv_llm = \<lambda>c p. Inr ''office hours''\<rparr>"
      and sv' = "\<lparr>sv_files = \<lparr>fs_dirs = [], fs_files = []\<rparr>,
           sv_emb = \<lparr>embed_documents = \<lambda>ts. Inr (map (\<lambda>t. [real (length t)]) ts),
                     embed_query = \<lambda>q. Inr [real (length q)]\<rparr>,
           sv_llm = \<lambda>c p. if c = gpt_4o_mini then Inr p else Inr ''office hours''\<rparr>"] l s g
    by (simp add: construct_query_def fmt_rewrite_template)
qed




end
